(* ===== verification/Prelude.thy ===== *)
theory Prelude
  imports Main
begin

text \<open>
  Shared material of the development: the named collections the component theories
  add to, the type names of the model (vectors, positions), and generic lemmas on
  lists (sorted prefixes, filters of distinct lists) that the retrieval proofs of
  \<open>Faiss_Index\<close>, \<open>Rag_Processor\<close> and \<open>Index_Checker\<close> share.
\<close>

named_theorems py_simps "evaluation rules of the Python value helpers"
named_theorems rag_simps "unfolding rules of the retrieval operations"

type_synonym 'a vec = "'a list"
  \<comment> \<open>an embedding vector (a numpy row); the coordinate type is left open\<close>

type_synonym position = nat
  \<comment> \<open>a 0-based position of a vector in the index and of a document in the metadata\<close>

subsection \<open>Sorted lists and their prefixes\<close>

lemma sorted_take_drop_le:
  assumes "sorted (map f xs)" and "x \<in> set (take n xs)" and "y \<in> set (drop n xs)"
  shows "f x \<le> f y"
proof -
  have "sorted (map f (take n xs) @ map f (drop n xs))"
    using assms(1) by (simp flip: map_append)
  then show ?thesis
    using assms(2,3) by (simp add: sorted_append)
qed

lemma sorted_map_take [intro]: "sorted (map f xs) \<Longrightarrow> sorted (map f (take n xs))"
  by (metis append_take_drop_id map_append sorted_append)

lemma sorted_map_filter [intro]: "sorted (map f xs) \<Longrightarrow> sorted (map f (filter P xs))"
  by (induction xs) (auto simp: sorted_wrt_map)

lemma not_in_take_in_drop:
  "x \<in> set xs \<Longrightarrow> x \<notin> set (take n xs) \<Longrightarrow> x \<in> set (drop n xs)"
  by (metis Un_iff append_take_drop_id set_append)

lemma distinct_map_sort_key [simp]: "distinct (map g (sort_key f xs)) = distinct (map g xs)"
  by (simp add: distinct_map)

subsection \<open>Filters and maps over positions\<close>

lemma length_filter_map_le: "length (map f (filter P xs)) \<le> length xs"
  by simp

lemma distinct_filter_map_inj:
  "distinct xs \<Longrightarrow> inj_on f (set xs) \<Longrightarrow> distinct (map f (filter P xs))"
  by (simp add: distinct_map inj_on_subset)

lemma distinct_card_le:
  assumes "distinct xs" and "set xs \<subseteq> {..<n}"
  shows "length xs \<le> n"
proof -
  have "length xs = card (set xs)" using assms(1) by (simp add: distinct_card)
  also have "\<dots> \<le> card {..<n}" using assms(2) by (rule card_mono [OF finite_lessThan])
  finally show ?thesis by simp
qed

end
