(* ===== verification/Py_Values.thy ===== *)
theory Py_Values
  imports Prelude
begin

text \<open>
  The Python values the sources inspect at run time, and the built-ins they apply to
  them. \<open>pyobj\<close> is the part of Python's data model a pickle file can hold and the
  code tests with \<open>isinstance\<close>: \<open>None\<close>, numbers, strings, lists, tuples and dicts.
  Strings are HOL strings, one \<open>char\<close> per code point; the model covers the code
  points below 256 (Latin-1), for which \<open>py_isspace\<close> and \<open>py_lower_char\<close> follow
  CPython's \<open>str.isspace\<close> and \<open>str.lower\<close> exactly; \<open>py_title\<close>
  follows \<open>str.title\<close> on ASCII text (Latin-1 letters above 127 are cased letters
  for CPython and are not treated as such here).
\<close>

datatype pyobj =
    PyNone
  | PyBool bool
  | PyInt int
  | PyStr string
  | PyList "pyobj list"
  | PyTuple "pyobj list"
  | PyDict "(pyobj \<times> pyobj) list"

subsection \<open>isinstance, len and indexing\<close>

fun py_seq :: "pyobj \<Rightarrow> pyobj list option" where
  \<comment> \<open>the items of a value for which \<open>isinstance(v, (list, tuple))\<close> holds\<close>
  "py_seq (PyList xs) = Some xs"
| "py_seq (PyTuple xs) = Some xs"
| "py_seq _ = None"

definition is_list_or_tuple :: "pyobj \<Rightarrow> bool" where
  "is_list_or_tuple v \<longleftrightarrow> py_seq v \<noteq> None"

fun is_str :: "pyobj \<Rightarrow> bool" where
  "is_str (PyStr _) = True"
| "is_str _ = False"

fun py_truthy :: "pyobj \<Rightarrow> bool" where
  \<comment> \<open>Python's truth value of an object (\<open>if v:\<close>)\<close>
  "py_truthy PyNone = False"
| "py_truthy (PyBool b) = b"
| "py_truthy (PyInt i) = (i \<noteq> 0)"
| "py_truthy (PyStr s) = (s \<noteq> [])"
| "py_truthy (PyList xs) = (xs \<noteq> [])"
| "py_truthy (PyTuple xs) = (xs \<noteq> [])"
| "py_truthy (PyDict kvs) = (kvs \<noteq> [])"

fun py_slice_from :: "'a list \<Rightarrow> int \<Rightarrow> 'a list" where
  \<comment> \<open>\<open>xs[i:]\<close>: a negative start counts from the end, and \<open>-0\<close> is \<open>0\<close>\<close>
  "py_slice_from xs i =
     (if i < 0 then drop (nat (max 0 (int (length xs) + i))) xs else drop (nat i) xs)"

subsection \<open>Strings\<close>

definition py_isspace :: "char \<Rightarrow> bool" where
  \<comment> \<open>\<open>str.isspace\<close> on code points below 256\<close>
  "py_isspace c \<longleftrightarrow>
     (let n = (of_char c :: nat) in (9 \<le> n \<and> n \<le> 13) \<or> (28 \<le> n \<and> n \<le> 32) \<or> n = 133 \<or> n = 160)"

definition py_strip :: "string \<Rightarrow> string" where
  \<comment> \<open>\<open>str.strip()\<close> with no argument\<close>
  "py_strip s = rev (dropWhile py_isspace (rev (dropWhile py_isspace s)))"

definition py_lower_char :: "char \<Rightarrow> char" where
  "py_lower_char c =
     (let n = (of_char c :: nat) in
      if (65 \<le> n \<and> n \<le> 90) \<or> (192 \<le> n \<and> n \<le> 222 \<and> n \<noteq> 215) then char_of (n + 32) else c)"

definition py_lower :: "string \<Rightarrow> string" where
  "py_lower s = map py_lower_char s"

definition is_ascii_letter :: "char \<Rightarrow> bool" where
  "is_ascii_letter c \<longleftrightarrow> (let n = (of_char c :: nat) in (65 \<le> n \<and> n \<le> 90) \<or> (97 \<le> n \<and> n \<le> 122))"

definition is_lower_ascii :: "char \<Rightarrow> bool" where
  "is_lower_ascii c \<longleftrightarrow> 97 \<le> (of_char c :: nat) \<and> (of_char c :: nat) \<le> 122"

definition py_upper_char :: "char \<Rightarrow> char" where
  \<comment> \<open>\<open>str.upper\<close> on ASCII letters\<close>
  "py_upper_char c = (let n = (of_char c :: nat) in if 97 \<le> n \<and> n \<le> 122 then char_of (n - 32) else c)"

fun py_title_from :: "bool \<Rightarrow> string \<Rightarrow> string" where
  \<comment> \<open>\<open>str.title()\<close> on ASCII text; the flag says whether the previous character was a letter\<close>
  "py_title_from prev [] = []"
| "py_title_from prev (c # cs) =
     (if is_ascii_letter c then (if prev then py_lower_char c else py_upper_char c) # py_title_from True cs
      else c # py_title_from False cs)"

definition py_title :: "string \<Rightarrow> string" where
  "py_title s = py_title_from False s"

fun py_contains :: "string \<Rightarrow> string \<Rightarrow> bool" where
  \<comment> \<open>\<open>p in s\<close> for strings: \<open>p\<close> occurs in \<open>s\<close> as a substring\<close>
  "py_contains [] p = (p = [])"
| "py_contains (c # s) p = (take (length p) (c # s) = p \<or> py_contains s p)"

definition py_endswith :: "string \<Rightarrow> string \<Rightarrow> bool" where
  "py_endswith s suf \<longleftrightarrow> length suf \<le> length s \<and> drop (length s - length suf) s = suf"

definition py_startswith :: "string \<Rightarrow> string \<Rightarrow> bool" where
  "py_startswith s pre \<longleftrightarrow> take (length pre) s = pre"

fun py_iter :: "pyobj \<Rightarrow> pyobj list option" where
  \<comment> \<open>what \<open>for x in v\<close> visits: elements, characters, keys; \<open>None\<close> is the \<open>TypeError\<close>\<close>
  "py_iter (PyList xs) = Some xs"
| "py_iter (PyTuple xs) = Some xs"
| "py_iter (PyStr s) = Some (map (\<lambda>c. PyStr [c]) s)"
| "py_iter (PyDict kvs) = Some (map fst kvs)"
| "py_iter _ = None"

definition py_len :: "pyobj \<Rightarrow> nat option" where
  \<comment> \<open>\<open>len(v)\<close>: the number of items iteration visits; \<open>None\<close> is the \<open>TypeError\<close>\<close>
  "py_len v = map_option length (py_iter v)"

definition py_get :: "(pyobj \<times> pyobj) list \<Rightarrow> string \<Rightarrow> pyobj" where
  \<comment> \<open>\<open>d.get(key)\<close> on a JSON object\<close>
  "py_get kvs key = (case map_of kvs (PyStr key) of None \<Rightarrow> PyNone | Some v \<Rightarrow> v)"

fun py_in :: "pyobj \<Rightarrow> pyobj \<Rightarrow> bool option" where
  \<comment> \<open>\<open>x in container\<close>; \<open>None\<close> is the \<open>TypeError\<close> it raises on other containers\<close>
  "py_in x (PyDict kvs) = Some (x \<in> set (map fst kvs))"
| "py_in x (PyList xs) = Some (x \<in> set xs)"
| "py_in x (PyTuple xs) = Some (x \<in> set xs)"
| "py_in (PyStr p) (PyStr s) = Some (py_contains s p)"
| "py_in _ _ = None"

fun digit_chars :: "nat \<Rightarrow> string" where
  \<comment> \<open>\<open>str(n)\<close> for a non-negative integer\<close>
  "digit_chars n =
     (if n < 10 then [char_of (48 + n)] else digit_chars (n div 10) @ [char_of (48 + n mod 10)])"

declare digit_chars.simps [simp del]

fun py_join :: "string \<Rightarrow> string list \<Rightarrow> string" where
  \<comment> \<open>\<open>sep.join(parts)\<close>\<close>
  "py_join sep [] = []"
| "py_join sep [s] = s"
| "py_join sep (s # t # ts) = s @ sep @ py_join sep (t # ts)"

lemmas [py_simps] = is_list_or_tuple_def py_isspace_def py_strip_def py_lower_def py_lower_char_def
  char_of_def bit_0 is_ascii_letter_def is_lower_ascii_def py_upper_char_def py_title_def
  py_endswith_def py_startswith_def py_len_def py_get_def

subsection \<open>Lemmas on the built-ins\<close>

lemma is_list_or_tuple_iff: "is_list_or_tuple v \<longleftrightarrow> (\<exists>xs. v = PyList xs \<or> v = PyTuple xs)"
  by (cases v) (auto simp: is_list_or_tuple_def)

lemma py_seq_Some_list_or_tuple: "py_seq v = Some xs \<Longrightarrow> is_list_or_tuple v"
  by (simp add: is_list_or_tuple_def)

lemma py_seq_not_None [simp]: "py_seq v \<noteq> None \<Longrightarrow> v \<noteq> PyNone"
  by auto

lemma py_contains_iff: "py_contains s p \<longleftrightarrow> (\<exists>a b. s = a @ p @ b)"
proof (induction s)
  case Nil
  then show ?case by simp
next
  case (Cons c s)
  have "take (length p) (c # s) = p \<longleftrightarrow> (\<exists>b. c # s = p @ b)"
    by (metis append_eq_conv_conj)
  moreover have "(\<exists>a b. c # s = a @ p @ b) \<longleftrightarrow>
      (\<exists>b. c # s = p @ b) \<or> (\<exists>a b. s = a @ p @ b)"
    by (auto simp: Cons_eq_append_conv)
  ultimately show ?case using Cons.IH by simp
qed

lemma all_dropWhile_iff: "(\<forall>c \<in> set (dropWhile P s). P c) \<longleftrightarrow> (\<forall>c \<in> set s. P c)"
  by (induction s) auto

lemma py_strip_empty_iff: "py_strip s = [] \<longleftrightarrow> (\<forall>c \<in> set s. py_isspace c)"
  by (simp add: py_strip_def dropWhile_eq_Nil_conv all_dropWhile_iff)

lemma set_py_strip: "set (py_strip s) \<subseteq> set s"
  unfolding py_strip_def by (auto dest!: set_dropWhileD)

lemma py_strip_Nil [simp]: "py_strip [] = []"
  by (simp add: py_strip_def)

lemma dropWhile_prefix_hd:
  assumes "xs = ys @ zs" and "ys \<noteq> []" and "dropWhile P xs = xs"
  shows "dropWhile P ys = ys"
  using assms by (metis Nil_is_append_conv dropWhile_eq_self_iff hd_append2)

lemma py_strip_idem: "py_strip (py_strip s) = py_strip s"
proof -
  let ?P = py_isspace
  let ?t = "dropWhile ?P s"
  let ?u = "rev (dropWhile ?P (rev ?t))"
  have tt: "dropWhile ?P ?t = ?t" by (simp add: dropWhile_idem)
  have split: "?t = ?u @ rev (takeWhile ?P (rev ?t))"
    by (metis rev_append rev_rev_ident takeWhile_dropWhile_id)
  have "dropWhile ?P ?u = ?u"
  proof (cases "?u = []")
    case True then show ?thesis by (simp only: True dropWhile.simps(1))
  next
    case False then show ?thesis using dropWhile_prefix_hd [OF split False tt] by simp
  qed
  then show ?thesis by (simp add: py_strip_def dropWhile_idem)
qed
lemma length_py_lower [simp]: "length (py_lower s) = length s"
  by (simp add: py_lower_def)

lemma py_slice_from_neg:
  "0 < n \<Longrightarrow> int (length xs) > n \<Longrightarrow> py_slice_from xs (- n) = drop (length xs - nat n) xs"
  by (simp add: nat_diff_distrib')

lemma length_py_slice_from_neg:
  "0 < n \<Longrightarrow> length (py_slice_from xs (- n)) = min (length xs) (nat n)"
  by simp

subsection \<open>Case mapping on ASCII letters\<close>

lemma lower_upper_char: "is_lower_ascii c \<Longrightarrow> py_lower_char (py_upper_char c) = c"
proof -
  assume "is_lower_ascii c"
  then have n: "97 \<le> (of_char c :: nat)" "(of_char c :: nat) \<le> 122" by (simp_all add: is_lower_ascii_def)
  let ?m = "of_char c - 32 :: nat"
  have u: "py_upper_char c = char_of ?m" using n by (simp add: py_upper_char_def Let_def)
  have m: "of_char (char_of ?m :: char) = ?m" using n by simp
  have r: "65 \<le> ?m \<and> ?m \<le> 90" using n by arith
  have "py_lower_char (char_of ?m) = char_of (?m + 32)"
    unfolding py_lower_char_def Let_def m using r by simp
  also have "?m + 32 = of_char c" using n by simp
  finally show ?thesis by (simp add: u)
qed

lemma py_lower_char_idem: "py_lower_char (py_lower_char c) = py_lower_char c"
proof -
  let ?n = "of_char c :: nat"
  show ?thesis
  proof (cases "(65 \<le> ?n \<and> ?n \<le> 90) \<or> (192 \<le> ?n \<and> ?n \<le> 222 \<and> ?n \<noteq> 215)")
    case True
    then have lt: "?n + 32 < 256" by arith
    then have m: "of_char (char_of (?n + 32) :: char) = ?n + 32" by simp
    have l: "py_lower_char c = char_of (?n + 32)" using True by (simp add: py_lower_char_def Let_def)
    have r: "\<not> ((65 \<le> ?n + 32 \<and> ?n + 32 \<le> 90) \<or> (192 \<le> ?n + 32 \<and> ?n + 32 \<le> 222 \<and> ?n + 32 \<noteq> 215))"
      using True by arith
    have "py_lower_char (char_of (?n + 32)) = char_of (?n + 32)"
      unfolding py_lower_char_def Let_def m by (rule if_not_P [OF r])
    then show ?thesis by (simp add: l)
  next
    case False
    then have "py_lower_char c = c" unfolding py_lower_char_def Let_def by (rule if_not_P)
    then show ?thesis by simp
  qed
qed

lemma py_lower_idem [simp]: "py_lower (py_lower s) = py_lower s"
  by (simp add: py_lower_def py_lower_char_idem)

lemma lower_char_lower: "is_lower_ascii c \<Longrightarrow> py_lower_char c = c"
  by (simp add: is_lower_ascii_def py_lower_char_def Let_def)

lemma lower_ascii_letter: "is_lower_ascii c \<Longrightarrow> is_ascii_letter c"
  by (simp add: is_lower_ascii_def is_ascii_letter_def Let_def)

lemma py_lower_title_from:
  "\<forall>c \<in> set s. is_lower_ascii c \<or> c = CHR '' '' \<Longrightarrow> py_lower (py_title_from p s) = s"
proof (induction s arbitrary: p)
  case Nil
  then show ?case by (simp add: py_lower_def)
next
  case (Cons c s)
  then have rest: "py_lower (py_title_from q s) = s" for q by simp
  show ?case
  proof (cases "is_lower_ascii c")
    case True
    then show ?thesis using rest
      by (simp add: lower_ascii_letter lower_upper_char lower_char_lower py_lower_def)
  next
    case False
    with Cons.prems have "c = CHR '' ''" by simp
    then show ?thesis using rest by (simp add: is_ascii_letter_def py_lower_def py_lower_char_def)
  qed
qed

end
