(* ===== verification/Embedding_Model.thy ===== *)
theory Embedding_Model
  imports Prelude
begin

text \<open>
  The sentence-transformers model the sources load with
  \<open>SentenceTransformer(EMBEDDING_MODEL_NAME)\<close> (\<open>src/rag_processor.py\<close>) and
  \<open>SentenceTransformer(MODEL_NAME)\<close> (\<open>src/faisscheck.py\<close>). The library is not part
  of the repository: the model is what the spec (section 4.1) says of it, a named,
  stateless, deterministic map from text to vectors of a fixed dimension. The
  dimension is what \<open>get_sentence_embedding_dimension()\<close> reports.
\<close>

record 'a embedding_model =
  model_name :: string
  model_dim :: nat
  encode_fn :: "string \<Rightarrow> 'a vec"

definition EMBEDDING_MODEL_NAME :: string where
  "EMBEDDING_MODEL_NAME = ''sentence-transformers/all-MiniLM-L6-v2''"

definition encode :: "'a embedding_model \<Rightarrow> string list \<Rightarrow> 'a vec list" where
  \<comment> \<open>\<open>model.encode([q1, ..., qn])\<close>: one row per input text\<close>
  "encode m qs = map (encode_fn m) qs"

definition model_wf :: "'a embedding_model \<Rightarrow> bool" where
  \<comment> \<open>every embedding has the dimension the model reports\<close>
  "model_wf m \<longleftrightarrow> (\<forall>s. length (encode_fn m s) = model_dim m)"

lemma encode_single [simp]: "encode m [q] = [encode_fn m q]"
  by (simp add: encode_def)

lemma model_wf_length: "model_wf m \<Longrightarrow> length (encode_fn m s) = model_dim m"
  by (simp add: model_wf_def)

end
