(* ===== verification/Faiss_Index.thy ===== *)
theory Faiss_Index
  imports Prelude
begin

text \<open>
  The FAISS index the sources read with \<open>faiss.read_index\<close> and query with
  \<open>index.search(x, k)\<close>. FAISS is a library, not code of the repository, so this theory
  models what the spec (section 4.2) promises of it, for the exact index the ingestion
  pipeline builds (\<open>IndexFlatL2\<close>): the stored vectors, their dimension \<open>d\<close>,
  their number \<open>ntotal\<close>, and a k-nearest-neighbour search that answers one query row
  with \<open>k\<close> distances and \<open>k\<close> labels, nearest first, ties in position order, the
  shortfall filled with the sentinel label \<open>-1\<close> (distance \<open>None\<close>, FAISS's
  +infinity). A query of the wrong width and a non-positive \<open>k\<close> raise.

  \<open>labels_ok\<close> is the contract a caller may rely on for any index type; the lemmas
  show that the flat search meets it, returns its hits in non-decreasing distance and
  returns the \<open>k\<close> nearest positions (top-k).
\<close>

record 'a index_flat =
  index_d :: nat
  xb :: "'a vec list"

definition ntotal :: "'a index_flat \<Rightarrow> nat" where
  "ntotal idx = length (xb idx)"

definition index_wf :: "'a index_flat \<Rightarrow> bool" where
  "index_wf idx \<longleftrightarrow> (\<forall>v \<in> set (xb idx). length v = index_d idx)"

fun l2sq :: "'a::linordered_idom vec \<Rightarrow> 'a vec \<Rightarrow> 'a" where
  \<comment> \<open>the squared L2 distance \<open>IndexFlatL2\<close> ranks by\<close>
  "l2sq x y = sum_list (map (\<lambda>(a, b). (a - b) * (a - b)) (zip x y))"

datatype faiss_error = DimensionMismatch nat nat | InvalidK int

type_synonym 'a search_result = "'a option list \<times> int list"
  \<comment> \<open>the rows \<open>D[0]\<close> and \<open>I[0]\<close> of \<open>D, I = index.search(x, k)\<close>\<close>

definition knn_hits :: "'a::linordered_idom index_flat \<Rightarrow> 'a vec \<Rightarrow> nat \<Rightarrow> ('a \<times> position) list" where
  "knn_hits idx q k = take k (sort_key fst (zip (map (l2sq q) (xb idx)) [0..<ntotal idx]))"

definition index_search ::
  "'a::linordered_idom index_flat \<Rightarrow> 'a vec \<Rightarrow> int \<Rightarrow> faiss_error + 'a search_result" where
  "index_search idx q k =
     (if length q \<noteq> index_d idx then Inl (DimensionMismatch (length q) (index_d idx))
      else if k \<le> 0 then Inl (InvalidK k)
      else let hs = knn_hits idx q (nat k) in
        Inr (map (Some \<circ> fst) hs @ replicate (nat k - length hs) None,
             map (int \<circ> snd) hs @ replicate (nat k - length hs) (-1)))"

definition labels_ok :: "nat \<Rightarrow> nat \<Rightarrow> int list \<Rightarrow> bool" where
  \<comment> \<open>the label row of a search for \<open>k\<close> neighbours in an index of \<open>n\<close> vectors\<close>
  "labels_ok n k ls \<longleftrightarrow>
     length ls = k \<and> (\<forall>l \<in> set ls. l = -1 \<or> (0 \<le> l \<and> l < int n))
     \<and> distinct (filter (\<lambda>l. l \<noteq> -1) ls)"

abbreviation cands :: "'a::linordered_idom index_flat \<Rightarrow> 'a vec \<Rightarrow> ('a \<times> position) list" where
  "cands idx q \<equiv> zip (map (l2sq q) (xb idx)) [0..<ntotal idx]"

declare l2sq.simps [simp del]

lemmas [rag_simps] = index_search_def knn_hits_def ntotal_def l2sq.simps

subsection \<open>The candidate list\<close>

lemma cands_mem: "(d, i) \<in> set (cands idx q) \<longleftrightarrow> i < ntotal idx \<and> d = l2sq q (xb idx ! i)"
proof
  assume "(d, i) \<in> set (cands idx q)"
  then show "i < ntotal idx \<and> d = l2sq q (xb idx ! i)" by (auto simp: set_zip ntotal_def)
next
  assume "i < ntotal idx \<and> d = l2sq q (xb idx ! i)"
  then show "(d, i) \<in> set (cands idx q)"
    by (auto simp: set_zip ntotal_def intro!: exI [of _ i])
qed

lemma distinct_cands_snd: "distinct (map snd (cands idx q))"
  by (simp add: ntotal_def)

lemma knn_hits_mem: "(d, i) \<in> set (knn_hits idx q k) \<Longrightarrow> i < ntotal idx \<and> d = l2sq q (xb idx ! i)"
  unfolding knn_hits_def by (metis cands_mem in_set_takeD set_sort)

lemma length_knn_hits: "length (knn_hits idx q k) = min k (ntotal idx)"
  by (simp add: knn_hits_def ntotal_def)

lemma sorted_knn_hits: "sorted (map fst (knn_hits idx q k))"
  unfolding knn_hits_def by (rule sorted_map_take) simp

lemma distinct_knn_hits_snd: "distinct (map snd (knn_hits idx q k))"
  unfolding knn_hits_def by (metis distinct_cands_snd distinct_map_sort_key distinct_take take_map)

lemma filter_hit_labels [simp]:
  "filter (\<lambda>l. l \<noteq> -1) (map (int \<circ> snd) hs @ replicate m (-1)) = map (int \<circ> snd) hs"
  by (induction hs) auto

lemma index_search_InrD:
  assumes "index_search idx q k = Inr (D, I)"
  shows "length q = index_d idx \<and> 0 < k \<and>
    D = map (Some \<circ> fst) (knn_hits idx q (nat k)) @ replicate (nat k - min (nat k) (ntotal idx)) None \<and>
    I = map (int \<circ> snd) (knn_hits idx q (nat k)) @ replicate (nat k - min (nat k) (ntotal idx)) (-1)"
  using assms by (auto simp: index_search_def length_knn_hits Let_def split: if_splits)

lemma hit_label_mem:
  "int i \<in> set (map (int \<circ> snd) hs @ replicate m (-1)) \<longleftrightarrow> i \<in> snd ` set hs"
  by (cases m) (auto simp: image_iff intro: rev_bexI)

subsection \<open>Errors\<close>

text \<open>A query vector whose width is not the index dimension is rejected.\<close>

theorem index_search_dim_error:
  "length q \<noteq> index_d idx \<Longrightarrow> index_search idx q k = Inl (DimensionMismatch (length q) (index_d idx))"
  by (simp add: index_search_def)

lemma index_search_k_error: "length q = index_d idx \<Longrightarrow> k \<le> 0 \<Longrightarrow> index_search idx q k = Inl (InvalidK k)"
  by (simp add: index_search_def)

lemma index_search_Inr_iff: "(\<exists>r. index_search idx q k = Inr r) \<longleftrightarrow> length q = index_d idx \<and> 0 < k"
  by (simp add: index_search_def Let_def)

subsection \<open>The contract, ordering and top-k\<close>

lemma index_search_contract:
  assumes "index_search idx q k = Inr (D, I)"
  shows "labels_ok (ntotal idx) (nat k) I"
proof -
  note r = index_search_InrD [OF assms]
  have "length I = nat k" using r by (simp add: length_knn_hits)
  moreover have "\<forall>l \<in> set I. l = -1 \<or> (0 \<le> l \<and> l < int (ntotal idx))"
    using r by (auto dest!: knn_hits_mem [of _ _ idx q "nat k"])
  moreover have "distinct (filter (\<lambda>l. l \<noteq> -1) I)"
    using r distinct_knn_hits_snd [of idx q "nat k"]
    by (simp add: distinct_map inj_on_def flip: map_map)
  ultimately show ?thesis by (simp add: labels_ok_def)
qed

text \<open>
  C12 (type): the label row of a flat search meets the contract every caller relies on:
  \<open>k\<close> labels, each the sentinel \<open>-1\<close> or a position of the index, no position twice.
\<close>

theorem index_search_labels_ok:
  assumes "index_search idx q k = Inr (D, I)"
  shows "labels_ok (ntotal idx) (nat k) I"
  using assms by (rule index_search_contract)

lemma hit_dists: "map (\<lambda>l. l2sq q (xb idx ! nat l)) (map (int \<circ> snd) (knn_hits idx q k)) =
    map fst (knn_hits idx q k)"
  by (auto dest: knn_hits_mem)

theorem index_search_sorted:
  assumes "index_search idx q k = Inr (D, I)"
  shows "sorted (map (\<lambda>l. l2sq q (xb idx ! nat l)) (filter (\<lambda>l. l \<noteq> -1) I))"
  using index_search_InrD [OF assms] by (simp only: filter_hit_labels hit_dists sorted_knn_hits)

text \<open>
  C11 (functional): the flat search returns the \<open>k\<close> nearest positions: no position
  it leaves out is nearer to the query than one it returns.
\<close>

theorem index_search_topk:
  assumes "index_search idx q k = Inr (D, I)"
    and "int i \<in> set I" and "j < ntotal idx" and "int j \<notin> set I"
  shows "l2sq q (xb idx ! i) \<le> l2sq q (xb idx ! j)"
proof -
  let ?s = "sort_key fst (cands idx q)"
  note r = index_search_InrD [OF assms(1)]
  from assms(2) r obtain d where hi: "(d, i) \<in> set (take (nat k) ?s)"
    by (auto simp: hit_label_mem knn_hits_def)
  have "(l2sq q (xb idx ! j), j) \<in> set ?s" using assms(3) by (simp add: cands_mem)
  moreover have "(l2sq q (xb idx ! j), j) \<notin> set (take (nat k) ?s)"
    using assms(4) r by (force simp: hit_label_mem knn_hits_def)
  ultimately have "(l2sq q (xb idx ! j), j) \<in> set (drop (nat k) ?s)"
    by (rule not_in_take_in_drop)
  with hi have "d \<le> l2sq q (xb idx ! j)"
    using sorted_take_drop_le [of fst ?s] by fastforce
  moreover have "d = l2sq q (xb idx ! i)" using hi knn_hits_mem [of d i idx q "nat k"]
    by (simp add: knn_hits_def)
  ultimately show ?thesis by simp
qed

theorem index_search_count:
  assumes "index_search idx q k = Inr (D, I)"
  shows "length (filter (\<lambda>l. l \<noteq> -1) I) = min (nat k) (ntotal idx)
    \<and> length D = nat k \<and> length I = nat k"
  using index_search_InrD [OF assms] by (simp add: length_knn_hits)

end
