(* ===== verification/Storage.thy ===== *)
theory Storage
  imports Py_Values Embedding_Model Faiss_Index
begin

text \<open>
  The persisted inputs both \<open>src/rag_processor.py\<close> and \<open>src/faisscheck.py\<close> read:
  the index file \<open>faiss_index/index.faiss\<close>, the metadata pickle
  \<open>faiss_index/index.pkl\<close> and the embedding model named
  \<open>sentence-transformers/all-MiniLM-L6-v2\<close> (the two modules name the same paths and
  the same model). A \<open>rag_env\<close> is one snapshot of them: whether each file exists and
  what each loader returns, \<open>None\<close> where the loader raises. Both components are
  functions of the snapshot, which is how they interact: the checker's verdict on a
  snapshot says what the retrieval service will do with it.
\<close>

fun os_path_join :: "string \<Rightarrow> string \<Rightarrow> string" where
  \<comment> \<open>POSIX \<open>os.path.join(a, b)\<close>: an absolute \<open>b\<close> replaces \<open>a\<close>; a separator is added
     unless \<open>a\<close> is empty or already ends in one\<close>
  "os_path_join a b =
     (if take 1 b = ''/'' then b
      else if a = [] \<or> last a = CHR ''/'' then a @ b
      else a @ ''/'' @ b)"

definition FAISS_INDEX_DIR :: string where
  "FAISS_INDEX_DIR = ''faiss_index''"

definition FAISS_INDEX_PATH :: string where
  "FAISS_INDEX_PATH = os_path_join FAISS_INDEX_DIR ''index.faiss''"

definition PKL_PATH :: string where
  "PKL_PATH = os_path_join FAISS_INDEX_DIR ''index.pkl''"

record 'a rag_env =
  model_load :: "'a embedding_model option"
    \<comment> \<open>\<open>SentenceTransformer(EMBEDDING_MODEL_NAME)\<close>; \<open>None\<close>: it raises\<close>
  index_exists :: bool
    \<comment> \<open>\<open>os.path.exists(FAISS_INDEX_PATH)\<close>\<close>
  index_read :: "'a index_flat option"
    \<comment> \<open>\<open>faiss.read_index(FAISS_INDEX_PATH)\<close>; \<open>None\<close>: it raises\<close>
  pkl_exists :: bool
    \<comment> \<open>\<open>os.path.exists(PKL_PATH)\<close>\<close>
  pkl_load :: "pyobj option"
    \<comment> \<open>\<open>pickle.load(open(PKL_PATH, 'rb'))\<close>; \<open>None\<close>: it raises\<close>

definition env_wf :: "'a rag_env \<Rightarrow> bool" where
  \<comment> \<open>a loader that succeeds reads an existing file; the model and index are well formed\<close>
  "env_wf env \<longleftrightarrow>
     (index_read env \<noteq> None \<longrightarrow> index_exists env) \<and> (pkl_load env \<noteq> None \<longrightarrow> pkl_exists env)
     \<and> (\<forall>m. model_load env = Some m \<longrightarrow> model_wf m)
     \<and> (\<forall>ix. index_read env = Some ix \<longrightarrow> index_wf ix)"

end
