(* ===== verification/Rag_Processor.thy ===== *)
theory Rag_Processor
  imports Storage
begin

text \<open>
  \<open>src/rag_processor.py\<close>: the retrieval service. Its state is the three module
  globals \<open>embedding_model\<close>, \<open>faiss_index\<close> and \<open>metadata\<close> (a record here, passed
  and returned explicitly); \<open>load_rag_components\<close> fills them from a snapshot of the
  persisted inputs and returns the flag the host stores in \<open>RAG_ENABLED\<close>;
  \<open>search_documents\<close> reads them and never raises: every failure is the empty list.
  The metadata global holds whatever the pickle held, so it is a \<open>pyobj\<close>, and
  Python's \<open>None\<close> is \<open>PyNone\<close>. Logging is not modelled: no branch reads a log.
\<close>

record 'a rag_state =
  embedding_model :: "'a embedding_model option"
  faiss_index :: "'a index_flat option"
  metadata :: pyobj

definition rag_init :: "'a rag_state" where
  \<comment> \<open>the module globals at import time\<close>
  "rag_init = \<lparr>embedding_model = None, faiss_index = None, metadata = PyNone\<rparr>"

definition are_rag_components_loaded :: "'a rag_state \<Rightarrow> bool" where
  "are_rag_components_loaded st \<longleftrightarrow>
     (let loaded = (embedding_model st \<noteq> None \<and> faiss_index st \<noteq> None \<and> metadata st \<noteq> PyNone);
          type_ok = is_list_or_tuple (metadata st)
      in loaded \<and> type_ok)"

definition load_rag_components :: "'a rag_env \<Rightarrow> 'a rag_state \<Rightarrow> bool \<times> 'a rag_state" where
  "load_rag_components env st =
     (if are_rag_components_loaded st then (True, st)
      else case model_load env of
        None \<Rightarrow> (False, st\<lparr>embedding_model := None\<rparr>)
      | Some m \<Rightarrow>
          let st1 = st\<lparr>embedding_model := Some m\<rparr> in
          if \<not> index_exists env then (False, st1)
          else case index_read env of
            None \<Rightarrow> (False, st1\<lparr>faiss_index := None\<rparr>)
          | Some ix \<Rightarrow>
              let st2 = st1\<lparr>faiss_index := Some ix\<rparr> in
              if \<not> pkl_exists env then (False, st2)
              else case pkl_load env of
                None \<Rightarrow> (False, st2\<lparr>metadata := PyNone\<rparr>)
              | Some md \<Rightarrow> (True, st2\<lparr>metadata := md\<rparr>))"

fun py_str_val :: "pyobj \<Rightarrow> string" where
  "py_str_val (PyStr s) = s"
| "py_str_val _ = []"

fun collect_docs :: "pyobj list \<Rightarrow> int list \<Rightarrow> string list" where
  \<comment> \<open>the loop \<open>for idx in retrieved_indices\<close> over the label row\<close>
  "collect_docs items [] = []"
| "collect_docs items (idx # rest) =
     (if idx \<noteq> -1 then
        (if 0 \<le> idx \<and> idx < int (length items) then
           (case items ! nat idx of
              PyStr doc_content \<Rightarrow> doc_content # collect_docs items rest
            | _ \<Rightarrow> collect_docs items rest)
         else collect_docs items rest)
      else collect_docs items rest)"

definition search_documents :: "'a::linordered_idom rag_state \<Rightarrow> pyobj \<Rightarrow> int \<Rightarrow> string list" where
  "search_documents st query k =
     (if \<not> are_rag_components_loaded st then []
      else if metadata st = PyNone then []
      else case query of
        PyStr q \<Rightarrow>
          if py_strip q = [] then []
          else (case (embedding_model st, faiss_index st) of
            (Some m, Some ix) \<Rightarrow>
              (case index_search ix (hd (encode m [q])) k of
                Inl _ \<Rightarrow> []
              | Inr (distances, indices) \<Rightarrow>
                  (case py_seq (metadata st) of
                    Some items \<Rightarrow> collect_docs items indices
                  | None \<Rightarrow> []))
          | _ \<Rightarrow> [])
      | _ \<Rightarrow> [])"

definition doc_positions :: "pyobj list \<Rightarrow> int list \<Rightarrow> position list" where
  \<comment> \<open>the positions whose documents the loop appends, in order\<close>
  "doc_positions items I =
     filter (\<lambda>p. p < length items \<and> is_str (items ! p)) (map nat (filter (\<lambda>l. 0 \<le> l) I))"

definition retrieve_spec ::
  "'a::linordered_idom index_flat \<Rightarrow> string list \<Rightarrow> 'a vec \<Rightarrow> nat \<Rightarrow> string list" where
  \<comment> \<open>the abstract contract of section 4.4: the documents at the \<open>k\<close> nearest positions, nearest first\<close>
  "retrieve_spec ix docs v k = map (\<lambda>(d, p). docs ! p) (knn_hits ix v k)"

lemmas [rag_simps] = are_rag_components_loaded_def load_rag_components_def search_documents_def

subsection \<open>The loop over the label row\<close>

lemma collect_docs_positions:
  "collect_docs items I = map (\<lambda>p. py_str_val (items ! p)) (doc_positions items I)"
proof (induction I)
  case Nil
  then show ?case by (simp add: doc_positions_def)
next
  case (Cons l I)
  then show ?case
    by (cases "items ! nat l") (auto simp: doc_positions_def nat_less_iff)
qed

lemma doc_positions_mem:
  "p \<in> set (doc_positions items I) \<longleftrightarrow> int p \<in> set I \<and> p < length items \<and> is_str (items ! p)"
  by (auto simp: doc_positions_def image_iff intro: rev_bexI [where x = "int p"])

lemma labels_ok_nonneg_filter:
  "labels_ok n k I \<Longrightarrow> filter (\<lambda>l. l \<noteq> -1) I = filter (\<lambda>l. 0 \<le> l) I"
  by (auto simp: labels_ok_def intro!: filter_cong)

lemma distinct_doc_positions:
  assumes "labels_ok n k I"
  shows "distinct (doc_positions items I)"
proof -
  have "distinct (filter (\<lambda>l. 0 \<le> l) I)"
    using assms by (simp add: labels_ok_def flip: labels_ok_nonneg_filter [OF assms])
  moreover have "inj_on nat (set (filter (\<lambda>l. 0 \<le> l) I))"
    by (auto simp: inj_on_def)
  ultimately show ?thesis
    by (simp add: doc_positions_def distinct_map)
qed

lemma collect_docs_sentinels [simp]: "collect_docs items (replicate n (-1)) = []"
  by (induction n) auto

lemma collect_docs_append: "collect_docs items (I @ J) = collect_docs items I @ collect_docs items J"
  by (induction I) (auto split: pyobj.splits)

lemma length_collect_docs_le: "length (collect_docs items I) \<le> length I"
  by (induction I) (auto split: pyobj.splits)

lemma doc_positions_hits:
  assumes "\<forall>p \<in> snd ` set hs. p < length items \<and> is_str (items ! p)"
  shows "doc_positions items (map (int \<circ> snd) hs @ replicate m (-1)) = map snd hs"
  using assms by (induction hs) (auto simp: doc_positions_def)

subsection \<open>Unfolding the search on a loaded state\<close>

lemma load_rag_components_init:
  assumes "model_load env = Some m" and "index_exists env" and "index_read env = Some ix"
    and "pkl_exists env" and "pkl_load env = Some md"
  shows "load_rag_components env rag_init
    = (True, \<lparr>embedding_model = Some m, faiss_index = Some ix, metadata = md\<rparr>)"
  using assms by (simp add: load_rag_components_def rag_init_def are_rag_components_loaded_def is_list_or_tuple_def)

lemma search_documents_unfold:
  assumes "embedding_model st = Some m" and "faiss_index st = Some ix"
    and "py_seq (metadata st) = Some items" and "py_strip q \<noteq> []"
  shows "search_documents st (PyStr q) k =
    (case index_search ix (encode_fn m q) k of Inl _ \<Rightarrow> [] | Inr (D, I) \<Rightarrow> collect_docs items I)"
  using assms by (auto simp: search_documents_def are_rag_components_loaded_def
      is_list_or_tuple_def split: sum.splits)

lemma search_documents_not_str: "\<not> is_str query \<Longrightarrow> search_documents st query k = []"
  by (cases query) (simp_all add: search_documents_def)

text \<open>A query that is empty or only whitespace yields the empty list (spec scenario B).\<close>

theorem search_documents_blank: "py_strip q = [] \<Longrightarrow> search_documents st (PyStr q) k = []"
  by (simp add: search_documents_def)

lemma collect_docs_no_str: "list_all (\<lambda>y. \<not> is_str y) items \<Longrightarrow> collect_docs items I = []"
proof (induction I)
  case (Cons idx I)
  have "\<not> is_str (items ! nat idx)" if "0 \<le> idx" and "idx < int (length items)"
    using Cons.prems that by (simp add: list_all_length nat_less_iff)
  then show ?case using Cons by (auto split: pyobj.splits)
qed simp

lemma search_documents_cases:
  "search_documents st query k = [] \<or>
   (\<exists>m ix items q D I. embedding_model st = Some m \<and> faiss_index st = Some ix \<and>
      py_seq (metadata st) = Some items \<and> query = PyStr q \<and> py_strip q \<noteq> [] \<and>
      index_search ix (encode_fn m q) k = Inr (D, I) \<and>
      search_documents st query k = collect_docs items I)"
  by (auto simp: search_documents_def are_rag_components_loaded_def is_list_or_tuple_def
      split: pyobj.splits option.splits sum.splits prod.splits)

subsection \<open>Degraded mode and the per-query rejections\<close>

text \<open>C3 (safety): if any component failed to load, a search returns the empty list.\<close>

theorem search_documents_degraded:
  "\<not> are_rag_components_loaded st \<Longrightarrow> search_documents st query k = []"
  by (simp add: search_documents_def)

text \<open>C4 (bounds): a search returns at most \<open>k\<close> documents, none for \<open>k \<le> 0\<close>.\<close>

theorem search_documents_length_le: "length (search_documents st query k) \<le> nat k"
proof (cases "search_documents st query k = []")
  case False
  then obtain ix items q m D I where
    "embedding_model st = Some m" and "faiss_index st = Some ix" and r: "index_search ix (encode_fn m q) k = Inr (D, I)"
    and eq: "search_documents st query k = collect_docs items I"
    using search_documents_cases [of st query k] by blast
  have "length I = nat k" using index_search_count [OF r] by simp
  then show ?thesis using eq length_collect_docs_le [of items I] by simp
qed simp

subsection \<open>Ranking and position safety\<close>

lemma search_ranked_result:
  assumes r: "index_search ix v k = Inr (D, I)"
  shows "distinct (doc_positions items I)
    \<and> sorted (map (\<lambda>p. l2sq v (xb ix ! p)) (doc_positions items I))
    \<and> (\<forall>p \<in> set (doc_positions items I). p < length items \<and> p < ntotal ix \<and> is_str (items ! p))"
proof -
  have ok: "labels_ok (ntotal ix) (nat k) I" by (rule index_search_contract [OF r])
  have "sorted (map (\<lambda>l. l2sq v (xb ix ! nat l)) (filter (\<lambda>l. 0 \<le> l) I))"
    using index_search_sorted [OF r] by (simp add: labels_ok_nonneg_filter [OF ok])
  then have "sorted (map (\<lambda>p. l2sq v (xb ix ! p)) (doc_positions items I))"
    unfolding doc_positions_def by (intro sorted_map_filter) (simp add: comp_def)
  moreover have "\<forall>p \<in> set (doc_positions items I). p < ntotal ix"
  proof
    fix p assume "p \<in> set (doc_positions items I)"
    then have "int p \<in> set I" by (simp add: doc_positions_mem)
    with ok have "int p = -1 \<or> int p < int (ntotal ix)" by (auto simp: labels_ok_def)
    then show "p < ntotal ix" by simp
  qed
  ultimately show ?thesis
    using distinct_doc_positions [OF ok] by (auto simp: doc_positions_mem)
qed

text \<open>
  C2 (functional): on a loaded state a search returns the documents at distinct
  positions that are in range of both the index and the metadata and hold strings,
  nearest to the query's embedding first.
\<close>

theorem search_documents_ranked:
  assumes "embedding_model st = Some m" and "faiss_index st = Some ix"
    and "py_seq (metadata st) = Some items"
  shows "\<exists>ps. search_documents st (PyStr q) k = map (\<lambda>p. py_str_val (items ! p)) ps
    \<and> distinct ps \<and> sorted (map (\<lambda>p. l2sq (encode_fn m q) (xb ix ! p)) ps)
    \<and> (\<forall>p \<in> set ps. p < length items \<and> p < ntotal ix \<and> is_str (items ! p))"
proof (cases "py_strip q = []")
  case True
  then show ?thesis by (auto simp: search_documents_def intro: exI [of _ "[]"])
next
  case nonblank: False
  show ?thesis
  proof (cases "index_search ix (encode_fn m q) k")
    case (Inl e)
    then show ?thesis using assms nonblank
      by (auto simp: search_documents_unfold intro: exI [of _ "[]"])
  next
    case (Inr r)
    then obtain D I where r: "index_search ix (encode_fn m q) k = Inr (D, I)"
      by (cases r) auto
    show ?thesis
      using search_ranked_result [OF r, of items] assms nonblank r
      by (auto simp: search_documents_unfold collect_docs_positions)
  qed
qed

subsection \<open>Refinement of the abstract retrieval contract\<close>

lemma search_documents_dim_mismatch:
  assumes "embedding_model st = Some m" and "faiss_index st = Some ix"
    and "length (encode_fn m q) \<noteq> index_d ix"
  shows "search_documents st (PyStr q) k = []"
  using assms by (auto simp: search_documents_def index_search_def split: option.splits)

lemma search_refines_retrieve:
  assumes "embedding_model st = Some m" and "faiss_index st = Some ix"
    and "py_seq (metadata st) = Some (map PyStr docs)" and "length docs = ntotal ix"
    and "length (encode_fn m q) = index_d ix" and "py_strip q \<noteq> []" and "0 < k"
  shows "search_documents st (PyStr q) k = retrieve_spec ix docs (encode_fn m q) (nat k)"
proof -
  let ?hs = "knn_hits ix (encode_fn m q) (nat k)"
  let ?items = "map PyStr docs"
  obtain D I where r: "index_search ix (encode_fn m q) k = Inr (D, I)"
    using assms(5,7) index_search_Inr_iff [of ix "encode_fn m q" k] by (metis surj_pair)
  note I = index_search_InrD [OF r]
  have hits: "\<forall>p \<in> snd ` set ?hs. p < length ?items \<and> is_str (?items ! p)"
    using assms(4) by (auto dest: knn_hits_mem)
  have "search_documents st (PyStr q) k = collect_docs ?items I"
    using search_documents_unfold [OF assms(1-3,6)] r by simp
  also have "\<dots> = map (\<lambda>p. py_str_val (?items ! p)) (map snd ?hs)"
    using I by (simp only: collect_docs_positions doc_positions_hits [OF hits])
  also have "\<dots> = retrieve_spec ix docs (encode_fn m q) (nat k)"
    using assms(4) by (auto simp: retrieve_spec_def dest: knn_hits_mem)
  finally show ?thesis .
qed

text \<open>
  C1 (refinement): when the metadata holds one string per indexed vector and the
  model's embeddings have the index's width, a search for \<open>k > 0\<close> returns exactly
  the documents at the \<open>k\<close> nearest positions, nearest first.
\<close>

theorem search_documents_refines_spec:
  assumes "embedding_model st = Some m" and "faiss_index st = Some ix"
    and "py_seq (metadata st) = Some (map PyStr docs)" and "length docs = ntotal ix"
    and "length (encode_fn m q) = index_d ix" and "py_strip q \<noteq> []" and "0 < k"
  shows "search_documents st (PyStr q) k = retrieve_spec ix docs (encode_fn m q) (nat k)"
  using assms by (rule search_refines_retrieve)

lemma length_retrieve_spec: "length (retrieve_spec ix docs v k) = min k (ntotal ix)"
  by (simp add: retrieve_spec_def length_knn_hits)

end
