(* ===== verification/Rag_Lifecycle.thy ===== *)
theory Rag_Lifecycle
  imports Rag_Processor
begin

text \<open>
  The life of the retrieval globals in one process. They start as \<open>rag_init\<close>; the
  only code that writes them is \<open>load_rag_components\<close> (\<open>src/app.py\<close> calls it once at
  start-up, and the function is written to be called again: it returns at once when
  everything is loaded); \<open>search_documents\<close> only reads them. The reachable states are
  the least set containing \<open>rag_init\<close> and closed under a load from any snapshot of
  the persisted inputs. The invariant \<open>rag_inv\<close> says that a metadata list or tuple is
  only ever present together with a model and an index; from it follow the facts of
  the Ready/Degraded machine of spec section 4.4: Ready is never left, and a load that
  reports failure leaves the service Degraded, so that every later search is empty.
\<close>

inductive rag_reachable :: "'a rag_state \<Rightarrow> bool" where
  init: "rag_reachable rag_init"
| load: "rag_reachable st \<Longrightarrow> rag_reachable (snd (load_rag_components env st))"

definition rag_inv :: "'a rag_state \<Rightarrow> bool" where
  "rag_inv st \<longleftrightarrow> (is_list_or_tuple (metadata st) \<longrightarrow> embedding_model st \<noteq> None \<and> faiss_index st \<noteq> None)"

definition good_snapshot :: "'a rag_env \<Rightarrow> bool" where
  \<comment> \<open>every loader succeeds and the pickle holds a list or tuple\<close>
  "good_snapshot env \<longleftrightarrow> model_load env \<noteq> None \<and> index_exists env \<and> index_read env \<noteq> None
     \<and> pkl_exists env \<and> (\<exists>md. pkl_load env = Some md \<and> is_list_or_tuple md)"

inductive_cases rag_reachable_loadE: "rag_reachable st"

lemma rag_inv_loaded: "rag_inv st \<Longrightarrow> is_list_or_tuple (metadata st) \<longleftrightarrow> are_rag_components_loaded st"
  by (auto simp: rag_inv_def are_rag_components_loaded_def is_list_or_tuple_def)

lemma rag_inv_init: "rag_inv rag_init"
  by (simp add: rag_inv_def rag_init_def is_list_or_tuple_def)

lemma not_loaded_inv_no_seq:
  "rag_inv st \<Longrightarrow> \<not> are_rag_components_loaded st \<Longrightarrow> \<not> is_list_or_tuple (metadata st)"
  by (simp add: rag_inv_loaded)

lemma load_rag_components_inv:
  assumes "rag_inv st"
  shows "rag_inv (snd (load_rag_components env st))"
proof (cases "are_rag_components_loaded st")
  case True
  then show ?thesis using assms by (simp add: load_rag_components_def)
next
  case False
  then have "\<not> is_list_or_tuple (metadata st)" using assms by (rule not_loaded_inv_no_seq [rotated])
  with False show ?thesis
    by (auto simp: load_rag_components_def rag_inv_def Let_def is_list_or_tuple_def
        split: option.splits)
qed

lemma rag_reachable_inv: "rag_reachable st \<Longrightarrow> rag_inv st"
proof (induction rule: rag_reachable.induct)
  case init
  show ?case by (rule rag_inv_init)
next
  case (load st env)
  from load.IH show ?case by (rule load_rag_components_inv)
qed

text \<open>C6 (invariant): Ready is absorbing; a load in the Ready state changes nothing and reports success.\<close>

theorem load_rag_components_ready_stays:
  "are_rag_components_loaded st \<Longrightarrow> load_rag_components env st = (True, st)"
  by (simp add: load_rag_components_def)

text \<open>
  C5 (safety): from any reachable state, a load that returns \<open>False\<close> leaves the
  service Degraded, and every search afterwards returns the empty list.
\<close>

theorem load_rag_components_false_degraded:
  assumes "rag_reachable st" and "load_rag_components env st = (False, st')"
  shows "\<not> are_rag_components_loaded st' \<and> (\<forall>q k. search_documents st' q k = [])"
proof -
  have inv: "rag_inv st" using assms(1) by (rule rag_reachable_inv)
  have nl: "\<not> are_rag_components_loaded st"
    using assms(2) by (auto simp: load_rag_components_def)
  with inv have "\<not> is_list_or_tuple (metadata st)" by (rule not_loaded_inv_no_seq)
  with assms(2) nl have "\<not> are_rag_components_loaded st'"
    by (auto simp: load_rag_components_def are_rag_components_loaded_def Let_def
        is_list_or_tuple_def split: option.splits if_splits)
  then show ?thesis by (simp add: search_documents_def)
qed

text \<open>
  C7 (functional): a load from a state that is not Ready reports success exactly when
  the model, the index file and the pickle all load; the metadata's shape is not part
  of the verdict, so a pickle that holds no list or tuple is reported as success while
  the service stays Degraded.
\<close>

theorem load_rag_components_true_iff:
  assumes "\<not> are_rag_components_loaded st"
  shows "fst (load_rag_components env st) \<longleftrightarrow>
    model_load env \<noteq> None \<and> index_exists env \<and> index_read env \<noteq> None
    \<and> pkl_exists env \<and> pkl_load env \<noteq> None"
  using assms by (auto simp: load_rag_components_def Let_def split: option.splits)

lemma load_rag_components_ready_iff:
  assumes "rag_reachable st" and "\<not> are_rag_components_loaded st"
  shows "are_rag_components_loaded (snd (load_rag_components env st)) \<longleftrightarrow>
    model_load env \<noteq> None \<and> index_exists env \<and> index_read env \<noteq> None
    \<and> pkl_exists env \<and> (\<exists>md. pkl_load env = Some md \<and> is_list_or_tuple md)"
proof -
  have "\<not> is_list_or_tuple (metadata st)"
    using rag_reachable_inv [OF assms(1)] assms(2) by (rule not_loaded_inv_no_seq)
  with assms(2) show ?thesis
    by (auto simp: load_rag_components_def are_rag_components_loaded_def Let_def
        is_list_or_tuple_def split: option.splits)
qed

text \<open>
  C32 (liveness): Degraded is not a dead end of the loader: from every reachable state,
  one load from a good snapshot reaches Ready, which is again a reachable state.
\<close>

theorem rag_ready_reachable:
  assumes "rag_reachable st" and "good_snapshot env"
  shows "rag_reachable (snd (load_rag_components env st))
    \<and> are_rag_components_loaded (snd (load_rag_components env st))"
proof -
  have "rag_reachable (snd (load_rag_components env st))" using assms(1) by (rule rag_reachable.load)
  moreover have "are_rag_components_loaded (snd (load_rag_components env st))"
  proof (cases "are_rag_components_loaded st")
    case True
    then show ?thesis by (simp add: load_rag_components_def)
  next
    case False
    then show ?thesis using load_rag_components_ready_iff [OF assms(1) False] assms(2)
      by (simp add: good_snapshot_def)
  qed
  ultimately show ?thesis ..
qed

end
