(* ===== verification/Index_Checker.thy ===== *)
theory Index_Checker
  imports Storage
begin

text \<open>
  \<open>src/faisscheck.py\<close>, \<open>check_faiss_index\<close>: the diagnostic run over the same snapshot
  of persisted inputs the retrieval service loads (\<open>rag_env\<close>). The function keeps
  four locals (\<open>checks_passed\<close>, \<open>faiss_index\<close>, \<open>metadata\<close>, \<open>model_dim\<close>) and
  writes a report through \<open>logging\<close>; here they are the record \<open>check_state\<close>, whose
  \<open>report\<close> field collects the messages that matter for the verdict, in order. Each
  numbered block of the source is one step function, and \<open>check_faiss_index\<close> runs
  them in the source's order. The random probe \<open>np.random.rand(1, model_dim)\<close> is the
  parameter \<open>rnd\<close>: the probe's coordinates, of which the first \<open>model_dim\<close> are used.
\<close>

definition FAISS_DIR :: string where
  "FAISS_DIR = ''faiss_index''"

definition INDEX_PATH :: string where
  "INDEX_PATH = os_path_join FAISS_DIR ''index.faiss''"

definition PKL_PATH_checker :: string where
  \<comment> \<open>the checker's \<open>PKL_PATH\<close>, a second constant of the same name\<close>
  "PKL_PATH_checker = os_path_join FAISS_DIR ''index.pkl''"

definition MODEL_NAME :: string where
  "MODEL_NAME = ''sentence-transformers/all-MiniLM-L6-v2''"

datatype check_log =
    IndexFileMissing
  | MetadataFileMissing
  | FilesMissing
  | IndexLoaded nat nat
  | IndexEmpty
  | IndexLoadFailed
  | MetadataNotSequence
  | MetadataEmpty
  | MetadataItems nat
  | MetadataLoadFailed
  | SizeMatch nat
  | SizeMismatch nat nat
  | SizeCheckSkipped
  | ModelDimension nat
  | DimMatch nat
  | DimMismatch nat nat
  | DimCheckSkipped
  | ModelLoadFailed
  | SampleIndex int
  | SampleNoResult
  | SampleOutOfBounds int nat
  | SampleSearchFailed
  | SampleSkipped
  | ResultPassed
  | ResultFailed

record 'a check_state =
  checks_passed :: bool
  chk_index :: "'a index_flat option"
  chk_metadata :: pyobj
  model_dim_v :: "nat option"
  report :: "check_log list"

definition check_start :: "'a check_state" where
  "check_start = \<lparr>checks_passed = True, chk_index = None, chk_metadata = PyNone,
     model_dim_v = None, report = []\<rparr>"

definition emit :: "check_log \<Rightarrow> 'a check_state \<Rightarrow> 'a check_state" where
  "emit l s = s\<lparr>report := report s @ [l]\<rparr>"

definition fail :: "check_log \<Rightarrow> 'a check_state \<Rightarrow> 'a check_state" where
  \<comment> \<open>log an error and set \<open>checks_passed = False\<close>\<close>
  "fail l s = (emit l s)\<lparr>checks_passed := False\<rparr>"

definition check_files :: "'a rag_env \<Rightarrow> check_log list" where
  \<comment> \<open>step 1: the messages of the two existence checks\<close>
  "check_files env =
     (if \<not> index_exists env then [IndexFileMissing] else [])
     @ (if \<not> pkl_exists env then [MetadataFileMissing] else [])"

definition check_load_index :: "'a rag_env \<Rightarrow> 'a check_state \<Rightarrow> 'a check_state" where
  \<comment> \<open>step 2\<close>
  "check_load_index env s =
     (case index_read env of
        None \<Rightarrow> (fail IndexLoadFailed s)\<lparr>chk_index := None\<rparr>
      | Some ix \<Rightarrow>
          let s1 = emit (IndexLoaded (index_d ix) (ntotal ix)) (s\<lparr>chk_index := Some ix\<rparr>) in
          if ntotal ix = 0 then fail IndexEmpty s1 else s1)"

definition check_load_metadata :: "'a rag_env \<Rightarrow> 'a check_state \<Rightarrow> 'a check_state" where
  \<comment> \<open>step 3\<close>
  "check_load_metadata env s =
     (case pkl_load env of
        None \<Rightarrow> (fail MetadataLoadFailed s)\<lparr>chk_metadata := PyNone\<rparr>
      | Some md \<Rightarrow>
          (case py_seq md of
             None \<Rightarrow> (fail MetadataNotSequence s)\<lparr>chk_metadata := PyNone\<rparr>
           | Some items \<Rightarrow>
               let s1 = s\<lparr>chk_metadata := md\<rparr> in
               if length items = 0 then fail MetadataEmpty s1
               else emit (MetadataItems (length items)) s1))"

definition check_size :: "'a check_state \<Rightarrow> 'a check_state" where
  \<comment> \<open>step 4\<close>
  "check_size s =
     (case (chk_index s, py_seq (chk_metadata s)) of
        (Some ix, Some items) \<Rightarrow>
          if ntotal ix = length items then emit (SizeMatch (ntotal ix)) s
          else fail (SizeMismatch (ntotal ix) (length items)) s
      | _ \<Rightarrow> if checks_passed s then emit SizeCheckSkipped s else s)"

definition check_dimension :: "'a rag_env \<Rightarrow> 'a check_state \<Rightarrow> 'a check_state" where
  \<comment> \<open>step 5: a model that cannot be loaded is logged and does not fail the check\<close>
  "check_dimension env s =
     (case model_load env of
        None \<Rightarrow> emit ModelLoadFailed s
      | Some m \<Rightarrow>
          let s1 = emit (ModelDimension (model_dim m)) (s\<lparr>model_dim_v := Some (model_dim m)\<rparr>) in
          (case chk_index s1 of
             Some ix \<Rightarrow>
               if index_d ix = model_dim m then emit (DimMatch (index_d ix)) s1
               else fail (DimMismatch (index_d ix) (model_dim m)) s1
           | None \<Rightarrow> if checks_passed s1 then emit DimCheckSkipped s1 else s1))"

definition check_sample ::
  "(nat \<Rightarrow> 'a::linordered_idom) \<Rightarrow> 'a check_state \<Rightarrow> 'a check_state" where
  \<comment> \<open>step 6: one probe of the model's width, \<open>k = 1\<close>, and the lookup of its label\<close>
  "check_sample rnd s =
     (let skipped = (if checks_passed s then emit SampleSkipped s else s) in
      case (chk_index s, model_dim_v s) of
        (Some ix, Some dim) \<Rightarrow>
          if checks_passed s \<and> chk_metadata s \<noteq> PyNone then
            (let dummy_vector = map rnd [0..<dim] in
             case index_search ix dummy_vector 1 of
               Inl _ \<Rightarrow> fail SampleSearchFailed s
             | Inr (distances, indices) \<Rightarrow>
                 (case (indices, py_seq (chk_metadata s)) of
                    (first_index # _, Some items) \<Rightarrow>
                      if first_index = -1 then emit SampleNoResult s
                      else if 0 \<le> first_index \<and> first_index < int (length items)
                      then emit (SampleIndex first_index) s
                      else fail (SampleOutOfBounds first_index (length items)) s
                  | _ \<Rightarrow> fail SampleSearchFailed s))
          else skipped
      | _ \<Rightarrow> skipped)"

definition check_steps :: "'a::linordered_idom rag_env \<Rightarrow> (nat \<Rightarrow> 'a) \<Rightarrow> 'a check_state" where
  \<comment> \<open>steps 2 to 6, run in order on the initial locals\<close>
  "check_steps env rnd =
     check_sample rnd (check_dimension env (check_size
       (check_load_metadata env (check_load_index env check_start))))"

definition check_faiss_index ::
  "'a::linordered_idom rag_env \<Rightarrow> (nat \<Rightarrow> 'a) \<Rightarrow> bool \<times> check_log list" where
  "check_faiss_index env rnd =
     (if \<not> index_exists env \<or> \<not> pkl_exists env then (False, check_files env @ [FilesMissing])
      else
        let s = check_steps env rnd in (checks_passed s, report s @ [if checks_passed s then ResultPassed else ResultFailed]))"

definition faisscheck_main :: "'a::linordered_idom rag_env \<Rightarrow> (nat \<Rightarrow> 'a) \<Rightarrow> string" where
  \<comment> \<open>the script's \<open>__main__\<close> block: what it prints after the check\<close>
  "faisscheck_main env rnd =
     (if fst (check_faiss_index env rnd) then [CHR 0x0A] @ ''Index check PASSED.''
      else [CHR 0x0A] @ ''Index check FAILED.'')"

definition consistent_snapshot :: "'a rag_env \<Rightarrow> bool" where
  \<comment> \<open>what spec section 4.5 asks the checker to establish of a snapshot\<close>
  "consistent_snapshot env \<longleftrightarrow> index_exists env \<and> pkl_exists env \<and>
     (case (index_read env, pkl_load env) of
        (Some ix, Some md) \<Rightarrow>
          (case py_seq md of
             Some items \<Rightarrow> 0 < ntotal ix \<and> ntotal ix = length items
               \<and> (case model_load env of None \<Rightarrow> True | Some m \<Rightarrow> model_dim m = index_d ix)
           | None \<Rightarrow> False)
      | _ \<Rightarrow> False)"

lemmas [rag_simps] = check_start_def emit_def fail_def check_files_def check_load_index_def
  check_load_metadata_def check_size_def check_dimension_def check_sample_def check_steps_def check_faiss_index_def

subsection \<open>What each step keeps\<close>

text \<open>\<open>checks_passed\<close> only ever goes from true to false, and the report only grows.\<close>

text \<open>
  The checker names its inputs with constants of its own (\<open>src/faisscheck.py\<close>, lines
  11-15, \<open>Should match faissmaker.py and rag_processor.py\<close>). They name the same two
  files and the same model as \<open>src/rag_processor.py\<close>, which is why both modules are
  functions of one \<open>rag_env\<close> snapshot.
\<close>

lemma checker_config_agrees:
  "INDEX_PATH = FAISS_INDEX_PATH \<and> PKL_PATH_checker = PKL_PATH \<and> MODEL_NAME = EMBEDDING_MODEL_NAME
   \<and> INDEX_PATH = ''faiss_index/index.faiss'' \<and> PKL_PATH = ''faiss_index/index.pkl''"
  by (simp add: INDEX_PATH_def FAISS_INDEX_PATH_def PKL_PATH_checker_def PKL_PATH_def
      MODEL_NAME_def EMBEDDING_MODEL_NAME_def FAISS_DIR_def FAISS_INDEX_DIR_def)

lemma emit_fields [simp]:
  "checks_passed (emit l s) = checks_passed s" "chk_index (emit l s) = chk_index s"
  "chk_metadata (emit l s) = chk_metadata s" "model_dim_v (emit l s) = model_dim_v s"
  "report (emit l s) = report s @ [l]"
  by (simp_all add: emit_def)

lemma fail_fields [simp]:
  "checks_passed (fail l s) = False" "chk_index (fail l s) = chk_index s"
  "chk_metadata (fail l s) = chk_metadata s" "model_dim_v (fail l s) = model_dim_v s"
  "report (fail l s) = report s @ [l]"
  by (simp_all add: fail_def emit_def)

lemma check_sample_frame:
  "chk_index (check_sample rnd s) = chk_index s \<and> chk_metadata (check_sample rnd s) = chk_metadata s
   \<and> (checks_passed (check_sample rnd s) \<longrightarrow> checks_passed s)
   \<and> set (report s) \<subseteq> set (report (check_sample rnd s))"
  by (auto simp: check_sample_def Let_def split: option.splits sum.splits list.splits prod.splits)

lemma check_dimension_frame:
  "chk_index (check_dimension env s) = chk_index s \<and> chk_metadata (check_dimension env s) = chk_metadata s
   \<and> (checks_passed (check_dimension env s) \<longrightarrow> checks_passed s)
   \<and> set (report s) \<subseteq> set (report (check_dimension env s))"
  by (auto simp: check_dimension_def Let_def split: option.splits)

lemma check_size_frame:
  "chk_index (check_size s) = chk_index s \<and> chk_metadata (check_size s) = chk_metadata s
   \<and> (checks_passed (check_size s) \<longrightarrow> checks_passed s)
   \<and> set (report s) \<subseteq> set (report (check_size s))"
  by (auto simp: check_size_def split: option.splits prod.splits)

lemma check_load_metadata_frame:
  "chk_index (check_load_metadata env s) = chk_index s
   \<and> (checks_passed (check_load_metadata env s) \<longrightarrow> checks_passed s)"
  by (auto simp: check_load_metadata_def Let_def split: option.splits)

subsection \<open>When each step passes\<close>

lemma check_load_index_passed:
  "checks_passed (check_load_index env s) \<longleftrightarrow>
     checks_passed s \<and> (\<exists>ix. index_read env = Some ix \<and> 0 < ntotal ix)"
  "chk_index (check_load_index env s) = index_read env"
  by (auto simp: check_load_index_def Let_def split: option.splits)

lemma check_load_metadata_passed:
  "checks_passed (check_load_metadata env s) \<longleftrightarrow>
     checks_passed s \<and> (\<exists>md items. pkl_load env = Some md \<and> py_seq md = Some items \<and> items \<noteq> [])"
  by (auto simp: check_load_metadata_def Let_def split: option.splits)

lemma check_load_metadata_seq:
  "pkl_load env = Some md \<Longrightarrow> py_seq md = Some items \<Longrightarrow>
     chk_metadata (check_load_metadata env s) = md"
  by (auto simp: check_load_metadata_def Let_def)

lemma check_size_passed:
  "chk_index s = Some ix \<Longrightarrow> py_seq (chk_metadata s) = Some items \<Longrightarrow>
     checks_passed (check_size s) \<longleftrightarrow> checks_passed s \<and> ntotal ix = length items"
  by (simp add: check_size_def)

lemma check_dimension_passed:
  "chk_index s = Some ix \<Longrightarrow>
     checks_passed (check_dimension env s) \<longleftrightarrow>
       checks_passed s \<and> (\<forall>m. model_load env = Some m \<longrightarrow> model_dim m = index_d ix)"
  "model_dim_v (check_dimension env s) = (case model_load env of None \<Rightarrow> model_dim_v s | Some m \<Rightarrow> Some (model_dim m))"
  by (auto simp: check_dimension_def Let_def split: option.splits)

lemma single_hit_label:
  assumes "index_search ix v 1 = Inr (D, I)" and "0 < ntotal ix"
  shows "\<exists>p. I = [int p] \<and> p < ntotal ix"
proof -
  note r = index_search_InrD [OF assms(1)]
  have "length (knn_hits ix v 1) = 1" using assms(2) by (simp add: length_knn_hits)
  then obtain d p where h: "knn_hits ix v 1 = [(d, p)]"
    by (metis One_nat_def length_0_conv length_Suc_conv prod.exhaust)
  then have "p < ntotal ix" using knn_hits_mem [of d p ix v 1] by simp
  with r h assms(2) show ?thesis by simp
qed

text \<open>
  With an exact index the sample search of step 6 cannot fail once steps 2 to 5 have
  passed: the probe has the index's width and its one label is a position of the index,
  hence of the metadata.
\<close>

lemma check_sample_passes:
  assumes "checks_passed s" and "chk_index s = Some ix" and "py_seq (chk_metadata s) = Some items"
    and "ntotal ix = length items" and "0 < ntotal ix"
    and "\<forall>dim. model_dim_v s = Some dim \<longrightarrow> dim = index_d ix"
  shows "checks_passed (check_sample rnd s)"
proof (cases "model_dim_v s")
  case None
  then show ?thesis using assms(1,2) by (simp add: check_sample_def)
next
  case (Some dim)
  then have dim: "length (map rnd [0..<dim]) = index_d ix" using assms(6) by simp
  then obtain D I where r: "index_search ix (map rnd [0..<dim]) 1 = Inr (D, I)"
    using index_search_Inr_iff [of ix "map rnd [0..<dim]" 1] by (metis surj_pair zero_less_one)
  obtain p where "I = [int p]" and "p < ntotal ix" using single_hit_label [OF r assms(5)] by blast
  moreover have "chk_metadata s \<noteq> PyNone" using assms(3) by auto
  ultimately show ?thesis using assms(1-4) Some r by (simp add: check_sample_def)
qed

subsection \<open>The verdict\<close>

lemma check_steps_sound:
  assumes "checks_passed (check_steps env rnd)"
  shows "\<exists>ix md items. index_read env = Some ix \<and> pkl_load env = Some md \<and> py_seq md = Some items
    \<and> 0 < ntotal ix \<and> ntotal ix = length items
    \<and> (\<forall>m. model_load env = Some m \<longrightarrow> model_dim m = index_d ix)"
proof -
  let ?s1 = "check_load_index env (check_start :: 'a check_state)"
  let ?s2 = "check_load_metadata env ?s1"
  let ?s3 = "check_size ?s2"
  let ?s4 = "check_dimension env ?s3"
  have p4: "checks_passed ?s4"
    using assms check_sample_frame [of rnd ?s4] by (simp add: check_steps_def)
  then have p3: "checks_passed ?s3" using check_dimension_frame [of env ?s3] by blast
  then have p2: "checks_passed ?s2" using check_size_frame [of ?s2] by blast
  then obtain md items where md: "pkl_load env = Some md" "py_seq md = Some items"
    by (auto simp: check_load_metadata_passed)
  from p2 have "checks_passed ?s1" by (simp add: check_load_metadata_passed)
  then obtain ix where ix: "index_read env = Some ix" "0 < ntotal ix"
    by (auto simp: check_load_index_passed)
  have i2: "chk_index ?s2 = Some ix"
    using ix check_load_metadata_frame [of env ?s1] by (simp add: check_load_index_passed)
  have m2: "py_seq (chk_metadata ?s2) = Some items" using md by (simp add: check_load_metadata_seq)
  have "ntotal ix = length items" using p3 i2 m2 by (simp add: check_size_passed)
  moreover have "\<forall>m. model_load env = Some m \<longrightarrow> model_dim m = index_d ix"
    using p4 i2 check_size_frame [of ?s2] by (simp add: check_dimension_passed)
  ultimately show ?thesis using ix md by blast
qed

lemma check_steps_complete:
  assumes "index_read env = Some ix" and "pkl_load env = Some md" and "py_seq md = Some items"
    and "0 < ntotal ix" and "ntotal ix = length items"
    and "\<forall>m. model_load env = Some m \<longrightarrow> model_dim m = index_d ix"
  shows "checks_passed (check_steps env rnd)"
proof -
  let ?s1 = "check_load_index env (check_start :: 'a check_state)"
  let ?s2 = "check_load_metadata env ?s1"
  let ?s3 = "check_size ?s2"
  let ?s4 = "check_dimension env ?s3"
  have i1: "chk_index ?s1 = Some ix" using assms(1) by (simp add: check_load_index_passed)
  have p2: "checks_passed ?s2"
    using assms(1-5) by (auto simp: check_load_metadata_passed check_load_index_passed check_start_def)
  have i3: "chk_index ?s3 = Some ix" and m3: "py_seq (chk_metadata ?s3) = Some items"
    using i1 check_load_metadata_frame [of env ?s1] check_size_frame [of ?s2]
      check_load_metadata_seq [OF assms(2,3)] assms(3) by simp_all
  have p3: "checks_passed ?s3"
    using p2 i1 check_load_metadata_frame [of env ?s1] check_load_metadata_seq [OF assms(2,3)] assms(3,5)
    by (simp add: check_size_passed)
  have p4: "checks_passed ?s4" using p3 i3 assms(6) by (simp add: check_dimension_passed)
  have "\<forall>dim. model_dim_v ?s4 = Some dim \<longrightarrow> dim = index_d ix"
  proof (cases "model_load env")
    case None
    have "model_dim_v ?s3 = None"
      by (simp add: check_size_def check_load_metadata_def check_load_index_def check_start_def
          Let_def split: option.splits prod.splits)
    with None show ?thesis by (simp add: check_dimension_passed)
  next
    case (Some m)
    with assms(6) show ?thesis by (simp add: check_dimension_passed)
  qed
  then have "checks_passed (check_sample rnd ?s4)"
    using check_sample_passes [OF p4, of ix items] i3 m3 check_dimension_frame [of env ?s3] assms(4,5)
    by simp
  then show ?thesis by (simp add: check_steps_def)
qed

lemma check_faiss_index_consistent:
  "fst (check_faiss_index env rnd) \<longleftrightarrow> consistent_snapshot env"
proof (cases "index_exists env \<and> pkl_exists env")
  case False
  then show ?thesis by (auto simp: check_faiss_index_def consistent_snapshot_def)
next
  case True
  have "checks_passed (check_steps env rnd) \<longleftrightarrow> consistent_snapshot env"
  proof
    assume "checks_passed (check_steps env rnd)"
    then show "consistent_snapshot env"
      using True check_steps_sound [of env rnd]
      by (auto simp: consistent_snapshot_def split: option.splits)
  next
    assume c: "consistent_snapshot env"
    then obtain ix md items where "index_read env = Some ix" "pkl_load env = Some md"
        "py_seq md = Some items"
      by (auto simp: consistent_snapshot_def split: option.splits)
    with c show "checks_passed (check_steps env rnd)"
      by (intro check_steps_complete) (auto simp: consistent_snapshot_def split: option.splits)
  qed
  with True show ?thesis by (simp add: check_faiss_index_def Let_def)
qed

text \<open>
  C8 (refinement): the checker's verdict is exactly the consistency of the snapshot:
  both files exist, the index loads and is non-empty, the pickle holds a non-empty list
  or tuple of as many items as the index has vectors, and a model that loads has the
  index's dimension. A model that fails to load is not a failure.
\<close>

theorem check_faiss_index_verdict:
  "fst (check_faiss_index env rnd) \<longleftrightarrow> consistent_snapshot env"
  by (rule check_faiss_index_consistent)

text \<open>
  C9 (error): a count mismatch between index and metadata (spec scenario D) fails the
  check and is reported with both counts.
\<close>

theorem check_faiss_index_size_mismatch:
  assumes "index_exists env" and "pkl_exists env" and "index_read env = Some ix"
    and "pkl_load env = Some md" and "py_seq md = Some items" and "ntotal ix \<noteq> length items"
  shows "\<not> fst (check_faiss_index env rnd)
    \<and> SizeMismatch (ntotal ix) (length items) \<in> set (snd (check_faiss_index env rnd))"
proof -
  let ?s1 = "check_load_index env (check_start :: 'a check_state)"
  let ?s2 = "check_load_metadata env ?s1"
  let ?s3 = "check_size ?s2"
  let ?s4 = "check_dimension env ?s3"
  have "chk_index ?s2 = Some ix"
    using assms(3) check_load_metadata_frame [of env ?s1] by (simp add: check_load_index_passed)
  moreover have "py_seq (chk_metadata ?s2) = Some items"
    using assms(4,5) by (simp add: check_load_metadata_seq)
  ultimately have "SizeMismatch (ntotal ix) (length items) \<in> set (report ?s3)"
    using assms(6) by (simp add: check_size_def)
  then have "SizeMismatch (ntotal ix) (length items) \<in> set (report (check_steps env rnd))"
    using check_dimension_frame [of env ?s3] check_sample_frame [of rnd ?s4]
    by (auto simp: check_steps_def)
  moreover have "\<not> checks_passed (check_steps env rnd)"
    using assms(3-6) check_steps_sound [of env rnd] by auto
  ultimately show ?thesis
    using assms(1,2) by (simp add: check_faiss_index_def Let_def)
qed

lemma check_faiss_index_files_missing:
  "\<not> index_exists env \<or> \<not> pkl_exists env \<Longrightarrow>
     check_faiss_index env rnd = (False, check_files env @ [FilesMissing])"
  by (simp add: check_faiss_index_def)

end
