(* ===== verification/App_History.thy ===== *)
theory App_History
  imports Py_Values
begin

text \<open>
  \<open>src/app.py\<close>, \<open>sanitize_input\<close> and \<open>manage_conversation_history\<close>: the chat
  history the front end sends back with each request, turned into the LangChain
  messages passed to the model. The history is any JSON value; \<open>history_turns\<close> reads
  it as the loop does, a turn being an object \<open>{'user': ..., 'bot': ...}\<close> with
  \<open>turn.get(key)\<close> \<open>PyNone\<close> for a missing key, and fails (\<open>None\<close>) where the loop
  raises: a value that cannot be iterated, or an item that is not an object. The
  loop over the turns is the structural recursion \<open>history_messages\<close>; the trimming keeps the last
  \<open>2 * max_exchanges\<close> messages with Python's slice \<open>messages[-n:]\<close>.
\<close>

datatype message = SystemMessage string | HumanMessage string | AIMessage string

record turn =
  turn_user :: pyobj
  turn_bot :: pyobj

fun sanitize_input :: "pyobj \<Rightarrow> string" where
  "sanitize_input (PyStr s) = py_strip s"
| "sanitize_input _ = []"

fun turn_of :: "pyobj \<Rightarrow> turn option" where
  \<comment> \<open>\<open>turn.get('user')\<close>, \<open>turn.get('bot')\<close>; on anything but an object \<open>.get\<close> raises\<close>
  "turn_of (PyDict kvs) = Some \<lparr>turn_user = py_get kvs ''user'', turn_bot = py_get kvs ''bot''\<rparr>"
| "turn_of _ = None"

definition history_turns :: "pyobj \<Rightarrow> turn list option" where
  \<comment> \<open>the turns the loop \<open>for turn in history_from_frontend\<close> reads, \<open>None\<close> when it raises\<close>
  "history_turns h = (case py_iter h of None \<Rightarrow> None | Some xs \<Rightarrow> those (map turn_of xs))"

definition denial_phrases :: "string list" where
  "denial_phrases = [
     ''i am a large language model'', ''i'm a large language model'', ''i am an ai'',
     ''i'm an ai assistant'', ''trained by google'', ''i cannot fulfill that request'',
     ''i do not have personal opinions'', ''as an ai'', ''language model'',
     ''i am not yoda'', ''i am not aiyoda'', ''i am not wellness warrior'',
     ''i am not career catalyst'', ''i am not executive coach'',
     ''i am not personal growth guru'', ''i am not relationship revivalist'',
     ''hypothetical scenario'', ''i don't have \"clients\"'', ''as i am a language model'']"

definition is_denial :: "string \<Rightarrow> bool" where
  \<comment> \<open>\<open>any(phrase in bot_msg_content.lower() for phrase in denial_phrases)\<close>\<close>
  "is_denial b \<longleftrightarrow> list_ex (py_contains (py_lower b)) denial_phrases"

definition user_part :: "turn \<Rightarrow> message list" where
  "user_part t =
     (if py_truthy (turn_user t) then
        (let sanitized_user_msg = sanitize_input (turn_user t) in
         if sanitized_user_msg \<noteq> [] then [HumanMessage sanitized_user_msg] else [])
      else [])"

fun bot_msg :: "pyobj \<Rightarrow> message list" where
  \<comment> \<open>a bot entry that is a string and no denial; other objects are skipped with a warning\<close>
  "bot_msg (PyStr b) = (if \<not> is_denial b then [AIMessage b] else [])"
| "bot_msg _ = []"

definition bot_part :: "turn \<Rightarrow> message list" where
  "bot_part t = (if py_truthy (turn_bot t) then bot_msg (turn_bot t) else [])"

fun history_messages :: "turn list \<Rightarrow> message list" where
  \<comment> \<open>the loop \<open>for turn in history_from_frontend\<close>\<close>
  "history_messages [] = []"
| "history_messages (t # ts) = user_part t @ bot_part t @ history_messages ts"

definition manage_conversation_history :: "turn list \<Rightarrow> string option \<Rightarrow> int \<Rightarrow> message list" where
  "manage_conversation_history history_from_frontend new_sanitized_message max_exchanges =
     (let messages = history_messages history_from_frontend;
          num_messages_to_keep = max_exchanges * 2;
          messages = (if int (length messages) > num_messages_to_keep
                      then py_slice_from messages (- num_messages_to_keep) else messages)
      in case new_sanitized_message of
           Some m \<Rightarrow> if m \<noteq> [] then messages @ [HumanMessage m] else messages
         | None \<Rightarrow> messages)"

fun msg_content :: "message \<Rightarrow> string" where
  "msg_content (SystemMessage s) = s"
| "msg_content (HumanMessage s) = s"
| "msg_content (AIMessage s) = s"

lemmas [py_simps] = history_turns_def is_denial_def denial_phrases_def user_part_def bot_part_def
  manage_conversation_history_def

subsection \<open>Reading the history\<close>

lemma history_turns_len: "history_turns h \<noteq> None \<Longrightarrow> py_len h \<noteq> None"
  by (auto simp: history_turns_def py_len_def split: option.splits)

lemma history_turns_len_None: "py_len h = None \<Longrightarrow> history_turns h = None"
  using history_turns_len by blast

subsection \<open>Trimming\<close>

lemma manage_none_eq:
  "manage_conversation_history h None mx =
     (let msgs = history_messages h in
      if int (length msgs) > mx * 2 then py_slice_from msgs (- (mx * 2)) else msgs)"
  by (simp add: manage_conversation_history_def Let_def)

lemma trim_positive:
  assumes "0 < mx"
  shows "manage_conversation_history h None mx =
    drop (length (history_messages h) - nat (2 * mx)) (history_messages h)"
  using assms by (auto simp: manage_none_eq Let_def nat_diff_distrib' mult.commute)

text \<open>
  C16 (functional): for a positive \<open>max_exchanges\<close> the history passed to the model is
  exactly the last \<open>2 * max_exchanges\<close> messages the turns produce, in order.
\<close>

theorem manage_history_keeps_last:
  "0 < mx \<Longrightarrow> manage_conversation_history h None mx =
     drop (length (history_messages h) - nat (2 * mx)) (history_messages h)"
  by (rule trim_positive)

text \<open>C17 (bounds): with a new message, at most \<open>2 * max_exchanges + 1\<close> messages are passed on.\<close>

theorem manage_history_length:
  "0 < mx \<Longrightarrow> length (manage_conversation_history h n mx) \<le> nat (2 * mx) + 1"
proof -
  assume mx: "0 < mx"
  have "length (manage_conversation_history h None mx) \<le> nat (2 * mx)"
    using trim_positive [OF mx] by simp
  then show ?thesis
    by (cases n) (auto simp: manage_conversation_history_def Let_def split: if_splits)
qed

text \<open>
  C18 (bounds): \<open>max_exchanges = 0\<close> does not trim at all: \<open>messages[-0:]\<close> is the whole
  list, so the whole history is passed on instead of none of it.
\<close>

theorem manage_history_zero_keeps_all:
  "manage_conversation_history h None 0 = history_messages h"
  by (simp add: manage_none_eq Let_def)

subsection \<open>Filtering\<close>

lemma user_part_Human: "x \<in> set (user_part t) \<Longrightarrow> x = HumanMessage (sanitize_input (turn_user t))
    \<and> sanitize_input (turn_user t) \<noteq> []"
  by (auto simp: user_part_def Let_def split: if_splits)

lemma bot_part_AI: "x \<in> set (bot_part t) \<Longrightarrow> \<exists>b. x = AIMessage b \<and> \<not> is_denial b"
proof -
  have "x \<in> set (bot_msg v) \<Longrightarrow> \<exists>b. x = AIMessage b \<and> \<not> is_denial b" for v
    by (cases v rule: bot_msg.cases) (auto split: if_splits)
  then show "x \<in> set (bot_part t) \<Longrightarrow> ?thesis" by (auto simp: bot_part_def split: if_splits)
qed

lemma history_messages_AI:
  "AIMessage b \<in> set (history_messages h) \<Longrightarrow> \<not> is_denial b"
  by (induction h) (auto dest: user_part_Human bot_part_AI)

lemma history_messages_Human:
  "HumanMessage u \<in> set (history_messages h) \<Longrightarrow> u \<noteq> [] \<and> (\<exists>t \<in> set h. u = sanitize_input (turn_user t))"
  by (induction h) (auto dest: user_part_Human bot_part_AI)

lemma set_manage_history:
  "set (manage_conversation_history h n mx) \<subseteq> set (history_messages h) \<union> {HumanMessage m | m. n = Some m}"
  by (auto simp: manage_conversation_history_def Let_def split: if_splits option.splits
      dest: in_set_dropD)

text \<open>
  C19 (safety): no model reply that contains a denial phrase (case-insensitively) is
  passed back to the model, whatever the trimming.
\<close>

theorem manage_history_no_denial:
  "AIMessage b \<in> set (manage_conversation_history h n mx) \<Longrightarrow> \<not> is_denial b"
  using set_manage_history [of h n mx] history_messages_AI by auto

lemma sanitize_input_stripped: "py_strip (sanitize_input v) = sanitize_input v"
  by (cases v) (simp_all add: py_strip_idem)

text \<open>
  C34 (safety): every user message the history passes to the model is non-empty and
  already stripped: it is a sanitized string entry of the front end's history.
\<close>

theorem manage_history_user_sanitized:
  "HumanMessage u \<in> set (manage_conversation_history h None mx) \<Longrightarrow> u \<noteq> [] \<and> py_strip u = u"
  using set_manage_history [of h None mx] history_messages_Human [of u h] sanitize_input_stripped
  by auto

end
