(* ===== verification/App_Coaches.thy ===== *)
theory App_Coaches
  imports Py_Values "HOL-Library.List_Lexorder" "HOL-Library.Char_ord"
begin

text \<open>
  \<open>src/app.py\<close>, the coach catalogue: \<open>load_coach_sidebar_data\<close>, which lists the
  persona files \<open>coach_data/*.json\<close> in sorted order and turns each base name into a
  display name (\<open>'_'\<close> to space, \<open>str.title\<close>) and a URL name (lower case, spaces
  removed), and the route \<open>/coach/<coach_url_name>\<close> (\<open>coach_page\<close>), which maps the
  URL name to a template and looks the coach up in the sidebar. The file system is the
  record \<open>coach_fs\<close>: the directory listing (\<open>None\<close> when the directory is missing or
  cannot be listed), the outcome of \<open>json.load\<close> on a file, and the existence tests for
  images and templates. Python's string order is \<open>List_Lexorder\<close> over code points.
  The chat handler (\<open>App_Chat\<close>) opens the persona file named by \<open>coach_filename\<close>
  of the display name; the lemmas show that for base names of lower-case ASCII letters
  and underscores this is the very file the sidebar entry was made from.
\<close>

datatype coach_file = FileMissing | JsonInvalid | ReadFailed | Persona pyobj
  \<comment> \<open>\<open>open\<close> + \<open>json.load\<close>: \<open>FileNotFoundError\<close>, \<open>JSONDecodeError\<close>, another error, or the object\<close>

record coach_fs =
  coach_dir :: "string list option"
  coach_read :: "string \<Rightarrow> coach_file"
  image_exists :: "string \<Rightarrow> bool"
  template_exists :: "string \<Rightarrow> bool"

record sidebar_entry =
  sb_name :: string
  sb_url_name :: string
  sb_image :: string

definition coach_filename :: "string \<Rightarrow> string" where
  \<comment> \<open>\<open>f"{coach_display_name.lower().replace(' ', '_')}.json"\<close> in \<open>index\<close>\<close>
  "coach_filename name = map (\<lambda>c. if c = CHR '' '' then CHR ''_'' else c) (py_lower name) @ ''.json''"

definition display_name :: "string \<Rightarrow> string" where
  \<comment> \<open>\<open>base_name.replace("_", " ").title()\<close>\<close>
  "display_name base = py_title (map (\<lambda>c. if c = CHR ''_'' then CHR '' '' else c) base)"

definition url_name :: "string \<Rightarrow> string" where
  \<comment> \<open>\<open>coach_display_name.lower().replace(" ", "")\<close>\<close>
  "url_name display = filter (\<lambda>c. c \<noteq> CHR '' '') (py_lower display)"

definition image_of :: "(pyobj \<times> pyobj) list \<Rightarrow> pyobj" where
  \<comment> \<open>\<open>persona_data.get('image', 'default.jpg')\<close>\<close>
  "image_of kvs = (case map_of kvs (PyStr ''image'') of None \<Rightarrow> PyStr ''default.jpg'' | Some v \<Rightarrow> v)"

definition coach_sidebar_entry :: "coach_fs \<Rightarrow> string \<Rightarrow> sidebar_entry option" where
  \<comment> \<open>one iteration of the loop; a file that fails to load, a persona that is not an
      object (\<open>.get\<close> raises) and an image name that is not a string
      (\<open>os.path.join\<close> raises) are caught and skipped\<close>
  "coach_sidebar_entry fs filename =
     (if py_endswith filename ''.json'' \<and> \<not> py_startswith filename ''.'' then
        (let base_name = take (length filename - 5) filename;
             coach_display_name = display_name base_name;
             coach_url_name = url_name coach_display_name
         in case coach_read fs filename of
              Persona (PyDict kvs) \<Rightarrow>
                (case image_of kvs of
                   PyStr image_filename \<Rightarrow>
                     Some \<lparr>sb_name = coach_display_name, sb_url_name = coach_url_name,
                           sb_image = (if image_exists fs image_filename then image_filename
                                       else ''default.jpg'')\<rparr>
                 | _ \<Rightarrow> None)
            | _ \<Rightarrow> None)
      else None)"

definition load_coach_sidebar_data :: "coach_fs \<Rightarrow> sidebar_entry list" where
  "load_coach_sidebar_data fs =
     (case coach_dir fs of
        None \<Rightarrow> []
      | Some files \<Rightarrow> List.map_filter (coach_sidebar_entry fs) (sort files))"

definition coach_template_mapping :: "(string \<times> string) list" where
  "coach_template_mapping = [
     (''aiyoda'', ''aiyoda''), (''wellnesswarrior'', ''wellwar''), (''careercatalyst'', ''carcat''),
     (''executivecoach'', ''execu''), (''personalgrowthguru'', ''pg''), (''relationshiprevivalist'', ''rr'')]"

datatype coach_page_result =
    CoachNotFound string
  | CoachPage string "sidebar_entry list" "sidebar_entry option"
    \<comment> \<open>\<open>render_template(template_filename, coaches=..., current_coach=...)\<close>\<close>

definition QUOTE :: string where
  "QUOTE = [CHR 0x27]"

definition coach_page :: "coach_fs \<Rightarrow> string \<Rightarrow> coach_page_result" where
  "coach_page fs coach_url_name =
     (case map_of coach_template_mapping (py_lower coach_url_name) of
        None \<Rightarrow> CoachNotFound (''Coach '' @ QUOTE @ coach_url_name @ QUOTE @ '' not recognized.'')
      | Some template_name_base \<Rightarrow>
          (let template_filename = template_name_base @ ''.html'' in
           if template_exists fs template_filename then
             (let coach_sidebar_list = load_coach_sidebar_data fs in
              CoachPage template_filename coach_sidebar_list
                (find (\<lambda>c. sb_url_name c = coach_url_name) coach_sidebar_list))
           else CoachNotFound (''Coach page template '' @ QUOTE @ template_filename @ QUOTE @ '' not found.'')))"

lemmas [py_simps] = coach_filename_def display_name_def url_name_def image_of_def
  coach_sidebar_entry_def load_coach_sidebar_data_def coach_template_mapping_def QUOTE_def coach_page_def

subsection \<open>Display names and file names\<close>

definition coach_base_ok :: "string \<Rightarrow> bool" where
  \<comment> \<open>a base name of lower-case ASCII letters and underscores, as the shipped persona files have\<close>
  "coach_base_ok base \<longleftrightarrow> (\<forall>c \<in> set base. is_lower_ascii c \<or> c = CHR ''_'')"

lemma lower_ascii_not_space: "is_lower_ascii c \<Longrightarrow> c \<noteq> CHR '' ''"
  by (auto simp: is_lower_ascii_def)

lemma lower_ascii_not_underscore: "is_lower_ascii c \<Longrightarrow> c \<noteq> CHR ''_''"
  by (auto simp: is_lower_ascii_def)

lemma py_lower_display_name:
  assumes "coach_base_ok base"
  shows "py_lower (display_name base) = map (\<lambda>c. if c = CHR ''_'' then CHR '' '' else c) base"
proof -
  have "\<forall>c \<in> set (map (\<lambda>c. if c = CHR ''_'' then CHR '' '' else c) base). is_lower_ascii c \<or> c = CHR '' ''"
    using assms by (auto simp: coach_base_ok_def)
  then show ?thesis by (simp add: display_name_def py_title_def py_lower_title_from)
qed

lemma coach_filename_display_name:
  assumes "coach_base_ok base"
  shows "coach_filename (display_name base) = base @ ''.json''"
proof -
  have "map (\<lambda>c. if c = CHR '' '' then CHR ''_'' else c) (map (\<lambda>c. if c = CHR ''_'' then CHR '' '' else c) base) = base"
    using assms by (induction base) (auto simp: coach_base_ok_def dest: lower_ascii_not_space)
  then show ?thesis using assms by (simp add: coach_filename_def py_lower_display_name)
qed

lemma url_name_display_name:
  assumes "coach_base_ok base"
  shows "url_name (display_name base) = filter (\<lambda>c. c \<noteq> CHR ''_'') base"
proof -
  have "filter (\<lambda>c. c \<noteq> CHR '' '') (map (\<lambda>c. if c = CHR ''_'' then CHR '' '' else c) base) =
      filter (\<lambda>c. c \<noteq> CHR ''_'') base"
    using assms by (induction base) (auto simp: coach_base_ok_def dest: lower_ascii_not_space)
  then show ?thesis using assms by (simp add: url_name_def py_lower_display_name)
qed

subsection \<open>The sidebar\<close>

lemma py_endswith_take: "py_endswith f ''.json'' \<Longrightarrow> take (length f - 5) f @ ''.json'' = f"
proof -
  assume "py_endswith f ''.json''"
  moreover have "length ''.json'' = (5::nat)" by simp
  ultimately have "drop (length f - 5) f = ''.json''" unfolding py_endswith_def by metis
  then show ?thesis by (metis append_take_drop_id)
qed

lemma coach_sidebar_entry_SomeD:
  assumes "coach_sidebar_entry fs f = Some e"
  shows "py_endswith f ''.json'' \<and> \<not> py_startswith f ''.'' \<and> sb_name e = display_name (take (length f - 5) f)
    \<and> sb_url_name e = url_name (sb_name e)
    \<and> (\<exists>kvs. coach_read fs f = Persona (PyDict kvs) \<and> image_of kvs \<noteq> PyNone
         \<and> (sb_image e = ''default.jpg'' \<or> (image_of kvs = PyStr (sb_image e) \<and> image_exists fs (sb_image e))))"
  using assms
  by (auto simp: coach_sidebar_entry_def Let_def split: if_splits coach_file.splits pyobj.splits)

lemma load_coach_sidebar_data_mem:
  assumes "e \<in> set (load_coach_sidebar_data fs)"
  shows "\<exists>files f. coach_dir fs = Some files \<and> f \<in> set files \<and> coach_sidebar_entry fs f = Some e"
  using assms by (force simp: load_coach_sidebar_data_def List.map_filter_def split: option.splits)

lemma py_lower_url_name: "py_lower (url_name d) = url_name d"
proof -
  have "py_lower_char c = c" if "c \<in> set (url_name d)" for c
    using that by (auto simp: url_name_def py_lower_def py_lower_char_idem)
  then show ?thesis by (simp add: py_lower_def map_idI)
qed

lemma sidebar_url_name_lower:
  "e \<in> set (load_coach_sidebar_data fs) \<Longrightarrow> py_lower (sb_url_name e) = sb_url_name e"
proof -
  assume "e \<in> set (load_coach_sidebar_data fs)"
  then obtain files f where "coach_sidebar_entry fs f = Some e"
    using load_coach_sidebar_data_mem by blast
  then have "sb_url_name e = url_name (sb_name e)" using coach_sidebar_entry_SomeD by blast
  then show ?thesis by (simp add: py_lower_url_name)
qed

lemma coach_page_CoachPageD:
  assumes "coach_page fs u = CoachPage t sb cur"
  shows "sb = load_coach_sidebar_data fs \<and> cur = find (\<lambda>c. sb_url_name c = u) sb
    \<and> (\<exists>b. map_of coach_template_mapping (py_lower u) = Some b \<and> t = b @ ''.html'' \<and> template_exists fs t)"
  using assms by (auto simp: coach_page_def Let_def split: option.splits if_splits)

text \<open>
  C20 (roundtrip): when the persona files are named with lower-case ASCII letters and
  underscores, the display name the sidebar shows for a coach leads the chat handler,
  through \<open>coach_filename\<close>, back to the file the entry was made from, and that file
  holds a JSON object.
\<close>

theorem sidebar_coach_file_roundtrip:
  assumes "e \<in> set (load_coach_sidebar_data fs)"
    and "\<forall>f \<in> set (the (coach_dir fs)). py_endswith f ''.json'' \<and> \<not> py_startswith f ''.''
           \<longrightarrow> coach_base_ok (take (length f - 5) f)"
  shows "coach_filename (sb_name e) \<in> set (the (coach_dir fs))
    \<and> (\<exists>kvs. coach_read fs (coach_filename (sb_name e)) = Persona (PyDict kvs))"
proof -
  obtain files f where d: "coach_dir fs = Some files" "f \<in> set files" "coach_sidebar_entry fs f = Some e"
    using load_coach_sidebar_data_mem [OF assms(1)] by blast
  note e = coach_sidebar_entry_SomeD [OF d(3)]
  have "coach_filename (sb_name e) = take (length f - 5) f @ ''.json''"
    using e assms(2) d(1,2) by (simp add: coach_filename_display_name)
  then have "coach_filename (sb_name e) = f" using e by (simp add: py_endswith_take)
  then show ?thesis using d e by auto
qed

text \<open>
  The coach page marks a current coach exactly when the sidebar has
  an entry whose URL name is the requested URL name, character for character, and the
  coach it marks is such an entry.
\<close>

theorem coach_page_current_coach:
  assumes "coach_page fs u = CoachPage t sb cur"
  shows "(cur \<noteq> None \<longleftrightarrow> (\<exists>e \<in> set sb. sb_url_name e = u))
    \<and> (\<forall>e. cur = Some e \<longrightarrow> e \<in> set sb \<and> sb_url_name e = u)"
proof -
  have cur: "cur = find (\<lambda>c. sb_url_name c = u) sb" using coach_page_CoachPageD [OF assms] by blast
  show ?thesis unfolding cur
    by (auto simp: find_None_iff find_Some_iff)
qed

text \<open>
  Every sidebar entry shows either \<open>default.jpg\<close> or the image its
  persona file names, and the latter only when that image exists.
\<close>

theorem sidebar_image_ok:
  assumes "e \<in> set (load_coach_sidebar_data fs)"
  shows "sb_image e = ''default.jpg''
    \<or> (\<exists>f kvs. coach_read fs f = Persona (PyDict kvs) \<and> image_of kvs = PyStr (sb_image e)
         \<and> image_exists fs (sb_image e))"
proof -
  obtain files f where "coach_sidebar_entry fs f = Some e"
    using load_coach_sidebar_data_mem [OF assms] by blast
  then show ?thesis using coach_sidebar_entry_SomeD by blast
qed


text \<open>
  C30 (functional): the coach page recognises a URL name case-insensitively but looks the
  coach up in the sidebar case-sensitively, and every URL name the sidebar makes is
  lower case: a URL name with an upper-case letter (\<open>/coach/AIYoda\<close>) that names a
  coach with a template renders that template, with the full sidebar and no current
  coach.
\<close>

theorem coach_page_upper_case_no_current:
  assumes "py_lower u \<noteq> u" and "map_of coach_template_mapping (py_lower u) = Some b"
    and "template_exists fs (b @ ''.html'')"
  shows "coach_page fs u = CoachPage (b @ ''.html'') (load_coach_sidebar_data fs) None"
proof -
  have "sb_url_name e \<noteq> u" if "e \<in> set (load_coach_sidebar_data fs)" for e
    using sidebar_url_name_lower [OF that] assms(1) by auto
  then have "find (\<lambda>c. sb_url_name c = u) (load_coach_sidebar_data fs) = None"
    by (simp add: find_None_iff)
  then show ?thesis using assms(2,3) by (simp add: coach_page_def Let_def)
qed

end
