(* ===== verification/App_Services.thy ===== *)
theory App_Services
  imports Py_Values
begin

text \<open>
  \<open>src/app.py\<close>, the two external services the chat handler calls.
  \<^item> \<open>get_dad_joke\<close> asks \<open>icanhazdadjoke.com\<close> for a joke. What the service does is
    the input \<open>dad_joke_api\<close>: a \<open>requests.RequestException\<close> (no connection, a
    timeout, an HTTP error status from \<open>raise_for_status\<close>, a body that is not JSON)
    or the decoded JSON value. The function returns the \<open>joke\<close> field, the default
    text when the object has no such field, or the text for a failed request; the two
    fixed texts contain U+2019 and U+2013, beyond the model's Latin-1 strings, so they
    are the constructors \<open>JokeDefault\<close> and \<open>JokeFetchFailed\<close>. A JSON value that is
    not an object has no \<open>.get\<close>: the \<open>AttributeError\<close> is not a \<open>RequestException\<close>
    and escapes the function, which is the result \<open>None\<close>.
  \<^item> \<open>create_gemini_chat_model\<close> builds the LangChain client from the configured
    model name and API key; the service it talks to is a function of that client,
    supplied by the caller.
\<close>

datatype dad_joke_api = JokeRequestFailed | JokeJson pyobj

datatype joke_text =
    FetchedJoke pyobj
    \<comment> \<open>\<open>response.json().get('joke', ...)\<close>: the field, whatever JSON value it holds\<close>
  | JokeDefault
    \<comment> \<open>\<open>"No joke today, but you're still awesome!"\<close> (with U+2019)\<close>
  | JokeFetchFailed
    \<comment> \<open>\<open>"No joke fetched - my bad!"\<close> (with U+2013)\<close>

fun get_dad_joke :: "dad_joke_api \<Rightarrow> joke_text option" where
  "get_dad_joke JokeRequestFailed = Some JokeFetchFailed"
| "get_dad_joke (JokeJson (PyDict kvs)) =
     Some (case map_of kvs (PyStr ''joke'') of None \<Rightarrow> JokeDefault | Some v \<Rightarrow> FetchedJoke v)"
| "get_dad_joke (JokeJson _) = None"

record gemini_client =
  gm_model :: string
  gm_api_key :: string

definition create_gemini_chat_model :: "string \<Rightarrow> string \<Rightarrow> gemini_client" where
  \<comment> \<open>\<open>ChatGoogleGenerativeAI(model=GEMINI_MODEL_NAME, google_api_key=GEMINI_API_KEY)\<close>\<close>
  "create_gemini_chat_model model_name api_key = \<lparr>gm_model = model_name, gm_api_key = api_key\<rparr>"

lemmas [py_simps] = create_gemini_chat_model_def

text \<open>
  C33 (error): the joke service's failures are absorbed, with one exception: every
  failed request gives the fixed apology, an object without a \<open>joke\<close> field the
  default text, and only a JSON reply that is not an object makes \<open>get_dad_joke\<close>
  raise.
\<close>

theorem get_dad_joke_raises_iff:
  "get_dad_joke r = None \<longleftrightarrow> (\<exists>v. r = JokeJson v \<and> (\<forall>kvs. v \<noteq> PyDict kvs))"
  by (cases r rule: get_dad_joke.cases) auto

end
