(* ===== verification/App_Chat.thy ===== *)
theory App_Chat
  imports Rag_Processor App_History App_Coaches App_Services
begin

text \<open>
  \<open>src/app.py\<close>, the POST branch of the route \<open>/\<close> (\<open>index\<close>): validate the JSON body,
  load the coach's persona file, answer a joke request with a dad joke, otherwise
  retrieve context with \<open>rag_processor.search_documents(message, k=3)\<close> when
  \<open>RAG_ENABLED\<close>, rebuild the history (dropped when the coach changed, tracked in the
  session), assemble the messages and call the chat model, whose answer is stripped of
  asterisks. The file system, the joke API and the model are the fields of the record
  \<open>chat_ctx\<close>; the session's \<open>current_coach\<close> is passed in and returned. The fixed text
  of the joke answer contains U+2019, beyond the model's Latin-1 strings, so the joke
  reply is the constructor \<open>JokeResponse\<close> with what \<open>get_dad_joke\<close> returned
  (\<open>App_Services\<close>) and the request's \<open>message_id\<close>. The id, a fresh \<open>uuid4\<close>, is an input of the model (\<open>req_id\<close>). The chat model's
  content is taken to be a string (Gemini returns text); the \<open>str(answer)\<close> fallback
  for other contents is not modelled. A truthy \<open>prompt_prefix\<close> that is not a string
  is taken to make \<open>SystemMessage\<close> raise (a 500 with the message id); LangChain also
  accepts a list of content parts there, which is not modelled. The body is taken to be a JSON object, absent or
  empty when the request is \<open>None\<close>; its fields are those of \<open>chat_request\<close>, the history being any JSON
  value, read by \<open>history_turns\<close> only when the coach is the session's.
  \<open>chat_run\<close> threads the session cookie through one
  client's requests in order, for the invariant on the session's coach.
\<close>

definition NL :: string where
  "NL = [CHR 0x0A]"

definition joke_triggers :: "string list" where
  "joke_triggers = [''joke'', ''dad joke'', ''make me laugh'', ''something funny'', ''cheer me up'']"

definition joke_triggered :: "string \<Rightarrow> bool" where
  "joke_triggered msg \<longleftrightarrow> list_ex (py_contains (py_lower msg)) joke_triggers"

definition format_context :: "string list \<Rightarrow> string" where
  \<comment> \<open>the numbered context block joined with newlines\<close>
  "format_context docs =
     py_join NL (''Context related to your query:''
       # map (\<lambda>(i, doc). ''['' @ digit_chars i @ ''] '' @ doc) (zip [1..<Suc (length docs)] docs))"

definition retrieve_context :: "bool \<Rightarrow> 'a::linordered_idom rag_state \<Rightarrow> string \<Rightarrow> string" where
  "retrieve_context rag_enabled st msg =
     (if rag_enabled then
        (let retrieved_docs = search_documents st (PyStr msg) 3 in
         if retrieved_docs \<noteq> [] then format_context retrieved_docs else [])
      else [])"

definition final_prompt :: "string \<Rightarrow> string \<Rightarrow> string" where
  "final_prompt ctx msg =
     py_join NL ((if ctx \<noteq> [] then
         [''--- Start of Provided Context ---'', ctx, ''--- End of Provided Context ---'',
          NL @ ''Based on the context above and our previous conversation, answer the following query:'']
       else []) @ [''User Query: '' @ msg])"

definition clean_answer :: "string \<Rightarrow> string" where
  \<comment> \<open>\<open>answer.strip()\<close>, then \<open>re.sub(r'[\*]+', '', answer).strip()\<close>\<close>
  "clean_answer a = py_strip (filter (\<lambda>c. c \<noteq> CHR ''*'') (py_strip a))"

datatype chat_response =
    ErrorResponse nat string
  | JokeResponse joke_text string
    \<comment> \<open>\<open>{'answer': f"Okay, you asked for it! ... {dad_joke}", 'message_id': ...}\<close>\<close>
  | AnswerResponse string string
  | ServerError "string option"
    \<comment> \<open>the \<open>error_id\<close> attached to the exception, if the handler attached one\<close>
    \<comment> \<open>an exception that reaches the 500 handler\<close>

record chat_request =
  req_id :: string
    \<comment> \<open>\<open>message_id = str(uuid.uuid4())\<close>, drawn by the handler for this request\<close>
  req_message :: pyobj
  req_coach :: pyobj
  req_history :: pyobj
    \<comment> \<open>\<open>data.get('history', [])\<close>: any JSON value\<close>

record 'a chat_ctx =
  rag_enabled :: bool
  rag_globals :: "'a rag_state"
  chat_fs :: coach_fs
  session_signing :: bool
    \<comment> \<open>\<open>app.secret_key\<close> is set: without it Flask's null session raises on every write\<close>
  joke_api :: dad_joke_api
  llm :: "message list \<Rightarrow> string option"

definition err_config_invalid :: chat_response where
  "err_config_invalid = ErrorResponse 500 ''Internal server error: Coach configuration invalid.''"

definition err_loading :: chat_response where
  "err_loading = ErrorResponse 500 ''Internal server error loading coach data.''"

fun persona_prefix :: "pyobj \<Rightarrow> chat_response + pyobj" where
  \<comment> \<open>\<open>"prompt_prefix" not in coach_persona or not coach_persona["prompt_prefix"]\<close>; on a
      list or string \<open>in\<close> tests elements or substrings and the subscript then raises, on
      other values \<open>in\<close> raises; an exception lands in \<open>except Exception\<close>. JSON objects
      are taken with distinct keys.\<close>
  "persona_prefix (PyDict kvs) =
     (case map_of kvs (PyStr ''prompt_prefix'') of
        Some v \<Rightarrow> if py_truthy v then Inr v else Inl err_config_invalid
      | None \<Rightarrow> Inl err_config_invalid)"
| "persona_prefix (PyList xs) =
     (if PyStr ''prompt_prefix'' \<in> set xs then Inl err_loading else Inl err_config_invalid)"
| "persona_prefix (PyTuple xs) =
     (if PyStr ''prompt_prefix'' \<in> set xs then Inl err_loading else Inl err_config_invalid)"
| "persona_prefix (PyStr s) =
     (if py_contains s ''prompt_prefix'' then Inl err_loading else Inl err_config_invalid)"
| "persona_prefix _ = Inl err_loading"

definition chat_messages ::
  "'a::linordered_idom chat_ctx \<Rightarrow> turn list \<Rightarrow> string \<Rightarrow> string \<Rightarrow> message list" where
  \<comment> \<open>\<open>messages_to_send\<close>: system prompt, the kept history, the final human message\<close>
  "chat_messages ctx history_for_processing msg prefix =
     (let ctx_str = retrieve_context (rag_enabled ctx) (rag_globals ctx) msg;
          past = manage_conversation_history history_for_processing None 15
      in [SystemMessage prefix] @ past @ [HumanMessage (final_prompt ctx_str msg)])"

definition chat_post ::
  "'a::linordered_idom chat_ctx \<Rightarrow> string option \<Rightarrow> chat_request option \<Rightarrow> chat_response \<times> string option" where
  "chat_post ctx previous_coach data =
     (case data of
        None \<Rightarrow> (ErrorResponse 400 ''No data provided'', previous_coach)
      | Some req \<Rightarrow>
          if \<not> py_truthy (req_message req) \<or> \<not> py_truthy (req_coach req)
          then (ErrorResponse 400 ''Missing message or coach name'', previous_coach)
          else (case req_coach req of
            PyStr coach \<Rightarrow>
              let msg = sanitize_input (req_message req) in
              (case coach_read (chat_fs ctx) (coach_filename coach) of
                 FileMissing \<Rightarrow>
                   (ErrorResponse 400 (''Coach configuration for \"'' @ coach @ ''\" not found.''), previous_coach)
               | JsonInvalid \<Rightarrow> (ErrorResponse 500 ''Error loading coach configuration.'', previous_coach)
               | ReadFailed \<Rightarrow> (err_loading, previous_coach)
               | Persona p \<Rightarrow>
                   (case persona_prefix p of
                      Inl err \<Rightarrow> (err, previous_coach)
                    | Inr prefix \<Rightarrow>
                        if joke_triggered msg then
                          (case get_dad_joke (joke_api ctx) of
                             None \<Rightarrow> (ServerError None, previous_coach)
                           | Some dad_joke \<Rightarrow> (JokeResponse dad_joke (req_id req), previous_coach))
                        else if previous_coach = Some coach \<and> py_len (req_history req) = None
                        then (ServerError None, previous_coach)
                        else if \<not> session_signing ctx then (ServerError None, previous_coach)
                        else (case history_turns (if previous_coach = Some coach then req_history req else PyList []) of
                          None \<Rightarrow> (ServerError None, Some coach)
                        | Some history_for_processing \<Rightarrow>
                        (case prefix of
                          PyStr s \<Rightarrow>
                            ((case llm ctx (chat_messages ctx history_for_processing msg s) of
                                None \<Rightarrow> ServerError (Some (req_id req))
                              | Some answer \<Rightarrow> AnswerResponse (clean_answer answer) (req_id req)), Some coach)
                        | _ \<Rightarrow> (ServerError (Some (req_id req)), Some coach)))))
          | _ \<Rightarrow> (ServerError None, previous_coach)))"

fun chat_run ::
  "'a::linordered_idom chat_ctx \<Rightarrow> string option \<Rightarrow> chat_request option list \<Rightarrow> chat_response list \<times> string option" where
  \<comment> \<open>one client's requests in order, the session cookie carrying \<open>current_coach\<close> from one to the next\<close>
  "chat_run ctx s [] = ([], s)"
| "chat_run ctx s (d # ds) =
     (let (r, s') = chat_post ctx s d; (rs, s'') = chat_run ctx s' ds in (r # rs, s''))"

definition valid_coach :: "'a chat_ctx \<Rightarrow> string \<Rightarrow> bool" where
  \<comment> \<open>the coach's persona file loads and has a truthy \<open>prompt_prefix\<close>\<close>
  "valid_coach ctx c \<longleftrightarrow>
     (case coach_read (chat_fs ctx) (coach_filename c) of
        Persona p \<Rightarrow> (case persona_prefix p of Inr _ \<Rightarrow> True | Inl _ \<Rightarrow> False)
      | _ \<Rightarrow> False)"

definition session_ok :: "'a chat_ctx \<Rightarrow> string option \<Rightarrow> bool" where
  "session_ok ctx s \<longleftrightarrow> (case s of None \<Rightarrow> True | Some c \<Rightarrow> valid_coach ctx c)"

lemmas [py_simps] = NL_def joke_triggers_def joke_triggered_def format_context_def
  retrieve_context_def final_prompt_def clean_answer_def chat_messages_def chat_post_def
  err_config_invalid_def err_loading_def

subsection \<open>The branches of the handler\<close>

lemma persona_prefix_Inl:
  "persona_prefix p = Inl e \<Longrightarrow> e = err_config_invalid \<or> e = err_loading"
  by (cases p rule: persona_prefix.cases) (auto split: option.splits if_splits)

lemma chat_post_valid:
  assumes "req_coach req = PyStr coach" and "py_truthy (req_message req)" and "coach \<noteq> []"
    and "coach_read (chat_fs ctx) (coach_filename coach) = Persona p" and "persona_prefix p = Inr prefix"
  shows "chat_post ctx prev (Some req) =
    (let msg = sanitize_input (req_message req) in
     if joke_triggered msg then
       (case get_dad_joke (joke_api ctx) of
          None \<Rightarrow> (ServerError None, prev) | Some j \<Rightarrow> (JokeResponse j (req_id req), prev))
     else if prev = Some coach \<and> py_len (req_history req) = None then (ServerError None, prev)
     else if \<not> session_signing ctx then (ServerError None, prev)
     else (case history_turns (if prev = Some coach then req_history req else PyList []) of
       None \<Rightarrow> (ServerError None, Some coach)
     | Some turns \<Rightarrow>
       (case prefix of
         PyStr s \<Rightarrow> ((case llm ctx (chat_messages ctx turns msg s) of
                       None \<Rightarrow> ServerError (Some (req_id req))
                     | Some answer \<Rightarrow> AnswerResponse (clean_answer answer) (req_id req)), Some coach)
       | _ \<Rightarrow> (ServerError (Some (req_id req)), Some coach))))"
  using assms by (simp add: chat_post_def Let_def)

lemma chat_post_session_cases:
  "snd (chat_post ctx prev d) = prev \<or>
   (\<exists>req coach p prefix. d = Some req \<and> req_coach req = PyStr coach \<and> py_truthy (req_message req)
      \<and> coach \<noteq> [] \<and> coach_read (chat_fs ctx) (coach_filename coach) = Persona p
      \<and> persona_prefix p = Inr prefix \<and> \<not> joke_triggered (sanitize_input (req_message req))
      \<and> snd (chat_post ctx prev d) = Some coach)"
  by (auto simp: chat_post_def Let_def split: option.splits pyobj.splits coach_file.splits sum.splits)

lemma retrieve_context_off:
  "\<not> on \<or> \<not> are_rag_components_loaded st \<Longrightarrow> retrieve_context on st msg = []"
  by (auto simp: retrieve_context_def search_documents_def)

lemma final_prompt_no_context: "final_prompt [] msg = ''User Query: '' @ msg"
  by (simp add: final_prompt_def)

lemma chat_messages_unfold:
  "chat_messages ctx turns msg s =
     SystemMessage s # manage_conversation_history turns None 15
     @ [HumanMessage (final_prompt (retrieve_context (rag_enabled ctx) (rag_globals ctx) msg) msg)]"
  by (simp add: chat_messages_def Let_def)

text \<open>C22 (error): a request without a truthy message or coach name is refused with a 400 and leaves the session alone.\<close>

theorem chat_post_missing_fields:
  "\<not> py_truthy (req_message req) \<or> \<not> py_truthy (req_coach req) \<Longrightarrow>
   chat_post ctx prev (Some req) = (ErrorResponse 400 ''Missing message or coach name'', prev)"
  by (auto simp: chat_post_def)

text \<open>
  C23 (functional): a valid request whose message asks for a joke is answered from the
  joke service alone, with the joke \<open>get_dad_joke\<close> returns or a 500 when it raises:
  the chat model is not consulted and the session's coach is not updated.
\<close>

theorem chat_post_joke:
  assumes "req_coach req = PyStr coach" and "py_truthy (req_message req)" and "coach \<noteq> []"
    and "coach_read (chat_fs ctx) (coach_filename coach) = Persona p" and "persona_prefix p = Inr prefix"
    and "joke_triggered (sanitize_input (req_message req))"
  shows "chat_post ctx prev (Some req) =
    (case get_dad_joke (joke_api ctx) of
       None \<Rightarrow> (ServerError None, prev) | Some j \<Rightarrow> (JokeResponse j (req_id req), prev))"
  using chat_post_valid [OF assms(1-5)] assms(6) by simp

text \<open>
  C24 (invariant): the session's current coach only ever changes to the coach of a
  request that passed validation, whose persona file loaded as a persona with a
  prompt prefix, and that was not a joke request.
\<close>

theorem chat_post_session:
  assumes "snd (chat_post ctx prev d) \<noteq> prev"
  shows "\<exists>req coach p prefix. d = Some req \<and> req_coach req = PyStr coach
    \<and> coach_read (chat_fs ctx) (coach_filename coach) = Persona p \<and> persona_prefix p = Inr prefix
    \<and> \<not> joke_triggered (sanitize_input (req_message req)) \<and> snd (chat_post ctx prev d) = Some coach"
  using chat_post_session_cases [of ctx prev d] assms by blast

text \<open>
  C25 (functional): when the coach differs from the session's coach (or there is none)
  the model sees no history, whatever the front end sent: only the persona's system
  prompt and the final prompt.
\<close>

theorem chat_post_coach_switch:
  assumes "req_coach req = PyStr coach" and "py_truthy (req_message req)" and "coach \<noteq> []"
    and "coach_read (chat_fs ctx) (coach_filename coach) = Persona p" and "persona_prefix p = Inr (PyStr s)"
    and "\<not> joke_triggered (sanitize_input (req_message req))" and "session_signing ctx"
    and "prev \<noteq> Some coach"
  shows "chat_post ctx prev (Some req) =
    ((case llm ctx [SystemMessage s, HumanMessage (final_prompt (retrieve_context (rag_enabled ctx)
                      (rag_globals ctx) (sanitize_input (req_message req))) (sanitize_input (req_message req)))] of
        None \<Rightarrow> ServerError (Some (req_id req))
      | Some a \<Rightarrow> AnswerResponse (clean_answer a) (req_id req)), Some coach)"
  using chat_post_valid [OF assms(1-5)] assms(6-8)
  by (simp add: Let_def history_turns_def chat_messages_unfold manage_none_eq)

text \<open>C26 (bounds): the model never receives more than 32 messages: the system prompt, at most 30 past messages and the prompt.\<close>

theorem chat_messages_length: "length (chat_messages ctx turns msg s) \<le> 32"
proof -
  have "length (manage_conversation_history h None 15) \<le> 30" for h
    using trim_positive [of 15 h] by simp
  then show ?thesis by (simp add: chat_messages_unfold)
qed

text \<open>
  C27 (safety): with retrieval disabled or its components not loaded, the final prompt
  is the user's query alone, with no context block.
\<close>

theorem chat_prompt_degraded:
  "\<not> on \<or> \<not> are_rag_components_loaded st \<Longrightarrow>
   final_prompt (retrieve_context on st msg) msg = ''User Query: '' @ msg"
  by (simp add: retrieve_context_off final_prompt_no_context)

text \<open>C28 (safety): the answer returned to the user holds no asterisk and only characters of the model's answer.\<close>

theorem clean_answer_no_asterisk: "CHR ''*'' \<notin> set (clean_answer a) \<and> set (clean_answer a) \<subseteq> set a"
  using set_py_strip [of "filter (\<lambda>c. c \<noteq> CHR ''*'') (py_strip a)"] set_py_strip [of a]
  by (auto simp: clean_answer_def)

lemma retrieve_context_refines:
  assumes "embedding_model st = Some m" and "faiss_index st = Some ix"
    and "py_seq (metadata st) = Some (map PyStr docs)" and "length docs = ntotal ix"
    and "length (encode_fn m msg) = index_d ix" and "py_strip msg \<noteq> []" and "0 < ntotal ix"
  shows "retrieve_context True st msg = format_context (retrieve_spec ix docs (encode_fn m msg) 3)"
proof -
  have "search_documents st (PyStr msg) 3 = retrieve_spec ix docs (encode_fn m msg) 3"
    using search_refines_retrieve [OF assms(1-6)] by simp
  moreover have "retrieve_spec ix docs (encode_fn m msg) 3 \<noteq> []"
    using assms(7) length_retrieve_spec [of ix docs "encode_fn m msg" 3] by auto
  ultimately show ?thesis by (simp add: retrieve_context_def)
qed

text \<open>
  C29 (refinement): on a consistent snapshot (one string per indexed vector, embedding
  width equal to the index dimension) with a non-empty index, the context block of the
  prompt lists exactly the documents at the three nearest positions, nearest first.
\<close>

theorem chat_context_refines_retrieve:
  assumes "embedding_model st = Some m" and "faiss_index st = Some ix"
    and "py_seq (metadata st) = Some (map PyStr docs)" and "length docs = ntotal ix"
    and "length (encode_fn m msg) = index_d ix" and "py_strip msg \<noteq> []" and "0 < ntotal ix"
  shows "retrieve_context True st msg = format_context (retrieve_spec ix docs (encode_fn m msg) 3)"
  using assms by (rule retrieve_context_refines)

text \<open>
  C36 (functional): a valid, non-joke request whose persona has a string prompt
  prefix and whose history reads as turns is answered with the model's reply to
  exactly the messages \<open>chat_messages\<close> builds, cleaned by \<open>clean_answer\<close>, and the session's coach becomes the request's
  (when the session can be written, that is when the secret key is set).
\<close>

theorem chat_post_answer:
  assumes "req_coach req = PyStr coach" and "py_truthy (req_message req)" and "coach \<noteq> []"
    and "coach_read (chat_fs ctx) (coach_filename coach) = Persona p" and "persona_prefix p = Inr (PyStr s)"
    and "\<not> joke_triggered (sanitize_input (req_message req))" and "session_signing ctx"
    and "history_turns (if prev = Some coach then req_history req else PyList []) = Some turns"
    and "llm ctx (chat_messages ctx turns (sanitize_input (req_message req)) s) = Some a"
  shows "chat_post ctx prev (Some req) = (AnswerResponse (clean_answer a) (req_id req), Some coach)"
  using chat_post_valid [OF assms(1-5)] assms(6-9) history_turns_len [of "req_history req"]
  by (auto simp: Let_def)

text \<open>
  C37 (error): a persona file that is missing, is not valid JSON or cannot be read is
  reported with the status of its exception handler (400, 500, 500), and the session
  is left alone.
\<close>

theorem chat_post_coach_file_errors:
  assumes "req_coach req = PyStr coach" and "py_truthy (req_message req)" and "coach \<noteq> []"
    and "\<forall>q. coach_read (chat_fs ctx) (coach_filename coach) \<noteq> Persona q"
  shows "\<exists>code msg. chat_post ctx prev (Some req) = (ErrorResponse code msg, prev)
    \<and> (code = 400 \<longleftrightarrow> coach_read (chat_fs ctx) (coach_filename coach) = FileMissing)"
  using assms by (cases "coach_read (chat_fs ctx) (coach_filename coach)")
    (auto simp: chat_post_def err_loading_def)

text \<open>
  C38 (error): a request to the session's own coach whose history is not a list of
  objects (\<open>null\<close>, a number, a string, a list holding anything but objects) fails with
  a 500 that carries no reference, raised outside the handler's \<open>try\<close> by
  \<open>len(history)\<close> or by \<open>turn.get\<close>, and the session keeps its coach.
\<close>

theorem chat_post_bad_history:
  assumes "req_coach req = PyStr coach" and "py_truthy (req_message req)" and "coach \<noteq> []"
    and "coach_read (chat_fs ctx) (coach_filename coach) = Persona p" and "persona_prefix p = Inr prefix"
    and "\<not> joke_triggered (sanitize_input (req_message req))"
    and "prev = Some coach" and "history_turns (req_history req) = None"
  shows "chat_post ctx prev (Some req) = (ServerError None, prev)"
  using chat_post_valid [OF assms(1-5)] assms(6-8) by (simp add: Let_def)

subsection \<open>Sequences of requests\<close>

lemma chat_post_session_ok:
  assumes "session_ok ctx s"
  shows "session_ok ctx (snd (chat_post ctx s d))"
  using chat_post_session_cases [of ctx s d] assms
  by (auto simp: session_ok_def valid_coach_def)

lemma chat_run_Cons_snd: "snd (chat_run ctx s (d # ds)) = snd (chat_run ctx (snd (chat_post ctx s d)) ds)"
  by (simp add: split_beta Let_def)

text \<open>
  C35 (invariant): over any sequence of requests from one client, the session's
  current coach is never set to a coach whose persona file does not load with a
  prompt prefix.
\<close>

theorem chat_run_session_ok:
  "session_ok ctx s \<Longrightarrow> session_ok ctx (snd (chat_run ctx s ds))"
proof (induction ds arbitrary: s)
  case Nil
  then show ?case by simp
next
  case (Cons d ds)
  have "session_ok ctx (snd (chat_post ctx s d))" using Cons.prems by (rule chat_post_session_ok)
  then show ?case unfolding chat_run_Cons_snd by (rule Cons.IH)
qed

end
