(* ===== verification/App_Feedback.thy ===== *)
theory App_Feedback
  imports Py_Values
begin

text \<open>
  \<open>src/app.py\<close>, the route \<open>/feedback\<close>: the JSON body must be truthy and hold the
  keys \<open>message_id\<close> and \<open>rating\<close>, tested with Python's \<open>in\<close>, which on a list
  tests the elements, on a string the substrings, and raises on other values; the
  fields are then read with \<open>data['message_id']\<close>, which raises unless the body is an
  object. A raise reaches the 500 handler (\<open>App_Routes\<close>).
\<close>

datatype feedback_response = FeedbackInvalid | FeedbackReceived | FeedbackServerError

definition feedback :: "pyobj \<Rightarrow> feedback_response" where
  \<comment> \<open>the route \<open>/feedback\<close>: \<open>not data or 'message_id' not in data or 'rating' not in data\<close>,
      then \<open>data['message_id']\<close>, which raises unless \<open>data\<close> is an object\<close>
  "feedback data =
     (if \<not> py_truthy data then FeedbackInvalid
      else case py_in (PyStr ''message_id'') data of
        None \<Rightarrow> FeedbackServerError
      | Some False \<Rightarrow> FeedbackInvalid
      | Some True \<Rightarrow>
          (case py_in (PyStr ''rating'') data of
             None \<Rightarrow> FeedbackServerError
           | Some False \<Rightarrow> FeedbackInvalid
           | Some True \<Rightarrow> (case data of PyDict _ \<Rightarrow> FeedbackReceived | _ \<Rightarrow> FeedbackServerError)))"

lemmas [py_simps] = feedback_def

text \<open>
  C31 (functional): the feedback route acknowledges exactly the JSON objects that hold
  both a \<open>message_id\<close> and a \<open>rating\<close> key.
\<close>

theorem feedback_received_iff:
  "feedback d = FeedbackReceived \<longleftrightarrow>
   (\<exists>kvs. d = PyDict kvs \<and> PyStr ''message_id'' \<in> set (map fst kvs) \<and> PyStr ''rating'' \<in> set (map fst kvs))"
  by (cases d) (auto simp: feedback_def split: option.splits bool.splits)

end
