(* ===== verification/App_Routes.thy ===== *)
theory App_Routes
  imports App_Chat App_Feedback
begin

text \<open>
  \<open>src/app.py\<close> as a Flask application: the module-level start-up (the secret key,
  \<open>GOOGLE_API_KEY\<close> with \<open>exit(1)\<close> when it is missing, \<open>GEMINI_MODEL_NAME\<close> with its
  default, \<open>RAG_ENABLED = rag_processor.load_rag_components()\<close>), the context the
  handlers run in, and what each route sends back: the page of \<open>GET /\<close>, the JSON or
  error page of \<open>POST /\<close>, the coach page, the feedback reply, and the two error
  handlers (\<open>page_not_found\<close> for 404, \<open>internal_server_error\<close> for 500 and every
  uncaught exception), which render \<open>error.html\<close> with the sidebar. A rendered page is
  the record of what \<open>render_template\<close> receives. The environment variables are the
  record \<open>app_env\<close>; \<open>None\<close> is an unset variable.
\<close>

record 'a app_env =
  env_secret_key :: "string option"
  env_google_api_key :: "string option"
  env_gemini_model_name :: "string option"
  env_rag :: "'a rag_env"

record 'a app_config =
  cfg_secret_key :: "string option"
  cfg_api_key :: string
  cfg_model_name :: string
  cfg_rag_enabled :: bool
  cfg_rag_globals :: "'a rag_state"

definition app_startup :: "'a app_env \<Rightarrow> 'a app_config option" where
  \<comment> \<open>\<open>None\<close> is \<open>exit(1)\<close>; a missing secret key is only logged\<close>
  "app_startup env =
     (case env_google_api_key env of
        None \<Rightarrow> None
      | Some key \<Rightarrow>
          if key = [] then None
          else (let (flag, st) = load_rag_components (env_rag env) rag_init in
                Some \<lparr>cfg_secret_key = env_secret_key env, cfg_api_key = key,
                      cfg_model_name = (case env_gemini_model_name env of
                                          None \<Rightarrow> ''gemini-2.0-flash-lite-001'' | Some n \<Rightarrow> n),
                      cfg_rag_enabled = flag, cfg_rag_globals = st\<rparr>))"

definition chat_ctx_of ::
  "'a app_config \<Rightarrow> coach_fs \<Rightarrow> dad_joke_api \<Rightarrow> (gemini_client \<Rightarrow> message list \<Rightarrow> string option)
   \<Rightarrow> 'a chat_ctx" where
  \<comment> \<open>the globals the handlers read: \<open>RAG_ENABLED\<close>, the retrieval globals, the secret key,
      and the Gemini client \<open>create_gemini_chat_model()\<close> builds from the configuration\<close>
  "chat_ctx_of cfg fs joke_service gemini =
     \<lparr>rag_enabled = cfg_rag_enabled cfg, rag_globals = cfg_rag_globals cfg, chat_fs = fs,
      session_signing = (case cfg_secret_key cfg of None \<Rightarrow> False | Some k \<Rightarrow> k \<noteq> []),
      joke_api = joke_service,
      llm = gemini (create_gemini_chat_model (cfg_model_name cfg) (cfg_api_key cfg))\<rparr>"

record rendered =
  template :: string
  coaches :: "sidebar_entry list"
  error_message :: "string option"
  current_coach :: "sidebar_entry option"
  status :: nat

datatype http_response =
    Html rendered
  | JsonChat chat_response nat
  | JsonFeedback feedback_response nat

definition index_get :: "coach_fs \<Rightarrow> http_response" where
  "index_get fs =
     Html \<lparr>template = ''index.html'', coaches = load_coach_sidebar_data fs, error_message = None,
           current_coach = None, status = 200\<rparr>"

definition page_not_found :: "coach_fs \<Rightarrow> string option \<Rightarrow> http_response" where
  \<comment> \<open>\<open>getattr(e, 'description', "Page not found.")\<close>\<close>
  "page_not_found fs description =
     Html \<lparr>template = ''error.html'', coaches = load_coach_sidebar_data fs,
           error_message = Some (case description of None \<Rightarrow> ''Page not found.'' | Some d \<Rightarrow> d),
           current_coach = None, status = 404\<rparr>"

definition server_error_message :: "string option \<Rightarrow> string" where
  \<comment> \<open>\<open>error_ref = getattr(e, 'error_id', 'N/A')\<close> and the user message\<close>
  "server_error_message error_id =
     ''An unexpected internal error occurred (Ref: '' @ (case error_id of None \<Rightarrow> ''N/A'' | Some r \<Rightarrow> r)
     @ ''). Please try again later or contact support if the issue persists.''"

definition internal_server_error :: "coach_fs \<Rightarrow> string option \<Rightarrow> http_response" where
  "internal_server_error fs error_id =
     Html \<lparr>template = ''error.html'', coaches = load_coach_sidebar_data fs,
           error_message = Some (server_error_message error_id), current_coach = None, status = 500\<rparr>"

definition index_post ::
  "'a::linordered_idom chat_ctx \<Rightarrow> string option \<Rightarrow> chat_request option \<Rightarrow> http_response \<times> string option" where
  \<comment> \<open>the POST branch with Flask's dispatch of its result: \<open>jsonify(...), code\<close> or the 500 handler\<close>
  "index_post ctx previous_coach data =
     (case chat_post ctx previous_coach data of
        (ServerError error_id, s) \<Rightarrow> (internal_server_error (chat_fs ctx) error_id, s)
      | (ErrorResponse code msg, s) \<Rightarrow> (JsonChat (ErrorResponse code msg) code, s)
      | (r, s) \<Rightarrow> (JsonChat r 200, s))"

definition coach_route :: "coach_fs \<Rightarrow> string \<Rightarrow> http_response" where
  \<comment> \<open>\<open>coach_page\<close> with \<open>abort(404, description=...)\<close> handled by \<open>page_not_found\<close>\<close>
  "coach_route fs coach_url_name =
     (case coach_page fs coach_url_name of
        CoachNotFound description \<Rightarrow> page_not_found fs (Some description)
      | CoachPage t sb cur \<Rightarrow>
          Html \<lparr>template = t, coaches = sb, error_message = None, current_coach = cur, status = 200\<rparr>)"

definition feedback_route :: "coach_fs \<Rightarrow> pyobj \<Rightarrow> http_response" where
  "feedback_route fs data =
     (case feedback data of
        FeedbackInvalid \<Rightarrow> JsonFeedback FeedbackInvalid 400
      | FeedbackReceived \<Rightarrow> JsonFeedback FeedbackReceived 200
      | FeedbackServerError \<Rightarrow> internal_server_error fs None)"

lemmas [py_simps] = app_startup_def chat_ctx_of_def index_get_def page_not_found_def
  server_error_message_def internal_server_error_def index_post_def coach_route_def feedback_route_def

subsection \<open>Start-up\<close>

lemma app_startup_SomeD:
  assumes "app_startup env = Some cfg"
  shows "cfg_secret_key cfg = env_secret_key env \<and> (\<exists>k. env_google_api_key env = Some k \<and> k \<noteq> [])
    \<and> (cfg_rag_enabled cfg, cfg_rag_globals cfg) = load_rag_components (env_rag env) rag_init"
  using assms by (auto simp: app_startup_def split_beta split: option.splits if_splits)

lemma app_startup_no_api_key: "env_google_api_key env = None \<Longrightarrow> app_startup env = None"
  by (simp add: app_startup_def)

subsection \<open>Errors of the chat route\<close>

lemma chat_post_error_ref:
  assumes "fst (chat_post ctx prev (Some req)) = ServerError r"
  shows "r = (if session_signing ctx
      \<and> (\<exists>c. req_coach req = PyStr c \<and> history_turns (if prev = Some c then req_history req else PyList []) \<noteq> None)
      \<and> \<not> joke_triggered (sanitize_input (req_message req)) then Some (req_id req) else None)"
  using assms by (auto simp: chat_post_def Let_def err_loading_def err_config_invalid_def
      split: pyobj.splits coach_file.splits sum.splits option.splits if_splits
      dest!: persona_prefix_Inl dest: history_turns_len_None)

lemma chat_post_no_signing:
  assumes "\<not> session_signing ctx"
  shows "snd (chat_post ctx prev d) = prev \<and> (\<forall>a i. fst (chat_post ctx prev d) \<noteq> AnswerResponse a i)"
  using assms by (auto simp: chat_post_def Let_def err_loading_def err_config_invalid_def
      split: pyobj.splits coach_file.splits sum.splits option.splits if_splits dest!: persona_prefix_Inl)

lemma index_post_Html:
  "fst (index_post ctx prev d) = Html pg \<Longrightarrow>
   \<exists>r. fst (chat_post ctx prev d) = ServerError r \<and> internal_server_error (chat_fs ctx) r = Html pg"
  by (auto simp: index_post_def split: prod.splits chat_response.splits)

text \<open>
  C39 (error): the only page the chat route renders is the 500 error page with the
  sidebar, and its reference is the request's \<open>message_id\<close> exactly when the coach name
  was a string, the message was no joke request, the session could be written and
  the history read as turns; otherwise the user reads \<open>Ref: N/A\<close>, because the
  exception (from the coach name, the joke service, the session write or the history) was raised before the handler's \<open>try\<close> attached
  an \<open>error_id\<close> to it.
\<close>

theorem index_post_error_page:
  assumes "fst (index_post ctx prev (Some req)) = Html pg"
  shows "pg = \<lparr>template = ''error.html'', coaches = load_coach_sidebar_data (chat_fs ctx),
    error_message = Some (server_error_message
      (if session_signing ctx
          \<and> (\<exists>c. req_coach req = PyStr c \<and> history_turns (if prev = Some c then req_history req else PyList []) \<noteq> None)
          \<and> \<not> joke_triggered (sanitize_input (req_message req)) then Some (req_id req) else None)),
    current_coach = None, status = 500\<rparr>"
proof -
  obtain r where r: "fst (chat_post ctx prev (Some req)) = ServerError r"
    and pg: "internal_server_error (chat_fs ctx) r = Html pg"
    using index_post_Html [OF assms] by blast
  show ?thesis using pg chat_post_error_ref [OF r] by (simp add: internal_server_error_def)
qed

text \<open>
  C40 (safety): an application started without \<open>FLASK_SECRET_KEY\<close> keeps running, but
  it never answers a chat message with the model and never records a coach in the
  session: every request that gets past the persona and joke checks fails on the
  session write.
\<close>

theorem startup_without_secret_key:
  assumes "app_startup env = Some cfg" and "env_secret_key env = None"
  shows "snd (index_post (chat_ctx_of cfg fs joke gemini) prev d) = prev
    \<and> (\<forall>a i c. fst (index_post (chat_ctx_of cfg fs joke gemini) prev d) \<noteq> JsonChat (AnswerResponse a i) c)"
proof -
  let ?ctx = "chat_ctx_of cfg fs joke gemini"
  have "\<not> session_signing ?ctx"
    using app_startup_SomeD [OF assms(1)] assms(2) by (simp add: chat_ctx_of_def)
  note n = chat_post_no_signing [OF this, of prev d]
  then show ?thesis
    by (auto simp: index_post_def internal_server_error_def split: prod.splits chat_response.splits)
qed




text \<open>
  C13 (error): the route \<open>/coach/<name>\<close> always renders a page with the sidebar; its
  status is 200 exactly when the lower-cased name is one of the six mapped coaches and
  that coach's template exists, and 404 otherwise (through \<open>abort(404)\<close> and
  \<open>page_not_found\<close>), with the message naming the unrecognised coach when the
  mapping has no entry.
\<close>

theorem coach_route_status:
  "\<exists>r. coach_route fs u = Html r \<and> coaches r = load_coach_sidebar_data fs
     \<and> (status r = 200 \<longleftrightarrow>
          (\<exists>b. map_of coach_template_mapping (py_lower u) = Some b \<and> template_exists fs (b @ ''.html'')))
     \<and> (status r \<noteq> 200 \<longrightarrow> status r = 404 \<and> template r = ''error.html'')
     \<and> (map_of coach_template_mapping (py_lower u) = None \<longrightarrow>
          error_message r = Some (''Coach '' @ QUOTE @ u @ QUOTE @ '' not recognized.''))"
proof (cases "map_of coach_template_mapping (py_lower u)")
  case None
  then show ?thesis by (simp add: coach_route_def coach_page_def page_not_found_def)
next
  case (Some b)
  then show ?thesis
    by (cases "template_exists fs (b @ ''.html'')") (simp_all add: coach_route_def coach_page_def page_not_found_def Let_def)
qed

text \<open>
  C14 (error): start-up ends the process (\<open>exit(1)\<close>) exactly when \<open>GOOGLE_API_KEY\<close>
  is unset or empty; a missing secret key, a missing model name or a failed retrieval
  load never stops it.
\<close>

theorem app_startup_exit_iff:
  "app_startup env = None \<longleftrightarrow> env_google_api_key env = None \<or> env_google_api_key env = Some []"
  by (auto simp: app_startup_def split_beta split: option.splits)

end
