(* ===== verification/Rag_Loop.thy ===== *)
theory Rag_Loop
  imports Rag_Processor "HOL-Library.While_Combinator"
begin

text \<open>
  The loop of \<open>search_documents\<close> (\<open>src/rag_processor.py\<close>) kept in the shape the
  source has: a position into \<open>retrieved_indices\<close> and the list \<open>results\<close> that
  \<open>results.append(doc_content)\<close> extends, run by \<open>while_option\<close> of
  \<open>HOL-Library.While_Combinator\<close> until the row is exhausted. The lemmas show that the
  loop stops on every label row and computes what the recursive \<open>collect_docs\<close>,
  the definition the other theories reason about, computes.
\<close>

definition search_loop_step :: "pyobj list \<Rightarrow> int list \<Rightarrow> nat \<times> string list \<Rightarrow> nat \<times> string list" where
  \<comment> \<open>one iteration of \<open>for idx in retrieved_indices\<close>\<close>
  "search_loop_step md retrieved_indices =
     (\<lambda>(i, results).
        let idx = retrieved_indices ! i in
        (Suc i,
         if idx \<noteq> -1 then
           (if 0 \<le> idx \<and> idx < int (length md) then
              (case md ! nat idx of
                 PyStr doc_content \<Rightarrow> results @ [doc_content]
               | _ \<Rightarrow> results)
            else results)
         else results))"

definition search_loop :: "pyobj list \<Rightarrow> int list \<Rightarrow> string list option" where
  "search_loop md retrieved_indices =
     map_option snd
       (while_option (\<lambda>(i, _). i < length retrieved_indices)
          (search_loop_step md retrieved_indices) (0, []))"

lemma collect_docs_single:
  "collect_docs items [idx] =
     (if idx \<noteq> -1 \<and> 0 \<le> idx \<and> idx < int (length items) then
        (case items ! nat idx of PyStr d \<Rightarrow> [d] | _ \<Rightarrow> []) else [])"
  by (auto split: pyobj.splits)

lemma search_loop_step_inv:
  assumes "results = collect_docs items (take i I)" and "i < length I"
  shows "snd (search_loop_step items I (i, results)) = collect_docs items (take (fst (search_loop_step items I (i, results))) I)"
proof -
  have "take (Suc i) I = take i I @ [I ! i]" using assms(2) by (simp add: take_Suc_conv_app_nth)
  then have "collect_docs items (take (Suc i) I) = results @ collect_docs items [I ! i]"
    using assms(1) by (simp add: collect_docs_append)
  then show ?thesis
    by (auto simp: search_loop_step_def Let_def collect_docs_single split: pyobj.splits)
qed

lemma search_loop_step_fst [simp]: "fst (search_loop_step items I s) = Suc (fst s)"
  by (cases s) (simp add: search_loop_step_def Let_def)

lemma search_loop_halts:
  "\<exists>s. while_option (\<lambda>(i, _). i < length I) (search_loop_step items I) (0, []) = Some s"
proof (rule measure_while_option_Some [where P = "\<lambda>_. True" and f = "\<lambda>(i, _). length I - i"])
  fix s :: "nat \<times> string list"
  assume "True" and "(\<lambda>(i, _). i < length I) s"
  then show "True \<and> (\<lambda>(i, _). length I - i) (search_loop_step items I s) < (\<lambda>(i, _). length I - i) s"
    by (cases s) (simp add: split_beta)
qed simp

text \<open>
  The loop over the label row stops for every metadata sequence and
  every row, so \<open>search_documents\<close> always returns.
\<close>

theorem search_loop_terminates: "\<exists>r. search_loop items I = Some r"
  using search_loop_halts [of I items] by (auto simp: search_loop_def)

text \<open>
  The loop as written, appending to \<open>results\<close>, computes exactly the
  recursive \<open>collect_docs\<close> on which the retrieval theorems are stated.
\<close>

theorem search_loop_collect_docs: "search_loop items I = Some (collect_docs items I)"
proof -
  let ?b = "\<lambda>(i, _). i < length I"
  let ?P = "\<lambda>(i, results). i \<le> length I \<and> results = collect_docs items (take i I)"
  obtain s where w: "while_option ?b (search_loop_step items I) (0, []) = Some s"
    using search_loop_halts by blast
  have "?P s"
  proof (rule while_option_rule [OF _ w])
    fix t assume "?P t" and "?b t"
    then show "?P (search_loop_step items I t)"
      using search_loop_step_inv [of "snd t" items "fst t" I]
      by (cases t) (simp add: split_beta)
  qed simp
  moreover have "\<not> ?b s" using while_option_stop [OF w] .
  ultimately have "snd s = collect_docs items I" by (cases s) simp
  then show ?thesis using w by (simp add: search_loop_def)
qed

end
