(* ===== verification/Spec2Isabelle.thy ===== *)
theory Spec2Isabelle
  imports Rag_Lifecycle Index_Checker App_Routes Rag_Loop
begin

text \<open>
  \<^bold>\<open>A verification library for Dahc-Dragyn/Life-Coach.\<close>

  \<^bold>\<open>The program.\<close> A Flask chat service (\<open>src/app.py\<close>) answers a user's message
  in the voice of a coach persona, with the help of a retrieval subsystem
  (\<open>src/rag_processor.py\<close>): at start-up \<open>load_rag_components\<close> loads a
  sentence-transformers embedding model, a FAISS index (\<open>faiss_index/index.faiss\<close>)
  and a pickled metadata sequence (\<open>faiss_index/index.pkl\<close>) into three module
  globals and returns the flag the host keeps as \<open>RAG_ENABLED\<close>; per request
  \<open>search_documents(query, k)\<close> embeds the query, searches the index for the \<open>k\<close>
  nearest vectors and maps their positions to the metadata's documents, dropping the
  sentinel \<open>-1\<close>, out-of-range positions and non-string entries, and never raising.
  The POST handler of \<open>/\<close> validates the request, loads the coach's persona file,
  answers joke requests with a dad joke, and otherwise calls \<open>search_documents\<close>
  with \<open>k = 3\<close>, trims the history with \<open>manage_conversation_history\<close>, assembles the
  prompt and calls the chat model. \<open>load_coach_sidebar_data\<close> lists the persona files
  for the sidebar, \<open>/coach/<name>\<close> renders a coach page and \<open>/feedback\<close> takes
  ratings. A separate diagnostic, \<open>check_faiss_index\<close> (\<open>src/faisscheck.py\<close>),
  reads the same files and model and reports whether they are consistent.

  \<^bold>\<open>Theories and what they model.\<close>
  \<^item> \<open>Prelude\<close>: the named collections \<open>py_simps\<close> and \<open>rag_simps\<close>, the type names
    \<open>vec\<close> and \<open>position\<close>, list lemmas on sorted prefixes and filters.
  \<^item> \<open>Py_Values\<close>: the Python values the code inspects (\<open>pyobj\<close>: None, numbers,
    strings, lists, tuples, dicts) and the built-ins it applies (\<open>isinstance\<close>,
    truthiness, \<open>str.strip\<close>, \<open>str.lower\<close>, \<open>str.title\<close>, \<open>endswith\<close>,
    \<open>startswith\<close>, \<open>in\<close>, negative slices, \<open>str(n)\<close>, \<open>join\<close>), with the lemma that
    lower-casing undoes title-casing on lower-case ASCII text.
  \<^item> \<open>Embedding_Model\<close> and \<open>Faiss_Index\<close>: the two libraries, modelled from the spec
    (sections 4.1, 4.2) since they are not code of the repository: a model is a
    name, a dimension and an encoding function; the index is \<open>IndexFlatL2\<close>, its
    search \<open>index_search\<close> ranks positions by squared L2 distance (ties by position),
    pads with \<open>-1\<close>, and raises on a query of the wrong width or \<open>k \<le> 0\<close>.
    Coordinates are any linearly ordered integral domain (the scenarios use \<open>int\<close>):
    float32 rounding is not modelled.
  \<^item> \<open>Storage\<close>: \<open>rag_env\<close>, one snapshot of the persisted inputs (does each file
    exist, what does each loader return, \<open>None\<close> for a loader that raises), and the
    paths \<open>rag_processor.py\<close> builds with \<open>os.path.join\<close> (\<open>os_path_join\<close>).
  \<^item> \<open>Rag_Processor\<close>: the globals as the record \<open>rag_state\<close>;
    \<open>are_rag_components_loaded\<close>, \<open>load_rag_components\<close> (state passing, one branch
    per early return of the source) and \<open>search_documents\<close> with its loop
    \<open>collect_docs\<close>; the abstract contract \<open>retrieve_spec\<close>.
  \<^item> \<open>Rag_Loop\<close>: the same loop in the shape of the source, a \<open>while_option\<close> over a
    position and the \<open>results\<close> list it appends to; its lemmas (the loop stops and
    computes \<open>collect_docs\<close>) only cross-check the two renderings of the same lines.
  \<^item> \<open>Rag_Lifecycle\<close>: the reachable states of the globals (an inductive predicate
    closed under loads) and the invariant \<open>rag_inv\<close>, by rule induction.
  \<^item> \<open>Index_Checker\<close>: \<open>check_faiss_index\<close> as six step functions over the record
    \<open>check_state\<close> (its locals and its report), and the abstract verdict
    \<open>consistent_snapshot\<close>; its own constants \<open>INDEX_PATH\<close>, \<open>PKL_PATH\<close> and
    \<open>MODEL_NAME\<close>, equal to the service's (\<open>checker_config_agrees\<close>), which is why
    checker and service are functions of one snapshot.
  \<^item> \<open>App_History\<close>: \<open>sanitize_input\<close> and \<open>manage_conversation_history\<close> (the loop
    over the turns, the denial filter, the trimming with \<open>messages[-n:]\<close>).
  \<^item> \<open>App_Coaches\<close>: the persona directory as the record \<open>coach_fs\<close>,
    \<open>load_coach_sidebar_data\<close> (one \<open>coach_sidebar_entry\<close> per listed file, in
    sorted order) and \<open>coach_page\<close>.
  \<^item> \<open>App_Services\<close>: \<open>get_dad_joke\<close>, with the joke service's reply as input
    and its one uncaught failure as \<open>None\<close>, and \<open>create_gemini_chat_model\<close>.
  \<^item> \<open>App_Chat\<close>: the POST handler \<open>chat_post\<close>, one branch per return and per
    exception handler, with the session's coach passed in and returned, the chat
    model and the joke service's reply as fields of \<open>chat_ctx\<close>, and its pieces
    \<open>persona_prefix\<close>, \<open>retrieve_context\<close>, \<open>final_prompt\<close>,
    \<open>chat_messages\<close>, \<open>clean_answer\<close>; \<open>chat_run\<close>, one client's requests in
    sequence with the session cookie threaded through them.
  \<^item> \<open>App_Feedback\<close>: the route \<open>/feedback\<close>.
  \<^item> \<open>App_Routes\<close>: the module-level start-up of \<open>app.py\<close> (\<open>app_startup\<close>, with
    \<open>exit(1)\<close> as \<open>None\<close>), the context the handlers read (\<open>chat_ctx_of\<close>), and what
    each route sends back, through the 404 and 500 handlers where the code aborts or
    raises.
  \<^item> This theory: the scenarios of spec section 8 and a small coach directory as
    fixtures, the properties that span components, and the witnesses.

  \<^bold>\<open>What is proved.\<close> The search refines the abstract retrieval
  contract when the inputs are consistent (C1), returns distinct, in-range,
  string-valued positions in non-decreasing distance on any loaded state (C2), is
  empty in degraded mode (C3), has at most \<open>k\<close> results (C4). Loading keeps the invariant that metadata of the
  right shape implies a loaded model and index: a failed load leaves the service
  degraded (C5), Ready is absorbing (C6), and the loader's flag ignores the metadata's
  shape (C7); from every reachable state a load from a good snapshot reaches Ready
  (C32). The checker's verdict is exactly \<open>consistent_snapshot\<close> (C8),
  reports count mismatches (C9), and a passing check implies that start-up reaches
  Ready and every search meets the contract, provided the metadata holds strings only
  (C10), a premise the checker does not test: its verdict ignores what the entries are,
  while a snapshot with no string entry makes every search empty (C15). For the index: top-k (C11) and the
  label contract (C12). The history keeps the last \<open>2 * max_exchanges\<close>
  messages (C16, C17), keeps everything for \<open>max_exchanges = 0\<close> (C18),
  never passes a denial back (C19) and passes only stripped, non-empty user messages
  (C34). The sidebar's display name leads the chat handler back to the coach's file
  (C20); every sidebar URL name is lower case and the coach page marks a current coach
  only on an exact match, so a URL name with an upper-case letter renders its coach's
  page without one (C30); \<open>/coach/<name>\<close> answers 200 exactly for the six mapped
  coaches whose template exists, 404 otherwise (C13). Start-up exits exactly when the
  API key is unset or empty (C14). The handler answers a valid request with
  the cleaned reply of the model to the assembled messages (C36), refuses missing
  fields (C22), reports persona files it cannot load (C37), answers jokes without the
  model and without touching the session (C23), changes the session's coach only after
  a valid persona (C24), so that over any sequence of requests the session names a
  valid coach (C35), drops the history on a coach change, whatever was sent (C25),
  fails without a reference on a history that is not a list of objects (C38), sends at
  most 32 messages (C26), sends the bare query when retrieval is degraded (C27),
  strips asterisks (C28), and its context block lists the three nearest documents
  (C29). End to end (C21): started with both keys on a consistent snapshot (one
  string per indexed vector, the model's dimension the index's), the application answers a valid chat request by sending the model a prompt
  whose context is the abstract retrieval's three nearest documents, composing
  \<open>app_startup\<close>, \<open>load_rag_components\<close>, \<open>chat_ctx_of\<close>, \<open>chat_post\<close>,
  \<open>search_documents\<close> and \<open>index_post\<close>. The feedback route accepts exactly objects with both keys (C31). The only
  page the chat route renders is the 500 page, whose reference is the request's id
  only when the failure came after the handler's \<open>try\<close> (C39); started
  without a secret key, the application never answers with the model (C40). The joke
  service's failures are absorbed except a JSON reply that is not an object, which
  raises (C33).

  \<^bold>\<open>Bounds and fuel.\<close> Every loop of the modelled code runs over a
  finite list (the label row, the metadata, the message history, the directory
  listing), so every definition is structurally recursive, except the
  \<open>while_option\<close> of \<open>Rag_Loop\<close>, whose termination is proved
  with the measure \<open>length retrieved_indices - i\<close>: no fuel is needed.
  \<open>k\<close> and labels are Python integers, \<open>int\<close> here; counts are
  \<open>nat\<close>. Strings are Latin-1: \<open>str.lower\<close> is exact there,
  \<open>str.title\<close> is modelled on ASCII letters.

  \<^bold>\<open>Not modelled.\<close> Logging (no branch reads it); the templates themselves (a page
  is the arguments of \<open>render_template\<close>) and \<open>url_for\<close>; the two HTTP services
  themselves, whose replies are inputs (\<open>dad_joke_api\<close>, and the function from the
  Gemini client to the model's reply); the characters of the joke texts beyond
  Latin-1, which are constructors of \<open>joke_text\<close>; a request body that is not a
  JSON object and a model answer that is not a string; a truthy \<open>prompt_prefix\<close>
  that is not a string, modelled as an exception inside the handler's \<open>try\<close> (a 500
  with the message id), although LangChain's \<open>SystemMessage\<close> also accepts a list of
  content parts; time measurements. The
  sentence-transformers model and FAISS are libraries the sources only call: they are
  modelled from the spec as far as the code relies on them (a dimension and an
  encoding function; the exact \<open>IndexFlatL2\<close> search and its label contract), not
  their numerics. The offline index construction (\<open>faissmaker.py\<close>, named in a
  comment of \<open>faisscheck.py\<close>) is not among the sources, so it has nothing to model;
  the snapshot \<open>rag_env\<close> stands for its output.
\<close>

subsection \<open>Fixtures: the scenarios of spec section 8\<close>

definition scen_index :: "int index_flat" where
  "scen_index = \<lparr>index_d = 2, xb = [[0, 0], [5, 5], [1, 1]]\<rparr>"

definition scen_model :: "int embedding_model" where
  \<comment> \<open>every text embeds to the same vector: enough to fix the ranking of scenario A\<close>
  "scen_model = \<lparr>model_name = EMBEDDING_MODEL_NAME, model_dim = 2, encode_fn = (\<lambda>s. [0, 1])\<rparr>"

definition scen_docs :: "string list" where
  "scen_docs = [''apple pie'', ''car engine'', ''banana bread'']"

definition scen_env :: "int rag_env" where
  "scen_env = \<lparr>model_load = Some scen_model, index_exists = True, index_read = Some scen_index,
     pkl_exists = True, pkl_load = Some (PyList (map PyStr scen_docs))\<rparr>"

definition scen_state :: "int rag_state" where
  "scen_state = snd (load_rag_components scen_env rag_init)"

definition dict_env :: "int rag_env" where
  \<comment> \<open>a pickle that holds a dict instead of a sequence\<close>
  "dict_env = scen_env\<lparr>pkl_load := Some (PyDict [])\<rparr>"

definition missing_env :: "int rag_env" where
  "missing_env = scen_env\<lparr>index_exists := False\<rparr>"

definition mixed_env :: "int rag_env" where
  \<comment> \<open>the third metadata entry is not a string\<close>
  "mixed_env = scen_env\<lparr>pkl_load := Some (PyList [PyStr ''apple pie'', PyStr ''car engine'', PyInt 7])\<rparr>"

definition count_env :: "int rag_env" where
  \<comment> \<open>scenario D: five vectors, four metadata entries\<close>
  "count_env = scen_env\<lparr>index_read := Some \<lparr>index_d = 2, xb = replicate 5 [0, 0]\<rparr>,
     pkl_load := Some (PyList (replicate 4 (PyStr ''doc'')))\<rparr>"

definition scen_history :: "turn list" where
  \<comment> \<open>three turns: a padded user message, a denial reply, a non-string user entry\<close>
  "scen_history = [\<lparr>turn_user = PyStr '' hi '', turn_bot = PyStr ''Hello there''\<rparr>,
     \<lparr>turn_user = PyStr ''how?'', turn_bot = PyStr ''As an AI, I cannot''\<rparr>,
     \<lparr>turn_user = PyInt 5, turn_bot = PyNone\<rparr>]"

definition scen_fs :: coach_fs where
  "scen_fs = \<lparr>coach_dir = Some [''wellness_warrior.json'', ''aiyoda.json'', ''.hidden.json'', ''notes.txt''],
     coach_read = (\<lambda>f. if f = ''aiyoda.json''
         then Persona (PyDict [(PyStr ''prompt_prefix'', PyStr ''You are AIYoda.''), (PyStr ''image'', PyStr ''yoda.jpg'')])
       else if f = ''wellness_warrior.json''
         then Persona (PyDict [(PyStr ''prompt_prefix'', PyStr ''You are a wellness coach.'')])
       else FileMissing),
     image_exists = (\<lambda>i. i = ''yoda.jpg''),
     template_exists = (\<lambda>t. t \<in> set [''aiyoda.html'', ''wellwar.html''])\<rparr>"

definition scen_chat :: "int chat_ctx" where
  "scen_chat = \<lparr>rag_enabled = True, rag_globals = scen_state, chat_fs = scen_fs, session_signing = True,
     joke_api = JokeJson (PyDict [(PyStr ''joke'', PyStr ''I only know 25 letters of the alphabet. I don't know y.'')]),
     llm = (\<lambda>ms. Some '' **Patience** you must have. '')\<rparr>"

definition yoda_entry :: sidebar_entry where
  "yoda_entry = \<lparr>sb_name = ''Aiyoda'', sb_url_name = ''aiyoda'', sb_image = ''yoda.jpg''\<rparr>"

definition warrior_entry :: sidebar_entry where
  "warrior_entry = \<lparr>sb_name = ''Wellness Warrior'', sb_url_name = ''wellnesswarrior'', sb_image = ''default.jpg''\<rparr>"

definition scen_history_json :: pyobj where
  \<comment> \<open>\<open>scen_history\<close> as the front end sends it; the third turn has no \<open>bot\<close> key\<close>
  "scen_history_json = PyList [
     PyDict [(PyStr ''user'', PyStr '' hi ''), (PyStr ''bot'', PyStr ''Hello there'')],
     PyDict [(PyStr ''user'', PyStr ''how?''), (PyStr ''bot'', PyStr ''As an AI, I cannot'')],
     PyDict [(PyStr ''user'', PyInt 5)]]"

definition chat_req :: "string \<Rightarrow> string \<Rightarrow> chat_request" where
  "chat_req msg coach = \<lparr>req_id = ''req-1'', req_message = PyStr msg, req_coach = PyStr coach, req_history = scen_history_json\<rparr>"

definition nokey_env :: "int app_env" where
  \<comment> \<open>\<open>GOOGLE_API_KEY\<close> set, \<open>FLASK_SECRET_KEY\<close> and \<open>GEMINI_MODEL_NAME\<close> unset\<close>
  "nokey_env = \<lparr>env_secret_key = None, env_google_api_key = Some ''AIza-key'',
     env_gemini_model_name = None, env_rag = scen_env\<rparr>"

definition bad_coach_req :: chat_request where
  \<comment> \<open>a coach name that is a number: \<open>coach_display_name.lower()\<close> raises\<close>
  "bad_coach_req = \<lparr>req_id = ''req-2'', req_message = PyStr ''hi'', req_coach = PyInt 3, req_history = PyList []\<rparr>"

definition key_env :: "int app_env" where
  \<comment> \<open>\<open>nokey_env\<close> with \<open>FLASK_SECRET_KEY\<close> set\<close>
  "key_env = nokey_env\<lparr>env_secret_key := Some ''s3cret''\<rparr>"

definition echo_gemini :: "gemini_client \<Rightarrow> message list \<Rightarrow> string option" where
  \<comment> \<open>a model that answers with the last human message it is sent, the prompt itself\<close>
  "echo_gemini c ms = (case last ms of HumanMessage t \<Rightarrow> Some t | _ \<Rightarrow> None)"

lemmas scen_defs = scen_index_def scen_model_def scen_docs_def scen_env_def scen_state_def
  dict_env_def missing_env_def mixed_env_def count_env_def rag_init_def scen_history_def

lemma scen_sidebar: "load_coach_sidebar_data scen_fs = [yoda_entry, warrior_entry]"
  by (simp add: scen_fs_def yoda_entry_def warrior_entry_def py_simps)

subsection \<open>Checker and service together\<close>

lemma passing_check_snapshot:
  assumes "fst (check_faiss_index env rnd)"
  shows "index_exists env \<and> pkl_exists env \<and> (\<exists>ix md items. index_read env = Some ix
    \<and> pkl_load env = Some md \<and> py_seq md = Some items \<and> 0 < ntotal ix \<and> ntotal ix = length items
    \<and> (\<forall>m. model_load env = Some m \<longrightarrow> model_dim m = index_d ix))"
proof -
  have files: "index_exists env \<and> pkl_exists env"
    using assms by (auto simp: check_faiss_index_def split: if_splits)
  then have "checks_passed (check_steps env rnd)"
    using assms by (simp add: check_faiss_index_def Let_def)
  with files show ?thesis using check_steps_sound by blast
qed

text \<open>
  C10 (refinement): if the checker passes on a snapshot whose model loads and whose
  metadata holds strings only, then start-up reports success, reaches Ready, and every
  non-blank search for \<open>k > 0\<close> returns the documents at the \<open>k\<close> nearest positions.
\<close>

theorem startup_after_passing_check:
  assumes "fst (check_faiss_index env rnd)" and "model_load env = Some m" and "model_wf m"
    and "index_read env = Some ix" and "pkl_load env = Some md" and "py_seq md = Some (map PyStr docs)"
  shows "load_rag_components env rag_init = (True, \<lparr>embedding_model = Some m, faiss_index = Some ix, metadata = md\<rparr>)
    \<and> are_rag_components_loaded \<lparr>embedding_model = Some m, faiss_index = Some ix, metadata = md\<rparr>
    \<and> (\<forall>q k. py_strip q \<noteq> [] \<longrightarrow> 0 < k \<longrightarrow>
         search_documents \<lparr>embedding_model = Some m, faiss_index = Some ix, metadata = md\<rparr> (PyStr q) k
         = retrieve_spec ix docs (encode_fn m q) (nat k))"
proof -
  let ?st = "\<lparr>embedding_model = Some m, faiss_index = Some ix, metadata = md\<rparr>"
  note snap = passing_check_snapshot [OF assms(1)]
  have len: "length docs = ntotal ix" and dim: "model_dim m = index_d ix"
    using snap assms(2,4-6) by auto
  have loaded: "are_rag_components_loaded ?st"
    using assms(6) by (auto simp: are_rag_components_loaded_def is_list_or_tuple_def)
  have "load_rag_components env rag_init = (True, ?st)"
    using snap assms(2,4,5) by (simp add: load_rag_components_def rag_init_def are_rag_components_loaded_def)
  moreover have "search_documents ?st (PyStr q) k = retrieve_spec ix docs (encode_fn m q) (nat k)"
    if "py_strip q \<noteq> []" and "0 < k" for q k
    using search_refines_retrieve [of ?st m ix docs q k] that assms(3,6) len dim
    by (simp add: model_wf_length)
  ultimately show ?thesis using loaded by blast
qed

text \<open>
  C15 (safety): the checker does not look at the metadata's entries, only at their
  number: replacing every document of the pickle by a non-string leaves its verdict
  unchanged, yet on such a snapshot every search of the service returns nothing. A
  passing check therefore does not mean that retrieval can return a document.
\<close>

theorem check_ignores_metadata_entries:
  assumes "list_all (\<lambda>y. \<not> is_str y) ys" and "length ys = length xs"
  shows "fst (check_faiss_index (env\<lparr>pkl_load := Some (PyList ys)\<rparr>) rnd)
       = fst (check_faiss_index (env\<lparr>pkl_load := Some (PyList xs)\<rparr>) rnd)
    \<and> search_documents (snd (load_rag_components (env\<lparr>pkl_load := Some (PyList ys)\<rparr>) rag_init)) q k = []"
proof
  have "consistent_snapshot (env\<lparr>pkl_load := Some (PyList ys)\<rparr>)
      \<longleftrightarrow> consistent_snapshot (env\<lparr>pkl_load := Some (PyList xs)\<rparr>)"
    using assms(2) by (simp add: consistent_snapshot_def split: option.splits)
  then show "fst (check_faiss_index (env\<lparr>pkl_load := Some (PyList ys)\<rparr>) rnd)
      = fst (check_faiss_index (env\<lparr>pkl_load := Some (PyList xs)\<rparr>) rnd)"
    by (simp add: check_faiss_index_consistent)
next
  let ?st = "snd (load_rag_components (env\<lparr>pkl_load := Some (PyList ys)\<rparr>) rag_init)"
  have "items = ys" if "py_seq (metadata ?st) = Some items" for items
    using that by (auto simp: load_rag_components_def rag_init_def are_rag_components_loaded_def
        Let_def split: option.splits if_splits)
  then show "search_documents ?st q k = []"
    using search_documents_cases [of ?st q k] collect_docs_no_str [OF assms(1)] by metis
qed

text \<open>
  When start-up reports success (so \<open>RAG_ENABLED\<close> is true) but the
  pickle held no list or tuple, the chat handler never adds a context block: every
  prompt is the bare query.
\<close>

theorem startup_flag_without_context:
  assumes "load_rag_components env rag_init = (True, st)" and "\<not> is_list_or_tuple (metadata st)"
  shows "final_prompt (retrieve_context True st msg) msg = ''User Query: '' @ msg"
proof -
  have "\<not> are_rag_components_loaded st" using assms(2) by (simp add: are_rag_components_loaded_def)
  then show ?thesis by (simp add: retrieve_context_off final_prompt_no_context)
qed

subsection \<open>Start-up, handler and retrieval together\<close>

text \<open>
  C21 (refinement): the deployed service answers a chat request with the three nearest
  documents of the snapshot it started on. When \<open>app.py\<close> starts (API key present,
  secret key set) on a snapshot whose loaders all succeed, whose pickle holds one string
  per indexed vector and whose model embeds into the index's dimension, a valid non-joke
  POST to \<open>/\<close> is answered by sending Gemini the coach's prompt prefix, the kept history
  and a final prompt whose context is \<open>format_context\<close> of the abstract retrieval
  \<open>retrieve_spec\<close> on the embedded, sanitized message; the reply is cleaned and returned
  as JSON with status 200 (a failed model call is the 500 page carrying the message id),
  and the session's coach becomes the request's.
\<close>

theorem request_answered_from_snapshot:
  assumes "app_startup env = Some cfg" and "env_secret_key env = Some key" and "key \<noteq> []"
    and "model_load (env_rag env) = Some m" and "model_wf m" and "model_dim m = index_d ix"
    and "index_exists (env_rag env)" and "index_read (env_rag env) = Some ix"
    and "pkl_exists (env_rag env)" and "pkl_load (env_rag env) = Some md"
    and "py_seq md = Some (map PyStr docs)" and "length docs = ntotal ix" and "0 < ntotal ix"
    and "req_coach req = PyStr coach" and "coach \<noteq> []" and "py_truthy (req_message req)"
    and "coach_read fs (coach_filename coach) = Persona p" and "persona_prefix p = Inr (PyStr s)"
    and "\<not> joke_triggered (sanitize_input (req_message req))" and "sanitize_input (req_message req) \<noteq> []"
    and "history_turns (if prev = Some coach then req_history req else PyList []) = Some turns"
  shows "index_post (chat_ctx_of cfg fs api gemini) prev (Some req) =
    ((case gemini (create_gemini_chat_model (cfg_model_name cfg) (cfg_api_key cfg))
             (SystemMessage s # manage_conversation_history turns None 15
              @ [HumanMessage (final_prompt (format_context (retrieve_spec ix docs
                   (encode_fn m (sanitize_input (req_message req))) 3)) (sanitize_input (req_message req)))]) of
        None \<Rightarrow> internal_server_error fs (Some (req_id req))
      | Some a \<Rightarrow> JsonChat (AnswerResponse (clean_answer a) (req_id req)) 200), Some coach)"
proof -
  let ?st = "\<lparr>embedding_model = Some m, faiss_index = Some ix, metadata = md\<rparr>"
  let ?ctx = "chat_ctx_of cfg fs api gemini"
  let ?msg = "sanitize_input (req_message req)"
  have su: "cfg_secret_key cfg = env_secret_key env"
    "(cfg_rag_enabled cfg, cfg_rag_globals cfg) = load_rag_components (env_rag env) rag_init"
    using app_startup_SomeD [OF assms(1)] by simp_all
  then have rag: "rag_enabled ?ctx" "rag_globals ?ctx = ?st"
    using load_rag_components_init [OF assms(4,7,8,9,10)] by (simp_all add: chat_ctx_of_def)
  have ctx: "retrieve_context True ?st ?msg = format_context (retrieve_spec ix docs (encode_fn m ?msg) 3)"
    by (rule retrieve_context_refines)
      (simp_all add: assms(11-13,20) model_wf_length [OF assms(5)] assms(6) sanitize_input_stripped)
  have "chat_post ?ctx prev (Some req) =
    ((case llm ?ctx (chat_messages ?ctx turns ?msg s) of
        None \<Rightarrow> ServerError (Some (req_id req))
      | Some a \<Rightarrow> AnswerResponse (clean_answer a) (req_id req)), Some coach)"
    using chat_post_valid [OF assms(14,16,15), of ?ctx p "PyStr s" prev] assms(17-19,21) su(1) assms(2,3)
      history_turns_len [of "req_history req"]
    by (auto simp: chat_ctx_of_def Let_def)
  then show ?thesis
    using rag ctx by (simp add: index_post_def chat_messages_unfold chat_ctx_of_def split: option.splits)
qed

subsection \<open>Catalogue and coach page\<close>

text \<open>
  A feedback body that is a JSON array holding the two key names passes
  the route's \<open>in\<close> tests and then fails on \<open>data['message_id']\<close>: the client gets
  a 500 instead of the 400 \<open>Invalid feedback data\<close>.
\<close>

theorem feedback_array_server_error:
  "feedback (PyList [PyStr ''message_id'', PyStr ''rating'']) = FeedbackServerError
   \<and> feedback (PyList [PyStr ''rating'']) = FeedbackInvalid"
  by (simp add: feedback_def)

subsection \<open>Witnesses\<close>

theorem search_documents_refines_spec_witness:
  "search_documents scen_state (PyStr ''fruit dessert'') 2 = retrieve_spec scen_index scen_docs [0, 1] 2
   \<and> retrieve_spec scen_index scen_docs [0, 1] 2 = [''apple pie'', ''banana bread'']"
proof -
  have "search_documents scen_state (PyStr ''fruit dessert'') 2
      = retrieve_spec scen_index scen_docs (encode_fn scen_model ''fruit dessert'') (nat 2)"
    by (rule search_documents_refines_spec) (simp_all add: scen_defs rag_simps py_simps)
  then show ?thesis by (simp add: scen_defs rag_simps retrieve_spec_def)
qed

theorem search_documents_ranked_witness:
  "embedding_model scen_state = Some scen_model \<and> faiss_index scen_state = Some scen_index
   \<and> py_seq (metadata scen_state) = Some (map PyStr scen_docs)
   \<and> (\<exists>ps. search_documents scen_state (PyStr ''fruit dessert'') 3
          = map (\<lambda>p. py_str_val (map PyStr scen_docs ! p)) ps
        \<and> distinct ps \<and> sorted (map (\<lambda>p. l2sq (encode_fn scen_model ''fruit dessert'') (xb scen_index ! p)) ps)
        \<and> (\<forall>p \<in> set ps. p < length (map PyStr scen_docs) \<and> p < ntotal scen_index
             \<and> is_str (map PyStr scen_docs ! p)))"
proof -
  have h: "embedding_model scen_state = Some scen_model" "faiss_index scen_state = Some scen_index"
    "py_seq (metadata scen_state) = Some (map PyStr scen_docs)"
    by (simp_all add: scen_defs rag_simps)
  show ?thesis using h search_documents_ranked [OF h, of "''fruit dessert''" 3] by blast
qed

theorem search_documents_degraded_witness:
  "\<not> are_rag_components_loaded (snd (load_rag_components dict_env rag_init))
   \<and> search_documents (snd (load_rag_components dict_env rag_init)) (PyStr ''fruit dessert'') 3 = []"
proof -
  have h: "\<not> are_rag_components_loaded (snd (load_rag_components dict_env rag_init))"
    by (simp add: scen_defs rag_simps py_simps)
  show ?thesis using h search_documents_degraded [OF h] by blast
qed

theorem load_rag_components_false_degraded_witness:
  "rag_reachable (rag_init :: int rag_state)
   \<and> load_rag_components missing_env rag_init = (False, snd (load_rag_components missing_env rag_init))
   \<and> \<not> are_rag_components_loaded (snd (load_rag_components missing_env rag_init))
   \<and> (\<forall>q k. search_documents (snd (load_rag_components missing_env rag_init)) q k = [])"
proof -
  have r: "rag_reachable (rag_init :: int rag_state)" by (rule rag_reachable.init)
  have l: "load_rag_components missing_env rag_init = (False, snd (load_rag_components missing_env rag_init))"
    by (simp add: scen_defs rag_simps py_simps)
  show ?thesis using r l load_rag_components_false_degraded [OF r l] by blast
qed

theorem load_rag_components_ready_stays_witness:
  "are_rag_components_loaded scen_state \<and> load_rag_components dict_env scen_state = (True, scen_state)"
proof -
  have h: "are_rag_components_loaded scen_state" by (simp add: scen_defs rag_simps py_simps)
  show ?thesis using h load_rag_components_ready_stays [OF h] by blast
qed

theorem load_rag_components_true_iff_witness:
  "\<not> are_rag_components_loaded (rag_init :: int rag_state)
   \<and> fst (load_rag_components dict_env rag_init)
   \<and> \<not> are_rag_components_loaded (snd (load_rag_components dict_env rag_init))"
proof -
  have h: "\<not> are_rag_components_loaded (rag_init :: int rag_state)" by (simp add: rag_simps rag_init_def)
  have "fst (load_rag_components dict_env rag_init)"
    using load_rag_components_true_iff [OF h, of dict_env] by (simp add: scen_defs)
  moreover have "\<not> are_rag_components_loaded (snd (load_rag_components dict_env rag_init))"
    by (simp add: scen_defs rag_simps py_simps)
  ultimately show ?thesis using h by blast
qed

theorem check_faiss_index_size_mismatch_witness:
  "\<not> fst (check_faiss_index count_env (\<lambda>_. 0)) \<and> SizeMismatch 5 4 \<in> set (snd (check_faiss_index count_env (\<lambda>_. 0)))"
  using check_faiss_index_size_mismatch [of count_env "\<lparr>index_d = 2, xb = replicate 5 [0, 0]\<rparr>"
      "PyList (replicate 4 (PyStr ''doc''))" "replicate 4 (PyStr ''doc'')" "\<lambda>_. 0"]
  by (simp add: scen_defs ntotal_def)

theorem startup_after_passing_check_witness:
  "load_rag_components scen_env rag_init = (True, scen_state)
   \<and> search_documents scen_state (PyStr ''fruit dessert'') 2 = [''apple pie'', ''banana bread'']"
proof -
  have c: "fst (check_faiss_index scen_env (\<lambda>_. 0))"
    by (simp add: scen_defs rag_simps py_simps Let_def)
  have w: "model_wf scen_model" by (simp add: scen_model_def model_wf_def)
  note s = startup_after_passing_check [OF c _ w, of scen_index "PyList (map PyStr scen_docs)" scen_docs]
  have st: "scen_state = \<lparr>embedding_model = Some scen_model, faiss_index = Some scen_index,
      metadata = PyList (map PyStr scen_docs)\<rparr>"
    by (simp add: scen_defs rag_simps py_simps)
  have "search_documents scen_state (PyStr ''fruit dessert'') 2
      = retrieve_spec scen_index scen_docs (encode_fn scen_model ''fruit dessert'') (nat 2)"
    using s st by (simp add: scen_env_def py_simps)
  moreover have "load_rag_components scen_env rag_init = (True, scen_state)"
    using s st by (simp add: scen_env_def)
  ultimately show ?thesis by (simp add: scen_defs rag_simps retrieve_spec_def)
qed

theorem index_search_topk_witness:
  "index_search scen_index [0, 1] 2 = Inr ([Some 1, Some 1], [0, 2])
   \<and> l2sq [0, 1] (xb scen_index ! 2) \<le> l2sq [0, 1] (xb scen_index ! 1)"
proof -
  have r: "index_search scen_index [0, 1] 2 = Inr ([Some 1, Some 1], [0, 2])"
    by (simp add: scen_defs rag_simps)
  have "l2sq [0, 1] (xb scen_index ! 2) \<le> l2sq [0, 1] (xb scen_index ! 1)"
    by (rule index_search_topk [OF r]) (simp_all add: scen_defs ntotal_def)
  with r show ?thesis by blast
qed

theorem index_search_labels_ok_witness:
  "index_search scen_index [0, 1] 2 = Inr ([Some 1, Some 1], [0, 2]) \<and> labels_ok 3 2 [0, 2]"
proof -
  have r: "index_search scen_index [0, 1] 2 = Inr ([Some 1, Some 1], [0, 2])"
    by (simp add: scen_defs rag_simps)
  show ?thesis using r index_search_labels_ok [OF r] by (simp add: scen_defs ntotal_def numeral_3_eq_3)
qed

theorem index_search_dim_error_witness:
  "length [0, 1, 2 :: int] \<noteq> index_d scen_index
   \<and> index_search scen_index [0, 1, 2] 2 = Inl (DimensionMismatch 3 2)"
proof -
  have h: "length [0, 1, 2 :: int] \<noteq> index_d scen_index" by (simp add: scen_index_def)
  show ?thesis using h index_search_dim_error [OF h, of 2] by (simp add: scen_index_def)
qed

theorem search_documents_blank_witness:
  "py_strip '' '' = [] \<and> search_documents scen_state (PyStr '' '') 3 = []"
proof -
  have h: "py_strip '' '' = []" by (simp add: py_simps)
  show ?thesis using h search_documents_blank [OF h, of scen_state 3] by blast
qed

lemma scen_history_messages:
  "history_messages scen_history = [HumanMessage ''hi'', AIMessage ''Hello there'', HumanMessage ''how?'']"
  by (simp add: scen_history_def py_simps)

theorem manage_history_keeps_last_witness:
  "0 < (1::int) \<and> manage_conversation_history scen_history None 1 = [AIMessage ''Hello there'', HumanMessage ''how?'']"
  using manage_history_keeps_last [of 1 scen_history] by (simp add: scen_history_messages)

theorem manage_history_length_witness:
  "0 < (1::int) \<and> length (manage_conversation_history scen_history (Some ''next'') 1) \<le> 3"
  using manage_history_length [of 1 scen_history "Some ''next''"] by simp

theorem manage_history_no_denial_witness:
  "AIMessage ''Hello there'' \<in> set (manage_conversation_history scen_history None 15)
   \<and> \<not> is_denial ''Hello there''"
proof -
  have h: "AIMessage ''Hello there'' \<in> set (manage_conversation_history scen_history None 15)"
    by (simp add: manage_conversation_history_def scen_history_messages)
  show ?thesis using h manage_history_no_denial [OF h] by blast
qed

theorem sidebar_coach_file_roundtrip_witness:
  "yoda_entry \<in> set (load_coach_sidebar_data scen_fs)
   \<and> coach_filename (sb_name yoda_entry) \<in> set (the (coach_dir scen_fs))
   \<and> (\<exists>kvs. coach_read scen_fs (coach_filename (sb_name yoda_entry)) = Persona (PyDict kvs))"
proof -
  have h: "yoda_entry \<in> set (load_coach_sidebar_data scen_fs)" by (simp add: scen_sidebar)
  have "\<forall>f \<in> set (the (coach_dir scen_fs)). py_endswith f ''.json'' \<and> \<not> py_startswith f ''.''
           \<longrightarrow> coach_base_ok (take (length f - 5) f)"
    by (simp add: scen_fs_def coach_base_ok_def py_simps)
  with h show ?thesis using sidebar_coach_file_roundtrip [OF h] by blast
qed

theorem coach_page_current_coach_witness:
  "coach_page scen_fs ''aiyoda'' = CoachPage ''aiyoda.html'' [yoda_entry, warrior_entry] (Some yoda_entry)
   \<and> sb_url_name yoda_entry = ''aiyoda''"
proof -
  have h: "coach_page scen_fs ''aiyoda'' = CoachPage ''aiyoda.html'' [yoda_entry, warrior_entry] (Some yoda_entry)"
    by (simp add: coach_page_def scen_sidebar yoda_entry_def warrior_entry_def py_simps scen_fs_def)
  show ?thesis using h coach_page_current_coach [OF h] by simp
qed

theorem chat_post_missing_fields_witness:
  "chat_post scen_chat None (Some (chat_req [] ''Aiyoda'')) = (ErrorResponse 400 ''Missing message or coach name'', None)"
  using chat_post_missing_fields [of "chat_req [] ''Aiyoda''"] by (simp add: chat_req_def)

theorem chat_post_joke_witness:
  "chat_post scen_chat (Some ''Wellness Warrior'') (Some (chat_req ''Tell me a joke'' ''Aiyoda''))
   = (JokeResponse (FetchedJoke (PyStr ''I only know 25 letters of the alphabet. I don't know y.'')) ''req-1'',
      Some ''Wellness Warrior'')"
  using chat_post_joke [of "chat_req ''Tell me a joke'' ''Aiyoda''" "''Aiyoda''" scen_chat
      "PyDict [(PyStr ''prompt_prefix'', PyStr ''You are AIYoda.''), (PyStr ''image'', PyStr ''yoda.jpg'')]"
      "PyStr ''You are AIYoda.''" "Some ''Wellness Warrior''"]
  by (simp add: chat_req_def scen_chat_def scen_fs_def py_simps)

theorem chat_post_session_witness:
  "chat_post scen_chat None (Some (chat_req ''hello'' ''Aiyoda'')) = (AnswerResponse ''Patience you must have.'' ''req-1'', Some ''Aiyoda'')
   \<and> (\<exists>req coach p prefix. Some (chat_req ''hello'' ''Aiyoda'') = Some req \<and> req_coach req = PyStr coach
    \<and> coach_read (chat_fs scen_chat) (coach_filename coach) = Persona p \<and> persona_prefix p = Inr prefix
    \<and> \<not> joke_triggered (sanitize_input (req_message req))
    \<and> snd (chat_post scen_chat None (Some (chat_req ''hello'' ''Aiyoda''))) = Some coach)"
proof -
  have a: "chat_post scen_chat None (Some (chat_req ''hello'' ''Aiyoda'')) = (AnswerResponse ''Patience you must have.'' ''req-1'', Some ''Aiyoda'')"
    by (simp add: chat_post_def chat_req_def scen_chat_def scen_fs_def py_simps)
  then have "snd (chat_post scen_chat None (Some (chat_req ''hello'' ''Aiyoda''))) \<noteq> None" by simp
  with a show ?thesis using chat_post_session by blast
qed

theorem chat_post_coach_switch_witness:
  "chat_post scen_chat (Some ''Wellness Warrior'') (Some (chat_req ''hello'' ''Aiyoda''))
   = (AnswerResponse ''Patience you must have.'' ''req-1'', Some ''Aiyoda'')"
  using chat_post_coach_switch [where req = "chat_req ''hello'' ''Aiyoda''" and coach = "''Aiyoda''"
      and ctx = scen_chat and p = "PyDict [(PyStr ''prompt_prefix'', PyStr ''You are AIYoda.''),
        (PyStr ''image'', PyStr ''yoda.jpg'')]" and s = "''You are AIYoda.''" and prev = "Some ''Wellness Warrior''"]
  by (simp add: chat_req_def scen_chat_def scen_fs_def py_simps)

theorem chat_post_bad_history_witness:
  "chat_post scen_chat (Some ''Aiyoda'') (Some ((chat_req ''hello'' ''Aiyoda'')\<lparr>req_history := PyInt 7\<rparr>))
   = (ServerError None, Some ''Aiyoda'')"
  using chat_post_bad_history [where req = "(chat_req ''hello'' ''Aiyoda'')\<lparr>req_history := PyInt 7\<rparr>"
      and coach = "''Aiyoda''" and ctx = scen_chat and p = "PyDict [(PyStr ''prompt_prefix'', PyStr ''You are AIYoda.''),
        (PyStr ''image'', PyStr ''yoda.jpg'')]" and prefix = "PyStr ''You are AIYoda.''" and prev = "Some ''Aiyoda''"]
  by (simp add: chat_req_def scen_chat_def scen_fs_def py_simps)

theorem chat_prompt_degraded_witness:
  "final_prompt (retrieve_context False scen_state ''hello'') ''hello'' = ''User Query: hello''"
  using chat_prompt_degraded [of False scen_state "''hello''"] by simp

theorem chat_context_refines_retrieve_witness:
  "retrieve_context True scen_state ''fruit dessert'' = format_context [''apple pie'', ''banana bread'', ''car engine'']"
proof -
  have "retrieve_context True scen_state ''fruit dessert''
      = format_context (retrieve_spec scen_index scen_docs (encode_fn scen_model ''fruit dessert'') 3)"
    by (rule chat_context_refines_retrieve) (simp_all add: scen_defs rag_simps py_simps)
  then show ?thesis by (simp add: scen_defs rag_simps retrieve_spec_def)
qed

theorem startup_flag_without_context_witness:
  "load_rag_components dict_env rag_init = (True, snd (load_rag_components dict_env rag_init))
   \<and> \<not> is_list_or_tuple (metadata (snd (load_rag_components dict_env (rag_init :: int rag_state))))
   \<and> final_prompt (retrieve_context True (snd (load_rag_components dict_env rag_init)) ''fruit'') ''fruit''
       = ''User Query: fruit''"
proof -
  have h: "load_rag_components dict_env rag_init = (True, snd (load_rag_components dict_env rag_init))"
    "\<not> is_list_or_tuple (metadata (snd (load_rag_components dict_env (rag_init :: int rag_state))))"
    by (simp_all add: scen_defs rag_simps py_simps)
  show ?thesis using h startup_flag_without_context [OF h] by simp
qed

theorem manage_history_user_sanitized_witness:
  "HumanMessage ''hi'' \<in> set (manage_conversation_history scen_history None 15)
   \<and> ''hi'' \<noteq> [] \<and> py_strip ''hi'' = ''hi''"
proof -
  have h: "HumanMessage ''hi'' \<in> set (manage_conversation_history scen_history None 15)"
    by (simp add: manage_conversation_history_def scen_history_messages)
  show ?thesis using h manage_history_user_sanitized [OF h] by blast
qed

theorem chat_run_session_ok_witness:
  "session_ok scen_chat None
   \<and> snd (chat_run scen_chat None [Some (chat_req ''hello'' ''Aiyoda''), Some (chat_req ''hi'' ''Ghost'')]) = Some ''Aiyoda''
   \<and> session_ok scen_chat (snd (chat_run scen_chat None [Some (chat_req ''hello'' ''Aiyoda''), Some (chat_req ''hi'' ''Ghost'')]))"
proof -
  have h: "session_ok scen_chat None" by (simp add: session_ok_def)
  have "snd (chat_run scen_chat None [Some (chat_req ''hello'' ''Aiyoda''), Some (chat_req ''hi'' ''Ghost'')]) = Some ''Aiyoda''"
    by (simp add: chat_post_def chat_req_def scen_chat_def scen_fs_def py_simps split_beta)
  then show ?thesis
    using h chat_run_session_ok [OF h, of "[Some (chat_req ''hello'' ''Aiyoda''), Some (chat_req ''hi'' ''Ghost'')]"]
    by simp
qed

theorem chat_post_answer_witness:
  "chat_post scen_chat None (Some (chat_req ''hello'' ''Aiyoda''))
   = (AnswerResponse (clean_answer '' **Patience** you must have. '') ''req-1'', Some ''Aiyoda'')
   \<and> clean_answer '' **Patience** you must have. '' = ''Patience you must have.''"
proof -
  have "chat_post scen_chat None (Some (chat_req ''hello'' ''Aiyoda''))
      = (AnswerResponse (clean_answer '' **Patience** you must have. '') (req_id (chat_req ''hello'' ''Aiyoda'')),
         Some ''Aiyoda'')"
    by (rule chat_post_answer [where p = "PyDict [(PyStr ''prompt_prefix'', PyStr ''You are AIYoda.''),
        (PyStr ''image'', PyStr ''yoda.jpg'')]" and s = "''You are AIYoda.''"])
      (simp_all add: chat_req_def scen_chat_def scen_fs_def py_simps)
  moreover have "clean_answer '' **Patience** you must have. '' = ''Patience you must have.''"
    by (simp add: py_simps)
  ultimately show ?thesis by (simp add: chat_req_def)
qed

theorem chat_post_coach_file_errors_witness:
  "(\<forall>q. coach_read (chat_fs scen_chat) (coach_filename ''Ghost'') \<noteq> Persona q)
   \<and> (\<exists>code msg. chat_post scen_chat None (Some (chat_req ''hello'' ''Ghost'')) = (ErrorResponse code msg, None)
       \<and> (code = 400 \<longleftrightarrow> coach_read (chat_fs scen_chat) (coach_filename ''Ghost'') = FileMissing))"
proof -
  have h: "\<forall>q. coach_read (chat_fs scen_chat) (coach_filename ''Ghost'') \<noteq> Persona q"
    by (simp add: scen_chat_def scen_fs_def py_simps)
  show ?thesis
    using h chat_post_coach_file_errors [of "chat_req ''hello'' ''Ghost''" "''Ghost''" scen_chat None]
    by (simp add: chat_req_def)
qed

theorem sidebar_image_ok_witness:
  "yoda_entry \<in> set (load_coach_sidebar_data scen_fs)
   \<and> (sb_image yoda_entry = ''default.jpg''
      \<or> (\<exists>f kvs. coach_read scen_fs f = Persona (PyDict kvs) \<and> image_of kvs = PyStr (sb_image yoda_entry)
           \<and> image_exists scen_fs (sb_image yoda_entry)))"
proof -
  have h: "yoda_entry \<in> set (load_coach_sidebar_data scen_fs)" by (simp add: scen_sidebar)
  show ?thesis using h sidebar_image_ok [OF h] by blast
qed

theorem rag_ready_reachable_witness:
  "rag_reachable (rag_init :: int rag_state) \<and> good_snapshot scen_env
   \<and> are_rag_components_loaded (snd (load_rag_components scen_env (rag_init :: int rag_state)))"
proof -
  have h: "rag_reachable (rag_init :: int rag_state)" by (rule rag_reachable.init)
  have g: "good_snapshot scen_env" by (simp add: good_snapshot_def scen_defs py_simps)
  show ?thesis using h g rag_ready_reachable [OF h g] by blast
qed

theorem index_post_error_page_witness:
  "fst (index_post scen_chat None (Some bad_coach_req)) =
     Html \<lparr>template = ''error.html'', coaches = [yoda_entry, warrior_entry],
       error_message = Some (server_error_message None), current_coach = None, status = 500\<rparr>
   \<and> server_error_message None = ''An unexpected internal error occurred (Ref: N/A). Please try again later or contact support if the issue persists.''"
proof -
  let ?pg = "\<lparr>template = ''error.html'', coaches = [yoda_entry, warrior_entry],
       error_message = Some (server_error_message None), current_coach = None, status = 500\<rparr>"
  have h: "fst (index_post scen_chat None (Some bad_coach_req)) = Html ?pg"
    by (simp add: index_post_def chat_post_def bad_coach_req_def internal_server_error_def scen_sidebar
        scen_chat_def)
  have "error_message ?pg = Some (server_error_message None)"
    using index_post_error_page [OF h] by (simp add: bad_coach_req_def)
  then show ?thesis using h by (simp add: server_error_message_def)
qed

theorem startup_without_secret_key_witness:
  "app_startup nokey_env = Some (the (app_startup nokey_env)) \<and> env_secret_key nokey_env = None
   \<and> snd (index_post (chat_ctx_of (the (app_startup nokey_env)) scen_fs JokeRequestFailed (\<lambda>_ _. Some ''ok''))
        None (Some (chat_req ''hello'' ''Aiyoda''))) = None"
proof -
  have h: "app_startup nokey_env = Some (the (app_startup nokey_env))"
    by (simp add: app_startup_def nokey_env_def split_beta)
  have k: "env_secret_key nokey_env = None" by (simp add: nokey_env_def)
  show ?thesis using h k startup_without_secret_key [OF h k, of scen_fs JokeRequestFailed "\<lambda>_ _. Some ''ok''" None
      "Some (chat_req ''hello'' ''Aiyoda'')"] by blast
qed

theorem request_answered_from_snapshot_witness:
  "index_post (chat_ctx_of (the (app_startup key_env)) scen_fs JokeRequestFailed echo_gemini) None
     (Some (chat_req ''fruit dessert'' ''Aiyoda''))
   = (JsonChat (AnswerResponse (clean_answer (final_prompt
        (format_context [''apple pie'', ''banana bread'', ''car engine'']) ''fruit dessert'')) ''req-1'') 200,
      Some ''Aiyoda'')"
proof -
  have "index_post (chat_ctx_of (the (app_startup key_env)) scen_fs JokeRequestFailed echo_gemini) None
     (Some (chat_req ''fruit dessert'' ''Aiyoda'')) =
    ((case echo_gemini (create_gemini_chat_model (cfg_model_name (the (app_startup key_env))) (cfg_api_key (the (app_startup key_env))))
             (SystemMessage ''You are AIYoda.'' # manage_conversation_history [] None 15
              @ [HumanMessage (final_prompt (format_context (retrieve_spec scen_index scen_docs
                   (encode_fn scen_model (sanitize_input (req_message (chat_req ''fruit dessert'' ''Aiyoda'')))) 3))
                   (sanitize_input (req_message (chat_req ''fruit dessert'' ''Aiyoda''))))]) of
        None \<Rightarrow> internal_server_error scen_fs (Some (req_id (chat_req ''fruit dessert'' ''Aiyoda'')))
      | Some a \<Rightarrow> JsonChat (AnswerResponse (clean_answer a) (req_id (chat_req ''fruit dessert'' ''Aiyoda''))) 200),
     Some ''Aiyoda'')"
    by (rule request_answered_from_snapshot [where env = key_env and key = "''s3cret''"
        and md = "PyList (map PyStr scen_docs)"
        and p = "PyDict [(PyStr ''prompt_prefix'', PyStr ''You are AIYoda.''), (PyStr ''image'', PyStr ''yoda.jpg'')]"])
      (simp_all add: key_env_def nokey_env_def app_startup_def scen_defs model_wf_def chat_req_def scen_fs_def
        py_simps rag_simps split_beta)
  then show ?thesis
    by (simp add: echo_gemini_def chat_req_def scen_defs retrieve_spec_def py_simps rag_simps)
qed

theorem check_ignores_metadata_entries_witness:
  "fst (check_faiss_index (scen_env\<lparr>pkl_load := Some (PyList [PyInt 7, PyNone, PyInt 0])\<rparr>) (\<lambda>_. 0))
     = fst (check_faiss_index (scen_env\<lparr>pkl_load := Some (PyList (map PyStr scen_docs))\<rparr>) (\<lambda>_. 0))
   \<and> search_documents (snd (load_rag_components (scen_env\<lparr>pkl_load := Some (PyList [PyInt 7, PyNone, PyInt 0])\<rparr>)
       rag_init)) (PyStr ''fruit dessert'') 3 = []"
  using check_ignores_metadata_entries [of "[PyInt 7, PyNone, PyInt 0]" "map PyStr scen_docs" scen_env "\<lambda>_. 0"
      "PyStr ''fruit dessert''" 3]
  by (simp add: scen_docs_def)

theorem coach_page_upper_case_no_current_witness:
  "coach_page scen_fs ''AIYoda'' = CoachPage ''aiyoda.html'' [yoda_entry, warrior_entry] None"
proof -
  have h: "py_lower ''AIYoda'' \<noteq> ''AIYoda''" "map_of coach_template_mapping (py_lower ''AIYoda'') = Some ''aiyoda''"
    "template_exists scen_fs (''aiyoda'' @ ''.html'')"
    by (simp_all add: py_simps scen_fs_def)
  show ?thesis using coach_page_upper_case_no_current [OF h] by (simp add: scen_sidebar)
qed

theorem coach_route_status_witness:
  "\<exists>r. coach_route scen_fs ''Ghost'' = Html r \<and> status r = 404
     \<and> error_message r = Some ''Coach 'Ghost' not recognized.''"
proof -
  have "map_of coach_template_mapping (py_lower ''Ghost'') = None"
    by (simp add: coach_template_mapping_def py_simps)
  then show ?thesis using coach_route_status [of scen_fs "''Ghost''"] by (auto simp: QUOTE_def)
qed

end
